theory Spec2Isabelle
  imports Main "HOL-Library.Word"
begin

section \<open>Go strings\<close>

text \<open>
  A Go string is a sequence of bytes; it is modelled as a \<^typ>\<open>string\<close>. The helpers below
  are the functions of package \<^verbatim>\<open>strings\<close> that the registry code calls.
\<close>

definition HasSuffix :: "string \<Rightarrow> string \<Rightarrow> bool" where
  "HasSuffix s suffix =
     (length suffix \<le> length s \<and> drop (length s - length suffix) s = suffix)"

definition TrimSuffix :: "string \<Rightarrow> string \<Rightarrow> string" where
  "TrimSuffix s suffix =
     (if HasSuffix s suffix then take (length s - length suffix) s else s)"

definition HasPrefix :: "string \<Rightarrow> string \<Rightarrow> bool" where
  "HasPrefix s prefix = (take (length prefix) s = prefix)"

text \<open>\<^verbatim>\<open>strings.Contains\<close>: the substring occurs at some position.\<close>

fun Contains :: "string \<Rightarrow> string \<Rightarrow> bool" where
  "Contains [] substr = (substr = [])"
| "Contains (c # cs) substr = (HasPrefix (c # cs) substr \<or> Contains cs substr)"

text \<open>
  \<^verbatim>\<open>strings.Cut(s, sep)\<close> for a one-byte separator: the text before the first occurrence
  and the text after it; without an occurrence, all of \<^verbatim>\<open>s\<close> and the empty string.
\<close>

definition cut_before :: "char \<Rightarrow> string \<Rightarrow> string" where
  "cut_before sep s = takeWhile (\<lambda>c. c \<noteq> sep) s"

definition cut_after :: "char \<Rightarrow> string \<Rightarrow> string" where
  "cut_after sep s = drop 1 (dropWhile (\<lambda>c. c \<noteq> sep) s)"

text \<open>\<^verbatim>\<open>strings.Split(s, sep)\<close> for a one-byte separator; the result is never empty.\<close>

fun Split :: "string \<Rightarrow> char \<Rightarrow> string list" where
  "Split [] sep = [[]]"
| "Split (c # cs) sep =
     (if c = sep then [] # Split cs sep
      else (case Split cs sep of p # ps \<Rightarrow> (c # p) # ps | [] \<Rightarrow> [[c]]))"

text \<open>\<^verbatim>\<open>strings.Trim(s, cutset)\<close> for a cutset of one byte.\<close>

definition Trim :: "string \<Rightarrow> char \<Rightarrow> string" where
  "Trim s c = rev (dropWhile (\<lambda>x. x = c) (rev (dropWhile (\<lambda>x. x = c) s)))"

definition byte :: "char \<Rightarrow> nat" where
  "byte c = of_char c"

definition is_digit :: "char \<Rightarrow> bool" where
  "is_digit c = (byte CHR ''0'' \<le> byte c \<and> byte c \<le> byte CHR ''9'')"

definition is_lower :: "char \<Rightarrow> bool" where
  "is_lower c = (byte CHR ''a'' \<le> byte c \<and> byte c \<le> byte CHR ''z'')"

definition is_upper :: "char \<Rightarrow> bool" where
  "is_upper c = (byte CHR ''A'' \<le> byte c \<and> byte c \<le> byte CHR ''Z'')"

definition lower_ascii :: "char \<Rightarrow> char" where
  "lower_ascii c =
     (case map_of (zip ''ABCDEFGHIJKLMNOPQRSTUVWXYZ'' ''abcdefghijklmnopqrstuvwxyz'') c of
        Some l \<Rightarrow> l | None \<Rightarrow> c)"

subsection \<open>UTF-8, as package unicode/utf8 decodes it\<close>

definition is_cont :: "char \<Rightarrow> bool" where
  "is_cont c = (0x80 \<le> byte c \<and> byte c \<le> 0xBF)"

text \<open>
  The width of the rune that \<^verbatim>\<open>utf8.DecodeRuneInString\<close> finds at the head of a string when
  the head is a well-formed encoding, and 0 when it is not (Go then yields
  \<^verbatim>\<open>RuneError\<close> of width 1) or when the string is empty.
\<close>

fun rune_width :: "string \<Rightarrow> nat" where
  "rune_width [] = 0"
| "rune_width (c # cs) =
     (let b = byte c in
      if b < 0x80 then 1
      else if 0xC2 \<le> b \<and> b \<le> 0xDF then
        (case cs of c1 # _ \<Rightarrow> if is_cont c1 then 2 else 0 | _ \<Rightarrow> 0)
      else if 0xE0 \<le> b \<and> b \<le> 0xEF then
        (case cs of c1 # c2 # _ \<Rightarrow>
           if (if b = 0xE0 then 0xA0 \<le> byte c1 \<and> byte c1 \<le> 0xBF
               else if b = 0xED then 0x80 \<le> byte c1 \<and> byte c1 \<le> 0x9F
               else is_cont c1) \<and> is_cont c2
           then 3 else 0
         | _ \<Rightarrow> 0)
      else if 0xF0 \<le> b \<and> b \<le> 0xF4 then
        (case cs of c1 # c2 # c3 # _ \<Rightarrow>
           if (if b = 0xF0 then 0x90 \<le> byte c1 \<and> byte c1 \<le> 0xBF
               else if b = 0xF4 then 0x80 \<le> byte c1 \<and> byte c1 \<le> 0x8F
               else is_cont c1) \<and> is_cont c2 \<and> is_cont c3
           then 4 else 0
         | _ \<Rightarrow> 0)
      else 0)"

text \<open>
  \<^verbatim>\<open>strings.TrimSpace\<close> removes the leading and the trailing runes that are white space
  for \<^verbatim>\<open>unicode.IsSpace\<close>: the six ASCII ones, U+0085, U+00A0, U+1680, U+2000 to U+200A,
  U+2028, U+2029, U+202F, U+205F and U+3000. They are matched here in their UTF-8 form,
  from the front and, byte-reversed, from the back.
\<close>

definition is_ascii_space :: "char \<Rightarrow> bool" where
  "is_ascii_space c =
     (byte c = 0x09 \<or> byte c = 0x0A \<or> byte c = 0x0B \<or> byte c = 0x0C \<or> byte c = 0x0D
      \<or> byte c = 0x20)"

text \<open>The third byte of a white-space rune whose first two bytes are E2 80.\<close>

definition is_e2_80_space :: "char \<Rightarrow> bool" where
  "is_e2_80_space c =
     ((0x80 \<le> byte c \<and> byte c \<le> 0x8A) \<or> byte c = 0xA8 \<or> byte c = 0xA9 \<or> byte c = 0xAF)"

fun trim_left :: "string \<Rightarrow> string" where
  "trim_left [] = []"
| "trim_left (c # cs) =
     (if is_ascii_space c then trim_left cs
      else if byte c = 0xC2 then
        (case cs of
           c1 # r \<Rightarrow> if byte c1 = 0x85 \<or> byte c1 = 0xA0 then trim_left r else c # cs
         | _ \<Rightarrow> c # cs)
      else if byte c = 0xE1 \<or> byte c = 0xE2 \<or> byte c = 0xE3 then
        (case cs of
           c1 # c2 # r \<Rightarrow>
             if (byte c = 0xE1 \<and> byte c1 = 0x9A \<and> byte c2 = 0x80)
                \<or> (byte c = 0xE2 \<and> byte c1 = 0x80 \<and> is_e2_80_space c2)
                \<or> (byte c = 0xE2 \<and> byte c1 = 0x81 \<and> byte c2 = 0x9F)
                \<or> (byte c = 0xE3 \<and> byte c1 = 0x80 \<and> byte c2 = 0x80)
             then trim_left r else c # cs
         | _ \<Rightarrow> c # cs)
      else c # cs)"

text \<open>The same on the reversed string: the last byte of the rune comes first.\<close>

fun trim_reversed :: "string \<Rightarrow> string" where
  "trim_reversed [] = []"
| "trim_reversed (c # cs) =
     (if is_ascii_space c then trim_reversed cs
      else
        (case cs of
           c1 # r \<Rightarrow>
             if byte c1 = 0xC2 \<and> (byte c = 0x85 \<or> byte c = 0xA0) then trim_reversed r
             else
               (case r of
                  c2 # r' \<Rightarrow>
                    if (byte c2 = 0xE1 \<and> byte c1 = 0x9A \<and> byte c = 0x80)
                       \<or> (byte c2 = 0xE2 \<and> byte c1 = 0x80 \<and> is_e2_80_space c)
                       \<or> (byte c2 = 0xE2 \<and> byte c1 = 0x81 \<and> byte c = 0x9F)
                       \<or> (byte c2 = 0xE3 \<and> byte c1 = 0x80 \<and> byte c = 0x80)
                    then trim_reversed r' else c # cs
                | _ \<Rightarrow> c # cs)
         | _ \<Rightarrow> c # cs))"

definition TrimSpace :: "string \<Rightarrow> string" where
  "TrimSpace s = rev (trim_reversed (rev (trim_left s)))"

text \<open>
  \<^verbatim>\<open>strings.ToLower\<close>, exact on the strings whose image is pure ASCII, which is all that a
  lookup in a table of ASCII words observes: beside \<^verbatim>\<open>A\<close> to \<^verbatim>\<open>Z\<close>, the only runes that
  \<^verbatim>\<open>unicode.ToLower\<close> sends to an ASCII letter are U+0130 (to \<^verbatim>\<open>i\<close>) and U+212A (to
  \<^verbatim>\<open>k\<close>). Every other byte is kept, so any other non-ASCII rune stays non-ASCII.
\<close>

fun ToLower :: "string \<Rightarrow> string" where
  "ToLower [] = []"
| "ToLower (c # cs) =
     (if byte c = 0xC4 \<and> take 1 cs = [CHR 0xB0] then CHR ''i'' # ToLower (drop 1 cs)
      else if byte c = 0xE2 \<and> take 2 cs = [CHR 0x84, CHR 0xAA] then CHR ''k'' # ToLower (drop 2 cs)
      else lower_ascii c # ToLower cs)"

section \<open>URL validator: reachability (url\_validator.go)\<close>

text \<open>
  \<^verbatim>\<open>NewURLValidator\<close> builds an \<^verbatim>\<open>http.Client\<close> of which it sets the timeout only, so
  that the client's redirect policy is the default one; durations are in seconds.
\<close>

record http_Client =
  Timeout :: nat

record URLValidator =
  httpTimeout :: nat
  client :: http_Client

definition NewURLValidator :: URLValidator where
  "NewURLValidator = \<lparr> httpTimeout = 15, client = \<lparr> Timeout = 15 \<rparr> \<rparr>"

text \<open>
  What the client meets outside the program: whether \<^verbatim>\<open>http.NewRequest\<close> accepts the
  endpoint; what one GET of a URL brings back, no response (which includes the timeout) or
  a status code with the \<^verbatim>\<open>Location\<close> header (empty when there is none); and the URL
  that a \<^verbatim>\<open>Location\<close> denotes relative to the URL requested (\<^verbatim>\<open>req.URL.Parse\<close>), which is
  the library's.
\<close>

datatype reply = NoReply | Reply nat string

record network =
  request_ok :: "string \<Rightarrow> bool"
  round_trip :: "nat \<Rightarrow> string \<Rightarrow> reply"
  resolve_location :: "string \<Rightarrow> string \<Rightarrow> string option"

text \<open>
  \<^verbatim>\<open>client.Do\<close> of package net/http for a GET without a body and a client without
  \<^verbatim>\<open>CheckRedirect\<close>. A response with one of the statuses 301, 302, 303, 307 and 308
  (\<^verbatim>\<open>redirectBehavior\<close>) and a \<^verbatim>\<open>Location\<close> is not returned: the location is requested
  in its turn. A response without a \<^verbatim>\<open>Location\<close> is returned as it is, a location that
  does not parse is an error, and so is the request that would follow ten requests already
  sent (``stopped after 10 redirects''). The counter is the number of requests sent before
  this one. Beside the outcome, an error or the status code of the response returned, the
  function gives the requests sent, in order, each with the timeout of the client.
\<close>

definition shouldRedirect :: "nat \<Rightarrow> bool" where
  "shouldRedirect code = (code = 301 \<or> code = 302 \<or> code = 303 \<or> code = 307 \<or> code = 308)"

datatype client_error = SendFailed | BadLocation | TooManyRedirects

function client_do ::
  "network \<Rightarrow> nat \<Rightarrow> nat \<Rightarrow> string \<Rightarrow> (client_error + nat) \<times> (nat \<times> string) list" where
  "client_do net timeout sent url =
     (case round_trip net timeout url of
        NoReply \<Rightarrow> (Inl SendFailed, [(timeout, url)])
      | Reply code loc \<Rightarrow>
          if \<not> shouldRedirect code \<or> loc = [] then (Inr code, [(timeout, url)])
          else
            (case resolve_location net url loc of
               None \<Rightarrow> (Inl BadLocation, [(timeout, url)])
             | Some u \<Rightarrow>
                 if 10 \<le> Suc sent then (Inl TooManyRedirects, [(timeout, url)])
                 else
                   (let (r, reqs) = client_do net timeout (Suc sent) u
                    in (r, (timeout, url) # reqs))))"
  by pat_completeness auto
termination
  by (relation "measure (\<lambda>(net, timeout, sent, url). 10 - sent)") auto

declare client_do.simps [simp del]

definition client_Do ::
  "network \<Rightarrow> http_Client \<Rightarrow> string \<Rightarrow> (client_error + nat) \<times> (nat \<times> string) list" where
  "client_Do net c url = client_do net (Timeout c) 0 url"

datatype endpoint_error =
    CreateRequestFailed
  | RequestFailed
  | RepositoryNotFound404
  | AccessForbidden403
  | UnexpectedStatus nat

text \<open>
  \<^verbatim>\<open>testEndpoint\<close>, with the requests it has sent. The status code it looks at is the one
  of the response that \<^verbatim>\<open>client.Do\<close> returns.
\<close>

definition testEndpoint ::
  "URLValidator \<Rightarrow> network \<Rightarrow> string \<Rightarrow> (endpoint_error + unit) \<times> (nat \<times> string) list" where
  "testEndpoint v net endpoint =
     (if \<not> request_ok net endpoint then (Inl CreateRequestFailed, [])
      else
        (case client_Do net (client v) endpoint of
           (Inl err, reqs) \<Rightarrow> (Inl RequestFailed, reqs)
         | (Inr code, reqs) \<Rightarrow>
             (if code = 200 \<or> code = 301 \<or> code = 302 \<or> code = 401 then (Inr (), reqs)
              else if code = 404 then (Inl RepositoryNotFound404, reqs)
              else if code = 403 then (Inl AccessForbidden403, reqs)
              else (Inl (UnexpectedStatus code), reqs))))"

definition buildGitEndpoints :: "string \<Rightarrow> string list" where
  "buildGitEndpoints rawURL =
     (let baseURL = TrimSuffix rawURL ''.git'';
          endpoints = [rawURL];
          endpoints = (if \<not> HasSuffix rawURL ''.git'' then endpoints @ [baseURL @ ''.git'']
                       else endpoints);
          endpoints = endpoints @ [baseURL @ ''.git/info/refs''];
          endpoints = endpoints @ [baseURL @ ''/info/refs''];
          endpoints = endpoints @ [baseURL]
      in endpoints)"

text \<open>
  The error of \<^verbatim>\<open>checkHTTPSAccessibility\<close> carries \<^verbatim>\<open>lastErr\<close>, which is \<^verbatim>\<open>nil\<close>
  only when the loop body never ran.
\<close>

datatype access_error = NotAccessible "endpoint_error option"

text \<open>
  The loop over the endpoints. Beside the result it returns what was tried, in order: each
  endpoint handed to \<^verbatim>\<open>testEndpoint\<close> with the requests sent for it.
\<close>

type_synonym probes = "(string \<times> (nat \<times> string) list) list"

fun probeEndpoints ::
  "URLValidator \<Rightarrow> network \<Rightarrow> endpoint_error option \<Rightarrow> string list
     \<Rightarrow> (access_error + unit) \<times> probes" where
  "probeEndpoints v net lastErr [] = (Inl (NotAccessible lastErr), [])"
| "probeEndpoints v net lastErr (endpoint # rest) =
     (case testEndpoint v net endpoint of
        (Inl err, reqs) \<Rightarrow>
          (let (r, tried) = probeEndpoints v net (Some err) rest
           in (r, (endpoint, reqs) # tried))
      | (Inr ok, reqs) \<Rightarrow> (Inr (), [(endpoint, reqs)]))"

definition checkHTTPSAccessibility ::
  "URLValidator \<Rightarrow> network \<Rightarrow> string \<Rightarrow> (access_error + unit) \<times> probes" where
  "checkHTTPSAccessibility v net rawURL =
     probeEndpoints v net None (buildGitEndpoints rawURL)"


section \<open>URL validator: format (url\_validator.go)\<close>

subsection \<open>\<^verbatim>\<open>url.Parse\<close> of package net/url\<close>

text \<open>
  The fields of \<^verbatim>\<open>url.URL\<close> that the validator reads, and \<^verbatim>\<open>Opaque\<close>, which
  \<^verbatim>\<open>url.Parse\<close> fills for a URL with a scheme and no leading slash.
\<close>

record url_URL =
  Scheme :: string
  Opaque :: string
  Host :: string
  Path :: string

datatype parse_error =
    InvalidControlCharacter
  | MissingProtocolScheme
  | FirstPathSegmentColon
  | InvalidAuthorityOrPath
  | InvalidFragment

text \<open>
  \<^verbatim>\<open>getScheme\<close> scans for the first byte that is not a letter; a digit, \<^verbatim>\<open>+\<close>, \<^verbatim>\<open>-\<close> or
  \<^verbatim>\<open>.\<close> is allowed after the first position; a colon ends the scheme; any other byte means
  that there is no scheme. The counter is the index \<^verbatim>\<open>i\<close> of the source's loop.
\<close>

fun getScheme_from :: "string \<Rightarrow> nat \<Rightarrow> string \<Rightarrow> parse_error + string \<times> string" where
  "getScheme_from rawURL i [] = Inr ([], rawURL)"
| "getScheme_from rawURL i (c # cs) =
     (if is_lower c \<or> is_upper c then getScheme_from rawURL (Suc i) cs
      else if is_digit c \<or> c = CHR ''+'' \<or> c = CHR ''-'' \<or> c = CHR ''.'' then
        (if i = 0 then Inr ([], rawURL) else getScheme_from rawURL (Suc i) cs)
      else if c = CHR '':'' then
        (if i = 0 then Inl MissingProtocolScheme
         else Inr (take i rawURL, drop (Suc i) rawURL))
      else Inr ([], rawURL))"

definition getScheme :: "string \<Rightarrow> parse_error + string \<times> string" where
  "getScheme rawURL = getScheme_from rawURL 0 rawURL"

definition stringContainsCTLByte :: "string \<Rightarrow> bool" where
  "stringContainsCTLByte s = (\<exists>c \<in> set s. byte c < 0x20 \<or> byte c = 0x7F)"

text \<open>
  The parsing of the authority and of the path (\<^verbatim>\<open>parseAuthority\<close>, \<^verbatim>\<open>setPath\<close>) and of the
  fragment (\<^verbatim>\<open>setFragment\<close>) is the library's and is taken as a parameter: from the
  lower-cased scheme and the rest of the URL to the host and the path, or a failure, and
  whether a fragment is well formed.
\<close>

record url_library =
  parse_hierarchical :: "string \<Rightarrow> string \<Rightarrow> (string \<times> string) option"
  fragment_ok :: "string \<Rightarrow> bool"

text \<open>
  \<^verbatim>\<open>parse(rawURL, viaRequest = false)\<close>, up to the authority: a control byte is an error;
  \<^verbatim>\<open>*\<close> is a path; the scheme is split off and lower-cased; the query is cut off at the
  first question mark; a rest without a leading slash is the opaque part of a URL that has
  a scheme, and without a scheme it must not have a colon in its first path segment
  (``first path segment in URL cannot contain colon'').
\<close>

definition parse_no_fragment :: "url_library \<Rightarrow> string \<Rightarrow> parse_error + url_URL" where
  "parse_no_fragment lib rawURL =
     (if stringContainsCTLByte rawURL then Inl InvalidControlCharacter
      else if rawURL = ''*'' then Inr \<lparr> Scheme = [], Opaque = [], Host = [], Path = ''*'' \<rparr>
      else
        (case getScheme rawURL of
           Inl e \<Rightarrow> Inl e
         | Inr (scheme0, rest0) \<Rightarrow>
             (let scheme = map lower_ascii scheme0;
                  rest = (if HasSuffix rest0 ''?'' \<and> count_list rest0 CHR ''?'' = 1
                          then butlast rest0 else cut_before CHR ''?'' rest0)
              in if \<not> HasPrefix rest ''/'' \<and> scheme \<noteq> [] then
                   Inr \<lparr> Scheme = scheme, Opaque = rest, Host = [], Path = [] \<rparr>
                 else if \<not> HasPrefix rest ''/'' \<and> CHR '':'' \<in> set (cut_before CHR ''/'' rest) then
                   Inl FirstPathSegmentColon
                 else
                   (case parse_hierarchical lib scheme rest of
                      None \<Rightarrow> Inl InvalidAuthorityOrPath
                    | Some (host, path) \<Rightarrow>
                        Inr \<lparr> Scheme = scheme, Opaque = [], Host = host, Path = path \<rparr>))))"

text \<open>\<^verbatim>\<open>url.Parse\<close>: the fragment is cut off first and set last.\<close>

definition url_Parse :: "url_library \<Rightarrow> string \<Rightarrow> parse_error + url_URL" where
  "url_Parse lib rawURL =
     (case parse_no_fragment lib (cut_before CHR ''#'' rawURL) of
        Inl e \<Rightarrow> Inl e
      | Inr u \<Rightarrow>
          (let frag = cut_after CHR ''#'' rawURL
           in if frag = [] then Inr u
              else if fragment_ok lib frag then Inr u
              else Inl InvalidFragment))"

subsection \<open>The validator\<close>

datatype format_error =
    FailedToParseURL parse_error
  | SchemeRequired
  | UnsupportedScheme string
  | HostRequired
  | RepositoryPathRequired
  | OwnerRepositoryFormat
  | GitHubFormat
  | GitLabFormat
  | BitbucketFormat
  | GenericPathRequired
  | OwnerAndRepositoryRequired
  | InvalidGitHubOwner string
  | InvalidGitHubRepository string
  | RepositoryNameRequired
  | InvalidRepositoryName string
  | WorkspaceAndRepositoryRequired
  | InvalidSSHFormat
  | SSHHostRequired
  | SSHPathRequired

text \<open>
  The pattern \<^verbatim>\<open>^git@([^:]+):([^/].+)$\<close>. A negated class and the dot each consume one
  rune, and the dot does not match a newline. When the pattern matches, the first group is
  the text between \<^verbatim>\<open>git@\<close> and the first colon and the second group is all that follows
  that colon.
\<close>

definition ssh_host :: "string \<Rightarrow> string" where
  "ssh_host rawURL = cut_before CHR '':'' (drop 4 rawURL)"

definition ssh_path :: "string \<Rightarrow> string" where
  "ssh_path rawURL = cut_after CHR '':'' (drop 4 rawURL)"

definition sshPattern_matches :: "string \<Rightarrow> bool" where
  "sshPattern_matches rawURL =
     (HasPrefix rawURL ''git@''
      \<and> ssh_host rawURL \<noteq> []
      \<and> CHR '':'' \<in> set (drop 4 rawURL)
      \<and> (let p = ssh_path rawURL; w = max 1 (rune_width p)
         in p \<noteq> [] \<and> hd p \<noteq> CHR ''/'' \<and> w < length p \<and> CHR 0x0A \<notin> set (drop w p)))"

definition validateSSHURL :: "string \<Rightarrow> format_error + unit" where
  "validateSSHURL rawURL =
     (if \<not> sshPattern_matches rawURL then Inl InvalidSSHFormat
      else if ssh_host rawURL = [] then Inl SSHHostRequired
      else if ssh_path rawURL = [] then Inl SSHPathRequired
      else Inr ())"

text \<open>The pattern \<^verbatim>\<open>^[a-zA-Z0-9._-]+$\<close>.\<close>

definition validName :: "string \<Rightarrow> bool" where
  "validName s =
     (s \<noteq> [] \<and> (\<forall>c \<in> set s. is_lower c \<or> is_upper c \<or> is_digit c
                               \<or> c = CHR ''.'' \<or> c = CHR ''_'' \<or> c = CHR ''-''))"

definition validateGitHubURL :: "string list \<Rightarrow> format_error + unit" where
  "validateGitHubURL pathParts =
     (if length pathParts < 2 then Inl GitHubFormat
      else
        (let owner = pathParts ! 0; repo = pathParts ! 1
         in if owner = [] \<or> repo = [] then Inl OwnerAndRepositoryRequired
            else if \<not> validName owner then Inl (InvalidGitHubOwner owner)
            else if \<not> validName (TrimSuffix repo ''.git'')
              then Inl (InvalidGitHubRepository (TrimSuffix repo ''.git''))
            else Inr ()))"

definition validateGitLabURL :: "string list \<Rightarrow> format_error + unit" where
  "validateGitLabURL pathParts =
     (if length pathParts < 2 then Inl GitLabFormat
      else
        (let repo = last pathParts
         in if repo = [] then Inl RepositoryNameRequired
            else if \<not> validName (TrimSuffix repo ''.git'')
              then Inl (InvalidRepositoryName (TrimSuffix repo ''.git''))
            else Inr ()))"

definition validateBitbucketURL :: "string list \<Rightarrow> format_error + unit" where
  "validateBitbucketURL pathParts =
     (if length pathParts < 2 then Inl BitbucketFormat
      else
        (let workspace = pathParts ! 0; repo = pathParts ! 1
         in if workspace = [] \<or> repo = [] then Inl WorkspaceAndRepositoryRequired
            else Inr ()))"

definition validateGenericGitURL :: "string list \<Rightarrow> format_error + unit" where
  "validateGenericGitURL pathParts =
     (if length pathParts < 1 then Inl GenericPathRequired
      else if last pathParts = [] then Inl RepositoryNameRequired
      else Inr ())"

definition validateGitHostingPattern :: "string \<Rightarrow> string \<Rightarrow> format_error + unit" where
  "validateGitHostingPattern host path0 =
     (let path = TrimSuffix path0 ''/'';
          pathParts = Split (Trim path CHR ''/'') CHR ''/''
      in if length pathParts < 2 then Inl OwnerRepositoryFormat
         else if Contains host ''github.com'' then validateGitHubURL pathParts
         else if Contains host ''gitlab.com'' \<or> Contains host ''gitlab''
           then validateGitLabURL pathParts
         else if Contains host ''bitbucket.org'' then validateBitbucketURL pathParts
         else validateGenericGitURL pathParts)"

definition validateHTTPSURL :: "url_URL \<Rightarrow> format_error + unit" where
  "validateHTTPSURL parsedURL =
     (if Host parsedURL = [] then Inl HostRequired
      else if Path parsedURL = [] \<or> Path parsedURL = ''/'' then Inl RepositoryPathRequired
      else validateGitHostingPattern (Host parsedURL) (Path parsedURL))"

definition validateURLFormat :: "url_library \<Rightarrow> string \<Rightarrow> format_error + unit" where
  "validateURLFormat lib rawURL =
     (case url_Parse lib rawURL of
        Inl e \<Rightarrow> Inl (FailedToParseURL e)
      | Inr parsedURL \<Rightarrow>
          (if Scheme parsedURL = [] then Inl SchemeRequired
           else if Scheme parsedURL = ''https'' then validateHTTPSURL parsedURL
           else if Scheme parsedURL = ''git'' then validateSSHURL rawURL
           else Inl (UnsupportedScheme (Scheme parsedURL))))"

subsection \<open>The two phases\<close>

datatype accessibility_error =
    FailedToParseForAccessibility parse_error
  | EndpointsFailed access_error

definition checkAccessibility ::
  "url_library \<Rightarrow> URLValidator \<Rightarrow> network \<Rightarrow> string
     \<Rightarrow> (accessibility_error + unit) \<times> probes" where
  "checkAccessibility lib v net rawURL =
     (case url_Parse lib rawURL of
        Inl e \<Rightarrow> (Inl (FailedToParseForAccessibility e), [])
      | Inr parsedURL \<Rightarrow>
          if Scheme parsedURL = ''git'' then (Inr (), [])
          else if Scheme parsedURL = ''https'' then
            (case checkHTTPSAccessibility v net rawURL of
               (Inl e, reqs) \<Rightarrow> (Inl (EndpointsFailed e), reqs)
             | (Inr u, reqs) \<Rightarrow> (Inr (), reqs))
          else (Inr (), []))"

datatype url_error =
    InvalidURLFormat format_error
  | AccessibilityCheckFailed accessibility_error

definition ValidateURL ::
  "url_library \<Rightarrow> URLValidator \<Rightarrow> network \<Rightarrow> string
     \<Rightarrow> (url_error + unit) \<times> probes" where
  "ValidateURL lib v net rawURL =
     (case validateURLFormat lib rawURL of
        Inl e \<Rightarrow> (Inl (InvalidURLFormat e), [])
      | Inr u \<Rightarrow>
          (case checkAccessibility lib v net rawURL of
             (Inl e, reqs) \<Rightarrow> (Inl (AccessibilityCheckFailed e), reqs)
           | (Inr u', reqs) \<Rightarrow> (Inr (), reqs)))"

section \<open>Data model (registry.go)\<close>

text \<open>
  A \<^verbatim>\<open>time.Time\<close> is modelled by the instant it denotes, in nanoseconds since
  0001-01-01 00:00:00 UTC, so that the zero value \<^verbatim>\<open>time.Time{}\<close> is 0. The location and the
  monotonic clock reading of a Go time are not part of the model.
\<close>

type_synonym Time = int

definition zero_time :: Time where
  "zero_time = 0"

record Registry =
  URL :: string
  Name :: string
  Description :: string
  AddedAt :: Time
  LastSync :: Time

record Module =
  module_Name :: string
  module_Description :: string
  module_Version :: string
  module_Path :: string
  module_Shell :: string

text \<open>
  The field \<^verbatim>\<open>Modules\<close> is a Go map. It is kept as the list of its entries in the order
  in which a \<^verbatim>\<open>range\<close> loop over it visits them, an order that Go leaves unspecified.
\<close>

record RegistryIndex =
  index_Name :: string
  index_Description :: string
  index_Version :: string
  index_Modules :: "(string \<times> Module) list"

section \<open>JSON documents (encoding/json)\<close>

datatype json =
    JNull
  | JBool bool
  | JNumber string
  | JString string
  | JArray "json list"
  | JObject "(string \<times> json) list"

text \<open>
  A Go string written as a JSON string is coerced to valid UTF-8: every byte that does not
  start a well-formed encoding is replaced by U+FFFD (bytes EF BF BD). The counter is the
  number of bytes of the current rune that are still to be copied.
\<close>

fun coerce_utf8 :: "nat \<Rightarrow> string \<Rightarrow> string" where
  "coerce_utf8 k [] = []"
| "coerce_utf8 k (c # cs) =
     (if 0 < k then c # coerce_utf8 (k - 1) cs
      else if rune_width (c # cs) = 0
        then [CHR 0xEF, CHR 0xBF, CHR 0xBD] @ coerce_utf8 0 cs
      else c # coerce_utf8 (rune_width (c # cs) - 1) cs)"

definition json_string :: "string \<Rightarrow> string" where
  "json_string s = coerce_utf8 0 s"

text \<open>\<^verbatim>\<open>utf8.ValidString\<close>: every byte starts or continues a well-formed encoding.\<close>

fun ValidString_from :: "nat \<Rightarrow> string \<Rightarrow> bool" where
  "ValidString_from k [] = True"
| "ValidString_from k (c # cs) =
     (if 0 < k then ValidString_from (k - 1) cs
      else rune_width (c # cs) \<noteq> 0 \<and> ValidString_from (rune_width (c # cs) - 1) cs)"

definition utf8_ValidString :: "string \<Rightarrow> bool" where
  "utf8_ValidString s = ValidString_from 0 s"

text \<open>
  \<^verbatim>\<open>Time.MarshalJSON\<close> and \<^verbatim>\<open>Time.UnmarshalJSON\<close> of package time are taken as
  parameters: the RFC 3339 text of a time, when it has one, and the time that a text denotes,
  when it denotes one.
\<close>

record time_codec =
  time_MarshalJSON :: "Time \<Rightarrow> string option"
  time_UnmarshalJSON :: "string \<Rightarrow> Time option"

text \<open>
  \<^verbatim>\<open>json.Marshal\<close> of a \<^verbatim>\<open>Registry\<close>, by its struct tags: \<^verbatim>\<open>description\<close> is left out
  when empty; \<^verbatim>\<open>omitempty\<close> has no effect on \<^verbatim>\<open>last_sync\<close>, which is a struct.
\<close>

definition marshal_Registry :: "time_codec \<Rightarrow> Registry \<Rightarrow> json option" where
  "marshal_Registry codec r =
     (case (time_MarshalJSON codec (AddedAt r), time_MarshalJSON codec (LastSync r)) of
        (Some added, Some synced) \<Rightarrow>
          Some (JObject
            ([(''url'', JString (json_string (URL r))),
              (''name'', JString (json_string (Name r)))]
             @ (if Description r = [] then []
                else [(''description'', JString (json_string (Description r)))])
             @ [(''added_at'', JString added), (''last_sync'', JString synced)]))
      | _ \<Rightarrow> None)"

fun marshal_list :: "time_codec \<Rightarrow> Registry list \<Rightarrow> json list option" where
  "marshal_list codec [] = Some []"
| "marshal_list codec (r # rs) =
     (case marshal_Registry codec r of
        None \<Rightarrow> None
      | Some j \<Rightarrow> (case marshal_list codec rs of None \<Rightarrow> None | Some js \<Rightarrow> Some (j # js)))"

definition json_MarshalIndent :: "time_codec \<Rightarrow> Registry list \<Rightarrow> json option" where
  "json_MarshalIndent codec rs = map_option JArray (marshal_list codec rs)"

text \<open>
  \<^verbatim>\<open>json.Unmarshal\<close> into a \<^verbatim>\<open>Registry\<close>. A key selects the field whose tag it equals
  under Unicode simple case folding; other keys are skipped; a later member overwrites an
  earlier one; \<^verbatim>\<open>null\<close> leaves a field as it is; a value of the wrong kind is an error.

  The tags are words of lower-case ASCII letters and the underscore. Beside the two ASCII
  forms of a letter, the only runes that fold to an ASCII letter are U+017F (with \<^verbatim>\<open>s\<close>)
  and U+212A (with \<^verbatim>\<open>k\<close>); \<^verbatim>\<open>fold_key\<close> sends each of them to the lower-case letter and
  keeps every other byte, so a key folds to a tag exactly when its image is the tag.
\<close>

fun fold_key :: "string \<Rightarrow> string" where
  "fold_key [] = []"
| "fold_key (c # cs) =
     (if byte c = 0xC5 \<and> take 1 cs = [CHR 0xBF] then CHR ''s'' # fold_key (drop 1 cs)
      else if byte c = 0xE2 \<and> take 2 cs = [CHR 0x84, CHR 0xAA] then CHR ''k'' # fold_key (drop 2 cs)
      else lower_ascii c # fold_key cs)"

definition zero_Registry :: Registry where
  "zero_Registry =
     \<lparr> URL = [], Name = [], Description = [], AddedAt = zero_time, LastSync = zero_time \<rparr>"

definition unmarshal_string :: "json \<Rightarrow> string \<Rightarrow> string option" where
  "unmarshal_string j old =
     (case j of JNull \<Rightarrow> Some old | JString s \<Rightarrow> Some (json_string s) | _ \<Rightarrow> None)"

definition unmarshal_time :: "time_codec \<Rightarrow> json \<Rightarrow> Time \<Rightarrow> Time option" where
  "unmarshal_time codec j old =
     (case j of JNull \<Rightarrow> Some old | JString s \<Rightarrow> time_UnmarshalJSON codec s | _ \<Rightarrow> None)"

definition unmarshal_member :: "time_codec \<Rightarrow> string \<times> json \<Rightarrow> Registry \<Rightarrow> Registry option" where
  "unmarshal_member codec m r =
     (let key = fold_key (fst m); j = snd m
      in if key = ''url'' then map_option (\<lambda>v. r\<lparr>URL := v\<rparr>) (unmarshal_string j (URL r))
         else if key = ''name'' then map_option (\<lambda>v. r\<lparr>Name := v\<rparr>) (unmarshal_string j (Name r))
         else if key = ''description''
           then map_option (\<lambda>v. r\<lparr>Description := v\<rparr>) (unmarshal_string j (Description r))
         else if key = ''added_at''
           then map_option (\<lambda>v. r\<lparr>AddedAt := v\<rparr>) (unmarshal_time codec j (AddedAt r))
         else if key = ''last_sync''
           then map_option (\<lambda>v. r\<lparr>LastSync := v\<rparr>) (unmarshal_time codec j (LastSync r))
         else Some r)"

fun unmarshal_members :: "time_codec \<Rightarrow> (string \<times> json) list \<Rightarrow> Registry \<Rightarrow> Registry option" where
  "unmarshal_members codec [] r = Some r"
| "unmarshal_members codec (m # ms) r =
     (case unmarshal_member codec m r of
        None \<Rightarrow> None
      | Some r' \<Rightarrow> unmarshal_members codec ms r')"

definition unmarshal_Registry :: "time_codec \<Rightarrow> json \<Rightarrow> Registry option" where
  "unmarshal_Registry codec j =
     (case j of
        JNull \<Rightarrow> Some zero_Registry
      | JObject ms \<Rightarrow> unmarshal_members codec ms zero_Registry
      | _ \<Rightarrow> None)"

fun unmarshal_list :: "time_codec \<Rightarrow> json list \<Rightarrow> Registry list option" where
  "unmarshal_list codec [] = Some []"
| "unmarshal_list codec (j # js) =
     (case unmarshal_Registry codec j of
        None \<Rightarrow> None
      | Some r \<Rightarrow> (case unmarshal_list codec js of None \<Rightarrow> None | Some rs \<Rightarrow> Some (r # rs)))"

text \<open>Into the \<^verbatim>\<open>nil\<close> slice of a fresh client; \<^verbatim>\<open>null\<close> leaves it \<^verbatim>\<open>nil\<close>.\<close>

definition json_Unmarshal :: "time_codec \<Rightarrow> json \<Rightarrow> Registry list option" where
  "json_Unmarshal codec j =
     (case j of JNull \<Rightarrow> Some [] | JArray js \<Rightarrow> unmarshal_list codec js | _ \<Rightarrow> None)"

section \<open>The file system and the outside world\<close>

text \<open>
  What the code can observe of a directory \<^verbatim>\<open><cache>/<name>\<close>: whether \<^verbatim>\<open>.git\<close> is a
  directory in it, the state of \<^verbatim>\<open>index.json\<close>, what is found at a module path joined to
  it, and what \<^verbatim>\<open>os.Stat\<close> says of \<^verbatim>\<open>modules\<close>. A file is represented by what reading
  and decoding it yields.
\<close>

datatype index_file =
    IndexMissing
  | IndexUnreadable
  | IndexNotJSON
  | IndexParsed RegistryIndex

datatype manifest_file =
    ManifestMissing
  | ManifestUnreadable
  | ManifestNotJSON
  | ManifestJSON json

datatype module_entry = PathMissing | PathPresent manifest_file

datatype modules_stat = ModulesMissing | ModulesStatError | ModulesNotDirectory | ModulesDirectory

record repo_tree =
  git_dir :: bool
  index_json :: index_file
  module_at :: "string \<Rightarrow> module_entry"
  modules_dir :: modules_stat

datatype entry = NotADirectory | Directory repo_tree

text \<open>
  The cache root is absent, or it is a directory with at most one entry for each name. The
  names are keys: two names are taken to denote two places directly under the root. The
  code forms the place with \<^verbatim>\<open>filepath.Join\<close>, for which the empty name and \<^verbatim>\<open>.\<close> are
  the root itself and a name with a separator or with \<^verbatim>\<open>..\<close> is a place further down or
  outside; such names are not told apart from the others here.
\<close>

datatype cache_root = NoCacheDir | CacheDir "string \<Rightarrow> entry option"

datatype stored = Unreadable | NotJSON | Document json

datatype git_error =
    CreateCacheDirFailed
  | GitCloneFailed
  | GitPullFailed
  | RepositoryNotFound string
  | RemoveRepositoryFailed
  | RepositoryNotCloned string
  | InvalidCharacter nat

text \<open>
  What the program does to the outside world: the two \<^verbatim>\<open>git\<close> commands, the recursive
  delete, the write of \<^verbatim>\<open>registries.json\<close>, and the one line in which the client reports
  an error without returning it, the \<^verbatim>\<open>Warning: failed to remove cached repository\<close> that
  \<^verbatim>\<open>RemoveRegistry\<close> prints with \<^verbatim>\<open>fmt.Printf\<close>. The \<^verbatim>\<open>Debug\<close> and \<^verbatim>\<open>Info\<close> lines
  of package \<^verbatim>\<open>logger\<close>, which name the directory about to be cloned, updated or removed
  and never an error, are not recorded.
\<close>

datatype action =
    GitClone string string
  | GitPull string
  | RemoveAll string
  | WriteFile json
  | PrintWarning git_error

text \<open>
  The state: the list held by the client, the file \<^verbatim>\<open>registries.json\<close>, the cache, and the
  external actions started so far, oldest first (a record kept for the statements, which
  the code does not read).
\<close>

record state =
  registries :: "Registry list"
  registries_file :: "stored option"
  cache :: cache_root
  actions :: "action list"

text \<open>
  What the outside world does during one call: whether \<^verbatim>\<open>os.MkdirAll\<close> can create a
  missing cache root; the exit status of \<^verbatim>\<open>git clone\<close> and of \<^verbatim>\<open>git pull\<close> and what
  each leaves at the target; what \<^verbatim>\<open>os.RemoveAll\<close> leaves (nothing when it succeeds); what
  a failing \<^verbatim>\<open>os.WriteFile\<close> leaves (\<^verbatim>\<open>None\<close> when it succeeds); the readings of
  \<^verbatim>\<open>time.Now()\<close>, in order.
\<close>

record world =
  mkdir_ok :: bool
  clone_ok :: bool
  clone_leaves :: "entry option"
  pull_ok :: bool
  pull_leaves :: "entry option"
  remove_leaves :: "entry option"
  write_leaves :: "stored option option"
  now1 :: Time
  now2 :: Time

definition lookup_entry :: "state \<Rightarrow> string \<Rightarrow> entry option" where
  "lookup_entry st name = (case cache st of NoCacheDir \<Rightarrow> None | CacheDir f \<Rightarrow> f name)"

definition set_entry :: "string \<Rightarrow> entry option \<Rightarrow> state \<Rightarrow> state" where
  "set_entry name e st =
     (case cache st of
        NoCacheDir \<Rightarrow> st
      | CacheDir f \<Rightarrow> st\<lparr>cache := CacheDir (f(name := e))\<rparr>)"

definition record_action :: "action \<Rightarrow> state \<Rightarrow> state" where
  "record_action a st = st\<lparr>actions := actions st @ [a]\<rparr>"

section \<open>Source control client (git\_client.go)\<close>

text \<open>
  \<^verbatim>\<open>updateRepository\<close> runs \<^verbatim>\<open>git pull --depth 1\<close> in the directory. Where the place
  holds no directory the command cannot start.
\<close>

definition updateRepository :: "world \<Rightarrow> string \<Rightarrow> state \<Rightarrow> (git_error + unit) \<times> state" where
  "updateRepository w name st =
     (let st1 = record_action (GitPull name) st
      in case lookup_entry st name of
           Some (Directory t) \<Rightarrow>
             if pull_ok w then (Inr (), set_entry name (pull_leaves w) st1)
             else (Inl GitPullFailed, set_entry name (pull_leaves w) st1)
         | _ \<Rightarrow> (Inl GitPullFailed, st1))"

definition CloneRepository ::
  "world \<Rightarrow> string \<Rightarrow> string \<Rightarrow> state \<Rightarrow> (git_error + unit) \<times> state" where
  "CloneRepository w url name st =
     (if cache st = NoCacheDir \<and> \<not> mkdir_ok w then (Inl CreateCacheDirFailed, st)
      else
        (let st0 = (if cache st = NoCacheDir then st\<lparr>cache := CacheDir (\<lambda>n. None)\<rparr> else st)
         in if lookup_entry st0 name \<noteq> None then updateRepository w name st0
            else
              (let st1 = record_action (GitClone url name) st0
               in if clone_ok w then (Inr (), set_entry name (clone_leaves w) st1)
                  else (Inl GitCloneFailed, set_entry name (clone_leaves w) st1))))"

definition IsRepositoryCloned :: "state \<Rightarrow> string \<Rightarrow> bool" where
  "IsRepositoryCloned st name =
     (case lookup_entry st name of Some (Directory t) \<Rightarrow> git_dir t | _ \<Rightarrow> False)"

definition RemoveRepository :: "world \<Rightarrow> string \<Rightarrow> state \<Rightarrow> (git_error + unit) \<times> state" where
  "RemoveRepository w name st =
     (if \<not> IsRepositoryCloned st name then (Inl (RepositoryNotFound name), st)
      else
        (let st1 = record_action (RemoveAll name) st
         in case remove_leaves w of
              None \<Rightarrow> (Inr (), set_entry name None st1)
            | Some e \<Rightarrow> (Inl RemoveRepositoryFailed, set_entry name (Some e) st1)))"

text \<open>
  \<^verbatim>\<open>parseIntFromString\<close>: the accumulator is an \<^verbatim>\<open>int64\<close> and wraps around. A rune
  outside \<^verbatim>\<open>0\<close> to \<^verbatim>\<open>9\<close> is an error that carries its byte index.
\<close>

fun parseIntFromString_from :: "nat \<Rightarrow> 64 word \<Rightarrow> string \<Rightarrow> git_error + 64 word" where
  "parseIntFromString_from i result [] = Inr result"
| "parseIntFromString_from i result (r # rs) =
     (if \<not> is_digit r then Inl (InvalidCharacter i)
      else parseIntFromString_from (Suc i)
             (result * 10 + of_nat (byte r - byte CHR ''0'')) rs)"

definition parseIntFromString :: "string \<Rightarrow> git_error + 64 word" where
  "parseIntFromString s = parseIntFromString_from 0 0 s"

text \<open>
  The commit time of a \<^verbatim>\<open>RepositoryInfo\<close> is \<^verbatim>\<open>None\<close> for the zero \<^verbatim>\<open>time.Time{}\<close> and
  \<^verbatim>\<open>Some t\<close> for \<^verbatim>\<open>time.Unix(t, 0)\<close>.
\<close>

definition parseUnixTimestamp :: "string \<Rightarrow> git_error + 64 word option" where
  "parseUnixTimestamp timestampStr =
     (case parseIntFromString timestampStr of
        Inl e \<Rightarrow> Inl e
      | Inr timestamp \<Rightarrow> Inr (Some timestamp))"

record RepositoryInfo =
  info_Name :: string
  info_Path :: string
  RemoteURL :: string
  LastCommitHash :: string
  LastCommitMessage :: string
  LastCommitTime :: "64 word option"

text \<open>
  The cache directory of the client and \<^verbatim>\<open>filepath.Join\<close>, which is the library's.
\<close>

record GitClient =
  cacheDir :: string
  filepath_Join :: "string \<Rightarrow> string \<Rightarrow> string"

definition GetRepositoryPath :: "GitClient \<Rightarrow> string \<Rightarrow> string" where
  "GetRepositoryPath g name = filepath_Join g (cacheDir g) name"

text \<open>
  The standard output of the two \<^verbatim>\<open>git\<close> commands that \<^verbatim>\<open>GetRepositoryInfo\<close> runs, or
  \<^verbatim>\<open>None\<close> for one that fails.
\<close>

record git_output =
  remote_get_url :: "string option"
  log_last :: "string option"

definition GetRepositoryInfo ::
  "GitClient \<Rightarrow> git_output \<Rightarrow> state \<Rightarrow> string \<Rightarrow> git_error + RepositoryInfo" where
  "GetRepositoryInfo g out st name =
     (if \<not> IsRepositoryCloned st name then Inl (RepositoryNotCloned name)
      else
        (let info = \<lparr> info_Name = name, info_Path = GetRepositoryPath g name, RemoteURL = [],
                      LastCommitHash = [], LastCommitMessage = [], LastCommitTime = None \<rparr>;
             info = (case remote_get_url out of
                       Some output \<Rightarrow> info\<lparr>RemoteURL := TrimSpace output\<rparr>
                     | None \<Rightarrow> info);
             info = (case log_last out of
                       Some output \<Rightarrow>
                         (let parts = Split (TrimSpace output) CHR ''|''
                          in if length parts \<ge> 3 then
                               (let info' = info\<lparr>LastCommitHash := parts ! 0,
                                                  LastCommitMessage := parts ! 1\<rparr>
                                in case parseUnixTimestamp (parts ! 2) of
                                     Inr timestamp \<Rightarrow> info'\<lparr>LastCommitTime := timestamp\<rparr>
                                   | Inl _ \<Rightarrow> info')
                             else info)
                     | None \<Rightarrow> info)
         in Inr info))"

section \<open>Structure validator (structure\_validator.go)\<close>

datatype semver_error = NotSemanticVersion string

datatype name_error = NameCharacters string | NameTooShort string | NameTooLong string

datatype index_error =
    IndexJSONNotFound
  | IndexReadFailed
  | IndexInvalidJSON
  | NameRequired
  | DescriptionRequired
  | VersionRequired
  | InvalidVersionFormat semver_error
  | InvalidRegistryName name_error

datatype manifest_error =
    ManifestReadFailed
  | ManifestInvalidJSON
  | MissingRequiredField string
  | UnsupportedModuleType string
  | TypeNotString

datatype path_error =
    ModuleDirectoryMissing string
  | ModuleJSONNotFound string
  | ModuleJSONInvalid string manifest_error

datatype module_error =
    ModuleNameRequired
  | ModuleNameMismatch string string
  | ModuleDescriptionRequired
  | ModulePathRequired
  | InvalidModuleName name_error
  | InvalidModuleVersion semver_error
  | InvalidShell string
  | ModulePathInvalid path_error

datatype modules_error = NoModules | ModuleFailed string module_error

datatype directory_error = ModulesAccessFailed | ModulesNotADirectory

datatype structure_error =
    IndexValidationFailed index_error
  | ModuleValidationFailed modules_error
  | DirectoryValidationFailed directory_error

text \<open>
  What the validator finds under \<^verbatim>\<open>repoPath\<close>, given what is at \<^verbatim>\<open>repoPath\<close> itself.
  Under a path that is not a directory \<^verbatim>\<open>os.Stat\<close> fails with an error that is not
  ``does not exist'', and reading fails.
\<close>

definition index_at :: "entry option \<Rightarrow> index_file" where
  "index_at e =
     (case e of None \<Rightarrow> IndexMissing | Some NotADirectory \<Rightarrow> IndexUnreadable
      | Some (Directory t) \<Rightarrow> index_json t)"

definition module_entry_at :: "entry option \<Rightarrow> string \<Rightarrow> module_entry" where
  "module_entry_at e modulePath =
     (case e of None \<Rightarrow> PathMissing | Some NotADirectory \<Rightarrow> PathPresent ManifestUnreadable
      | Some (Directory t) \<Rightarrow> module_at t modulePath)"

definition modules_stat_at :: "entry option \<Rightarrow> modules_stat" where
  "modules_stat_at e =
     (case e of None \<Rightarrow> ModulesMissing | Some NotADirectory \<Rightarrow> ModulesStatError
      | Some (Directory t) \<Rightarrow> modules_dir t)"

text \<open>
  The pattern of \<^verbatim>\<open>validateSemanticVersion\<close>:
  \<^verbatim>\<open>^([0-9]+)\.([0-9]+)\.([0-9]+)(?:-(I(?:\.I)*))?(?:\+(I(?:\.I)*))?$\<close> where \<^verbatim>\<open>I\<close> is
  \<^verbatim>\<open>[0-9A-Za-z-]+\<close>. No identifier character is a dot or a plus sign, so the three numbers
  are the maximal runs of digits, and what follows is split at the first plus sign.
\<close>

definition is_identifier_char :: "char \<Rightarrow> bool" where
  "is_identifier_char c = (is_digit c \<or> is_upper c \<or> is_lower c \<or> c = CHR ''-'')"

definition dotted_identifiers :: "string \<Rightarrow> bool" where
  "dotted_identifiers s =
     (\<forall>part \<in> set (Split s CHR ''.''). part \<noteq> [] \<and> (\<forall>c \<in> set part. is_identifier_char c))"

definition semver_suffix :: "string \<Rightarrow> bool" where
  "semver_suffix s =
     (case s of
        [] \<Rightarrow> True
      | c # rest \<Rightarrow>
          if c = CHR ''-'' then
            dotted_identifiers (cut_before CHR ''+'' rest)
            \<and> (CHR ''+'' \<notin> set rest \<or> dotted_identifiers (cut_after CHR ''+'' rest))
          else if c = CHR ''+'' then dotted_identifiers rest
          else False)"

definition semverPattern_matches :: "string \<Rightarrow> bool" where
  "semverPattern_matches version =
     (let major = takeWhile is_digit version; r1 = dropWhile is_digit version
      in major \<noteq> [] \<and> take 1 r1 = ''.''
         \<and> (let minor = takeWhile is_digit (drop 1 r1); r2 = dropWhile is_digit (drop 1 r1)
            in minor \<noteq> [] \<and> take 1 r2 = ''.''
               \<and> (let patch = takeWhile is_digit (drop 1 r2);
                       r3 = dropWhile is_digit (drop 1 r2)
                  in patch \<noteq> [] \<and> semver_suffix r3)))"

definition validateSemanticVersion :: "string \<Rightarrow> semver_error + unit" where
  "validateSemanticVersion version =
     (if \<not> semverPattern_matches version then Inl (NotSemanticVersion version) else Inr ())"

text \<open>The pattern \<^verbatim>\<open>^[a-z0-9-]+$\<close> of registry and module names.\<close>

definition namePattern_matches :: "string \<Rightarrow> bool" where
  "namePattern_matches name =
     (name \<noteq> [] \<and> (\<forall>c \<in> set name. is_lower c \<or> is_digit c \<or> c = CHR ''-''))"

definition validateRegistryName :: "string \<Rightarrow> name_error + unit" where
  "validateRegistryName name =
     (if \<not> namePattern_matches name then Inl (NameCharacters name)
      else if length name < 3 then Inl (NameTooShort name)
      else if length name > 50 then Inl (NameTooLong name)
      else Inr ())"

definition validateModuleName :: "string \<Rightarrow> name_error + unit" where
  "validateModuleName name =
     (if \<not> namePattern_matches name then Inl (NameCharacters name)
      else if length name < 2 then Inl (NameTooShort name)
      else if length name > 30 then Inl (NameTooLong name)
      else Inr ())"

definition validateShell :: "string \<Rightarrow> string + unit" where
  "validateShell shell =
     (if ToLower shell \<notin> set [''bash'', ''zsh'', ''fish'', ''powershell'', ''sh'']
      then Inl shell else Inr ())"

definition validateModuleType :: "string \<Rightarrow> manifest_error + unit" where
  "validateModuleType moduleType =
     (if ToLower moduleType \<notin> set [''aliases'', ''functions'', ''exports'', ''scripts'', ''config'']
      then Inl (UnsupportedModuleType moduleType) else Inr ())"

text \<open>
  \<^verbatim>\<open>json.Unmarshal\<close> into a \<^verbatim>\<open>map[string]interface{}\<close>: an object gives its members, of
  which the last one with a given key counts; \<^verbatim>\<open>null\<close> leaves the map \<^verbatim>\<open>nil\<close>, which has
  no key; anything else is an error.
\<close>

definition unmarshal_map :: "json \<Rightarrow> (string \<Rightarrow> json option) option" where
  "unmarshal_map j =
     (case j of JObject ms \<Rightarrow> Some (map_of (rev ms)) | JNull \<Rightarrow> Some (\<lambda>k. None) | _ \<Rightarrow> None)"

fun first_missing :: "(string \<Rightarrow> json option) \<Rightarrow> string list \<Rightarrow> string option" where
  "first_missing moduleConfig [] = None"
| "first_missing moduleConfig (field # others) =
     (if moduleConfig field = None then Some field else first_missing moduleConfig others)"

definition validateModuleJSON :: "manifest_file \<Rightarrow> manifest_error + unit" where
  "validateModuleJSON file =
     (case file of
        ManifestMissing \<Rightarrow> Inl ManifestReadFailed
      | ManifestUnreadable \<Rightarrow> Inl ManifestReadFailed
      | ManifestNotJSON \<Rightarrow> Inl ManifestInvalidJSON
      | ManifestJSON j \<Rightarrow>
          (case unmarshal_map j of
             None \<Rightarrow> Inl ManifestInvalidJSON
           | Some moduleConfig \<Rightarrow>
               (case first_missing moduleConfig [''name'', ''description'', ''type''] of
                  Some field \<Rightarrow> Inl (MissingRequiredField field)
                | None \<Rightarrow>
                    (case moduleConfig ''type'' of
                       Some (JString moduleType) \<Rightarrow> validateModuleType moduleType
                     | _ \<Rightarrow> Inl TypeNotString))))"

definition validateModulePath :: "entry option \<Rightarrow> string \<Rightarrow> path_error + unit" where
  "validateModulePath repo modulePath =
     (case module_entry_at repo modulePath of
        PathMissing \<Rightarrow> Inl (ModuleDirectoryMissing modulePath)
      | PathPresent ManifestMissing \<Rightarrow> Inl (ModuleJSONNotFound modulePath)
      | PathPresent file \<Rightarrow>
          (case validateModuleJSON file of
             Inl e \<Rightarrow> Inl (ModuleJSONInvalid modulePath e)
           | Inr _ \<Rightarrow> Inr ()))"

definition validateSingleModule :: "entry option \<Rightarrow> string \<Rightarrow> Module \<Rightarrow> module_error + unit" where
  "validateSingleModule repo moduleKey module =
     (if TrimSpace (module_Name module) = [] then Inl ModuleNameRequired
      else if module_Name module \<noteq> moduleKey
        then Inl (ModuleNameMismatch (module_Name module) moduleKey)
      else if TrimSpace (module_Description module) = [] then Inl ModuleDescriptionRequired
      else if TrimSpace (module_Path module) = [] then Inl ModulePathRequired
      else
        (case validateModuleName (module_Name module) of
           Inl e \<Rightarrow> Inl (InvalidModuleName e)
         | Inr _ \<Rightarrow>
        (case (if module_Version module \<noteq> [] then validateSemanticVersion (module_Version module)
               else Inr ()) of
           Inl e \<Rightarrow> Inl (InvalidModuleVersion e)
         | Inr _ \<Rightarrow>
        (case (if module_Shell module \<noteq> [] then validateShell (module_Shell module)
               else Inr ()) of
           Inl e \<Rightarrow> Inl (InvalidShell e)
         | Inr _ \<Rightarrow>
        (case validateModulePath repo (module_Path module) of
           Inl e \<Rightarrow> Inl (ModulePathInvalid e)
         | Inr _ \<Rightarrow> Inr ())))))"

fun validateEachModule :: "entry option \<Rightarrow> (string \<times> Module) list \<Rightarrow> modules_error + unit" where
  "validateEachModule repo [] = Inr ()"
| "validateEachModule repo ((moduleKey, module) # rest) =
     (case validateSingleModule repo moduleKey module of
        Inl e \<Rightarrow> Inl (ModuleFailed moduleKey e)
      | Inr _ \<Rightarrow> validateEachModule repo rest)"

definition validateModules :: "entry option \<Rightarrow> (string \<times> Module) list \<Rightarrow> modules_error + unit" where
  "validateModules repo modules =
     (if length modules = 0 then Inl NoModules else validateEachModule repo modules)"

definition validateIndexJSON :: "entry option \<Rightarrow> index_error + RegistryIndex" where
  "validateIndexJSON repo =
     (case index_at repo of
        IndexMissing \<Rightarrow> Inl IndexJSONNotFound
      | IndexUnreadable \<Rightarrow> Inl IndexReadFailed
      | IndexNotJSON \<Rightarrow> Inl IndexInvalidJSON
      | IndexParsed index \<Rightarrow>
          if TrimSpace (index_Name index) = [] then Inl NameRequired
          else if TrimSpace (index_Description index) = [] then Inl DescriptionRequired
          else if TrimSpace (index_Version index) = [] then Inl VersionRequired
          else
            (case validateSemanticVersion (index_Version index) of
               Inl e \<Rightarrow> Inl (InvalidVersionFormat e)
             | Inr _ \<Rightarrow>
                 (case validateRegistryName (index_Name index) of
                    Inl e \<Rightarrow> Inl (InvalidRegistryName e)
                  | Inr _ \<Rightarrow> Inr index)))"

definition validateDirectoryStructure :: "entry option \<Rightarrow> directory_error + unit" where
  "validateDirectoryStructure repo =
     (case modules_stat_at repo of
        ModulesMissing \<Rightarrow> Inr ()
      | ModulesStatError \<Rightarrow> Inl ModulesAccessFailed
      | ModulesNotDirectory \<Rightarrow> Inl ModulesNotADirectory
      | ModulesDirectory \<Rightarrow> Inr ())"

definition ValidateStructure :: "entry option \<Rightarrow> structure_error + unit" where
  "ValidateStructure repo =
     (case validateIndexJSON repo of
        Inl e \<Rightarrow> Inl (IndexValidationFailed e)
      | Inr index \<Rightarrow>
          (case validateModules repo (index_Modules index) of
             Inl e \<Rightarrow> Inl (ModuleValidationFailed e)
           | Inr _ \<Rightarrow>
               (case validateDirectoryStructure repo of
                  Inl e \<Rightarrow> Inl (DirectoryValidationFailed e)
                | Inr _ \<Rightarrow> Inr ())))"

section \<open>Registry client (registry.go)\<close>

datatype verify_error =
    IndexNotFound
  | ReadIndexFailed
  | InvalidIndexJSON
  | IndexNameMissing

datatype registry_error =
    RegistryAlreadyExists string
  | RegistryNameAlreadyExists string
  | CloneFailed git_error
  | StructureValidationFailed verify_error
  | RegistryNotFound string
  | CloneDuringSyncFailed git_error
  | UpdateFailed git_error
  | ValidationAfterSyncFailed verify_error
  | MarshalFailed
  | WriteFailed
  | ReadRegistriesFailed
  | ParseRegistriesFailed

definition verifyLocalRegistry :: "state \<Rightarrow> string \<Rightarrow> verify_error + unit" where
  "verifyLocalRegistry st name =
     (case index_at (lookup_entry st name) of
        IndexMissing \<Rightarrow> Inl IndexNotFound
      | IndexUnreadable \<Rightarrow> Inl ReadIndexFailed
      | IndexNotJSON \<Rightarrow> Inl InvalidIndexJSON
      | IndexParsed index \<Rightarrow>
          if index_Name index = [] then Inl IndexNameMissing else Inr ())"

definition saveRegistries :: "time_codec \<Rightarrow> world \<Rightarrow> state \<Rightarrow> (registry_error + unit) \<times> state" where
  "saveRegistries codec w st =
     (case json_MarshalIndent codec (registries st) of
        None \<Rightarrow> (Inl MarshalFailed, st)
      | Some data \<Rightarrow>
          (let st1 = record_action (WriteFile data) st
           in case write_leaves w of
                None \<Rightarrow> (Inr (), st1\<lparr>registries_file := Some (Document data)\<rparr>)
              | Some left \<Rightarrow> (Inl WriteFailed, st1\<lparr>registries_file := left\<rparr>)))"

text \<open>\<^verbatim>\<open>loadRegistries\<close>, as \<^verbatim>\<open>NewClient\<close> calls it on the client it has just made.\<close>

definition loadRegistries :: "time_codec \<Rightarrow> state \<Rightarrow> registry_error + state" where
  "loadRegistries codec st =
     (case registries_file st of
        None \<Rightarrow> Inr (st\<lparr>registries := []\<rparr>)
      | Some Unreadable \<Rightarrow> Inl ReadRegistriesFailed
      | Some NotJSON \<Rightarrow> Inl ParseRegistriesFailed
      | Some (Document data) \<Rightarrow>
          (case json_Unmarshal codec data of
             None \<Rightarrow> Inl ParseRegistriesFailed
           | Some rs \<Rightarrow> Inr (st\<lparr>registries := rs\<rparr>)))"

text \<open>The loop at the head of \<^verbatim>\<open>AddRegistry\<close>.\<close>

fun find_existing :: "Registry list \<Rightarrow> string \<Rightarrow> string \<Rightarrow> registry_error option" where
  "find_existing [] url name = None"
| "find_existing (reg # regs) url name =
     (if URL reg = url then Some (RegistryAlreadyExists url)
      else if Name reg = name then Some (RegistryNameAlreadyExists name)
      else find_existing regs url name)"

definition AddRegistry ::
  "time_codec \<Rightarrow> world \<Rightarrow> string \<Rightarrow> string \<Rightarrow> state \<Rightarrow> (registry_error + unit) \<times> state" where
  "AddRegistry codec w url name st =
     (case find_existing (registries st) url name of
        Some e \<Rightarrow> (Inl e, st)
      | None \<Rightarrow>
          (case CloneRepository w url name st of
             (Inl e, st1) \<Rightarrow> (Inl (CloneFailed e), st1)
           | (Inr _, st1) \<Rightarrow>
               (case verifyLocalRegistry st1 name of
                  Inl e \<Rightarrow>
                    (Inl (StructureValidationFailed e), snd (RemoveRepository w name st1))
                | Inr _ \<Rightarrow>
                    (let registry = \<lparr> URL = url, Name = name, Description = [],
                                      AddedAt = now1 w, LastSync = now2 w \<rparr>
                     in saveRegistries codec w
                          (st1\<lparr>registries := registries st1 @ [registry]\<rparr>)))))"

text \<open>
  The index of the first record that \<^verbatim>\<open>RemoveRegistry\<close> matches. When the removal of the
  cached repository fails \<^verbatim>\<open>RemoveRegistry\<close> prints a warning and goes on;
  \<^verbatim>\<open>AddRegistry\<close> above calls \<^verbatim>\<open>RemoveRepository\<close> as a statement and reads nothing of
  what it returns.
\<close>

fun find_identifier :: "Registry list \<Rightarrow> string \<Rightarrow> nat option" where
  "find_identifier [] identifier = None"
| "find_identifier (reg # regs) identifier =
     (if Name reg = identifier \<or> URL reg = identifier then Some 0
      else map_option Suc (find_identifier regs identifier))"

definition RemoveRegistry ::
  "time_codec \<Rightarrow> world \<Rightarrow> string \<Rightarrow> state \<Rightarrow> (registry_error + unit) \<times> state" where
  "RemoveRegistry codec w identifier st =
     (case find_identifier (registries st) identifier of
        None \<Rightarrow> (Inl (RegistryNotFound identifier), st)
      | Some i \<Rightarrow>
          (let st1 = (case RemoveRepository w (Name (registries st ! i)) st of
                        (Inl err, st0) \<Rightarrow> record_action (PrintWarning err) st0
                      | (Inr ok, st0) \<Rightarrow> st0)
           in saveRegistries codec w
                (st1\<lparr>registries := take i (registries st1) @ drop (Suc i) (registries st1)\<rparr>)))"

text \<open>The index of the first record with the name, the \<^verbatim>\<open>registryIndex\<close> of \<^verbatim>\<open>SyncRegistry\<close>.\<close>

fun find_name :: "Registry list \<Rightarrow> string \<Rightarrow> nat option" where
  "find_name [] name = None"
| "find_name (reg # regs) name =
     (if Name reg = name then Some 0 else map_option Suc (find_name regs name))"

definition SyncRegistry ::
  "time_codec \<Rightarrow> world \<Rightarrow> string \<Rightarrow> state \<Rightarrow> (registry_error + unit) \<times> state" where
  "SyncRegistry codec w name st =
     (case find_name (registries st) name of
        None \<Rightarrow> (Inl (RegistryNotFound name), st)
      | Some registryIndex \<Rightarrow>
          (case (if \<not> IsRepositoryCloned st name
                 then (case CloneRepository w (URL (registries st ! registryIndex)) name st of
                         (Inl e, st1) \<Rightarrow> (Inl (CloneDuringSyncFailed e), st1)
                       | (Inr u, st1) \<Rightarrow> (Inr u, st1))
                 else (case updateRepository w name st of
                         (Inl e, st1) \<Rightarrow> (Inl (UpdateFailed e), st1)
                       | (Inr u, st1) \<Rightarrow> (Inr u, st1))) of
             (Inl e, st1) \<Rightarrow> (Inl e, st1)
           | (Inr _, st1) \<Rightarrow>
               (case verifyLocalRegistry st1 name of
                  Inl e \<Rightarrow> (Inl (ValidationAfterSyncFailed e), st1)
                | Inr _ \<Rightarrow>
                    saveRegistries codec w
                      (st1\<lparr>registries :=
                             (registries st1)[registryIndex :=
                                (registries st1 ! registryIndex)\<lparr>LastSync := now1 w\<rparr>]\<rparr>))))"

text \<open>
  The step of \<^verbatim>\<open>SyncRegistry\<close> between the lookup and the verification, named for the
  statements below: clone when \<^verbatim>\<open>IsRepositoryCloned\<close> is false, update otherwise.
\<close>

definition sync_fetch :: "world \<Rightarrow> string \<Rightarrow> string \<Rightarrow> state \<Rightarrow> (git_error + unit) \<times> state" where
  "sync_fetch w url name st =
     (if \<not> IsRepositoryCloned st name then CloneRepository w url name st
      else updateRepository w name st)"

subsection \<open>Sequences of calls\<close>

text \<open>
  A call of one of the three operations that change the list, with what the outside world
  does during it; the state after one call, whatever it returns, and after a sequence.
\<close>

datatype operation =
    Add world string string
  | Remove world string
  | Sync world string

definition step :: "time_codec \<Rightarrow> operation \<Rightarrow> state \<Rightarrow> state" where
  "step codec op st =
     (case op of
        Add w url name \<Rightarrow> snd (AddRegistry codec w url name st)
      | Remove w identifier \<Rightarrow> snd (RemoveRegistry codec w identifier st)
      | Sync w name \<Rightarrow> snd (SyncRegistry codec w name st))"

fun run :: "time_codec \<Rightarrow> operation list \<Rightarrow> state \<Rightarrow> state" where
  "run codec [] st = st"
| "run codec (op # ops) st = run codec ops (step codec op st)"

section \<open>Sample values\<close>

text \<open>
  Concrete values at which the theorems below are instantiated: a server on which the
  repository page has moved to a page that does not exist, an index without modules, a
  clone that holds it, a world in which every external action succeeds and one in which the
  tree that \<^verbatim>\<open>git\<close> leaves has no readable index and cannot be deleted, three states, a
  module whose name is not its key, trees with the version \<^verbatim>\<open>1.0\<close> and with that module, a
  record whose name is the single byte FF, a codec for three times, and what \<^verbatim>\<open>git\<close> prints for \<^verbatim>\<open>GetRepositoryInfo\<close>.
\<close>

definition moved_network :: network where
  "moved_network =
     \<lparr> request_ok = (\<lambda>endpoint. True),
       round_trip = (\<lambda>timeout url. if url = ''https://example.com/o/r''
                                    then Reply 301 ''/gone'' else Reply 404 []),
       resolve_location = (\<lambda>url loc. Some (''https://example.com'' @ loc)) \<rparr>"

definition sample_index :: RegistryIndex where
  "sample_index = \<lparr> index_Name = ''demo-registry'', index_Description = ''A demo'',
                     index_Version = ''1.0.0'', index_Modules = [] \<rparr>"

definition sample_tree :: repo_tree where
  "sample_tree = \<lparr> git_dir = True, index_json = IndexParsed sample_index,
                    module_at = (\<lambda>p. PathMissing), modules_dir = ModulesMissing \<rparr>"

definition broken_tree :: repo_tree where
  "broken_tree = \<lparr> git_dir = True, index_json = IndexNotJSON,
                    module_at = (\<lambda>p. PathMissing), modules_dir = ModulesMissing \<rparr>"

definition calm_world :: world where
  "calm_world = \<lparr> mkdir_ok = True, clone_ok = True, clone_leaves = Some (Directory sample_tree),
                   pull_ok = True, pull_leaves = Some (Directory sample_tree),
                   remove_leaves = None, write_leaves = None, now1 = 3, now2 = 4 \<rparr>"

definition broken_world :: world where
  "broken_world = \<lparr> mkdir_ok = True, clone_ok = True, clone_leaves = Some (Directory broken_tree),
                     pull_ok = True, pull_leaves = Some (Directory broken_tree),
                     remove_leaves = Some (Directory broken_tree), write_leaves = None,
                     now1 = 3, now2 = 4 \<rparr>"

definition empty_state :: state where
  "empty_state = \<lparr> registries = [], registries_file = None, cache = NoCacheDir, actions = [] \<rparr>"

definition sample_registry :: Registry where
  "sample_registry = \<lparr> URL = ''https://example.com/o/r'', Name = ''reg'', Description = [],
                         AddedAt = 0, LastSync = 0 \<rparr>"

definition one_state :: state where
  "one_state = \<lparr> registries = [sample_registry], registries_file = None,
                  cache = CacheDir ((\<lambda>n. None)(''reg'' := Some (Directory sample_tree))),
                  actions = [] \<rparr>"

definition bare_state :: state where
  "bare_state = \<lparr> registries = [], registries_file = None,
                   cache = CacheDir ((\<lambda>n. None)(''reg'' := Some (Directory (sample_tree\<lparr>git_dir := False\<rparr>)))),
                   actions = [] \<rparr>"

definition sample_module :: Module where
  "sample_module = \<lparr> module_Name = ''git-tools'', module_Description = ''Git helper functions'',
                      module_Version = ''1.0.0'', module_Path = ''modules/git-helpers'',
                      module_Shell = ''bash'' \<rparr>"

definition old_version_tree :: repo_tree where
  "old_version_tree = sample_tree\<lparr>index_json := IndexParsed (sample_index\<lparr>index_Version := ''1.0''\<rparr>)\<rparr>"

definition mismatch_tree :: repo_tree where
  "mismatch_tree = sample_tree\<lparr>index_json :=
      IndexParsed (sample_index\<lparr>index_Modules := [(''git-helpers'', sample_module)]\<rparr>)\<rparr>"

definition odd_registry :: Registry where
  "odd_registry = sample_registry\<lparr>Name := [CHR 0xFF]\<rparr>"

definition table_codec :: time_codec where
  "table_codec =
     \<lparr> time_MarshalJSON = map_of [(0, ''T0''), (3, ''T3''), (4, ''T4'')],
       time_UnmarshalJSON = map_of [(''T0'', 0), (''T3'', 3), (''T4'', 4)] \<rparr>"

definition sample_client :: GitClient where
  "sample_client = \<lparr> cacheDir = ''/home/u/.go-shellify/cache'',
                      filepath_Join = (\<lambda>a b. a @ ''/'' @ b) \<rparr>"

definition sample_output :: git_output where
  "sample_output = \<lparr> remote_get_url = None, log_last = Some ''abc|first commit|12x'' \<rparr>"

section \<open>Properties of the URL validator\<close>

lemma buildGitEndpoints_cases:
  "buildGitEndpoints rawURL =
     (if HasSuffix rawURL ''.git''
      then [rawURL, TrimSuffix rawURL ''.git'' @ ''.git/info/refs'',
            TrimSuffix rawURL ''.git'' @ ''/info/refs'', TrimSuffix rawURL ''.git'']
      else [rawURL, rawURL @ ''.git'', rawURL @ ''.git/info/refs'',
            rawURL @ ''/info/refs'', rawURL])"
  by (simp add: buildGitEndpoints_def TrimSuffix_def Let_def)

text \<open>
  The loop of \<^verbatim>\<open>checkHTTPSAccessibility\<close>: the endpoints are tried in the order of the
  list; the loop stops at the first one that \<^verbatim>\<open>testEndpoint\<close> accepts; when none is
  accepted all have been tried and the error carries the reason of the last.
\<close>

lemma probeEndpoints_all_fail:
  "es \<noteq> [] \<Longrightarrow> \<forall>e\<in>set es. fst (testEndpoint v net e) \<noteq> Inr () \<Longrightarrow>
   probeEndpoints v net l es =
     (Inl (NotAccessible (Some (projl (fst (testEndpoint v net (last es)))))),
      map (\<lambda>e. (e, snd (testEndpoint v net e))) es)"
proof (induction es arbitrary: l)
  case Nil
  then show ?case by simp
next
  case (Cons e es)
  from Cons.prems obtain err reqs where e: "testEndpoint v net e = (Inl err, reqs)"
    by (cases "testEndpoint v net e"; cases "fst (testEndpoint v net e)") auto
  show ?case
  proof (cases "es = []")
    case True
    with e show ?thesis by simp
  next
    case False
    with Cons e show ?thesis by simp
  qed
qed

lemma probeEndpoints_first_ok:
  "fst (testEndpoint v net e) = Inr () \<Longrightarrow>
   \<forall>x\<in>set pre. fst (testEndpoint v net x) \<noteq> Inr () \<Longrightarrow>
   probeEndpoints v net l (pre @ e # post) =
     (Inr (), map (\<lambda>e. (e, snd (testEndpoint v net e))) (pre @ [e]))"
proof (induction pre arbitrary: l)
  case Nil
  then obtain reqs where "testEndpoint v net e = (Inr (), reqs)"
    by (cases "testEndpoint v net e") auto
  then show ?case by simp
next
  case (Cons x pre)
  from Cons.prems obtain err reqs where "testEndpoint v net x = (Inl err, reqs)"
    by (cases "testEndpoint v net x"; cases "fst (testEndpoint v net x)") auto
  with Cons show ?case by simp
qed

text \<open>
  Every request carries the timeout of the client, and a response that is not a redirect,
  or has no \<^verbatim>\<open>Location\<close>, is the one that \<^verbatim>\<open>testEndpoint\<close> looks at, after one request.
\<close>

lemma client_do_timeout:
  "(t, u) \<in> set (snd (client_do net timeout sent url)) \<Longrightarrow> t = timeout"
proof (induction net timeout sent url arbitrary: t u rule: client_do.induct)
  case (1 net timeout sent url)
  show ?case
  proof (cases "round_trip net timeout url")
    case NoReply
    with "1.prems" show ?thesis by (simp add: client_do.simps)
  next
    case (Reply code loc)
    show ?thesis
    proof (cases "\<not> shouldRedirect code \<or> loc = []")
      case True
      with "1.prems" Reply show ?thesis by (auto simp: client_do.simps)
    next
      case False
      show ?thesis
      proof (cases "resolve_location net url loc")
        case None
        with "1.prems" Reply False show ?thesis by (auto simp: client_do.simps)
      next
        case (Some next_url)
        show ?thesis
        proof (cases "10 \<le> Suc sent")
          case True
          with "1.prems" Reply False Some show ?thesis by (auto simp: client_do.simps)
        next
          case far: False
          from "1.prems" Reply False Some far
          have "(t, u) = (timeout, url)
                \<or> (t, u) \<in> set (snd (client_do net timeout (Suc sent) next_url))"
            by (auto simp: client_do.simps [of net timeout sent url] split: prod.splits)
          with "1.IH" [OF Reply False Some far] show ?thesis by auto
        qed
      qed
    qed
  qed
qed

lemma client_do_direct:
  "round_trip net timeout url = Reply code loc \<Longrightarrow> \<not> shouldRedirect code \<or> loc = [] \<Longrightarrow>
   client_do net timeout sent url = (Inr code, [(timeout, url)])"
  by (auto simp: client_do.simps)

lemma testEndpoint_direct:
  assumes "request_ok net endpoint"
    and "round_trip net (Timeout (client v)) endpoint = Reply code loc"
    and "\<not> shouldRedirect code \<or> loc = []"
  shows "testEndpoint v net endpoint =
     ((if code = 200 \<or> code = 301 \<or> code = 302 \<or> code = 401 then Inr ()
       else if code = 404 then Inl RepositoryNotFound404
       else if code = 403 then Inl AccessForbidden403
       else Inl (UnexpectedStatus code)),
      [(Timeout (client v), endpoint)])"
  using assms(1) client_do_direct [OF assms(2,3), of 0]
  by (simp add: testEndpoint_def client_Do_def)

lemma buildGitEndpoints_last:
  "buildGitEndpoints rawURL \<noteq> [] \<and> last (buildGitEndpoints rawURL) = TrimSuffix rawURL ''.git''"
  by (simp add: buildGitEndpoints_cases TrimSuffix_def)

lemma testEndpoint_moved_other:
  "endpoint \<noteq> ''https://example.com/o/r'' \<Longrightarrow>
   testEndpoint NewURLValidator moved_network endpoint =
     (Inl RepositoryNotFound404, [(15, endpoint)])"
  by (simp add: testEndpoint_def client_Do_def client_do.simps shouldRedirect_def
      NewURLValidator_def moved_network_def)

lemma testEndpoint_one_hop:
  assumes "request_ok net endpoint"
    and "round_trip net (Timeout (client v)) endpoint = Reply code loc"
    and "shouldRedirect code" and "loc \<noteq> []"
    and "resolve_location net endpoint loc = Some u"
    and "round_trip net (Timeout (client v)) u = Reply code' loc'"
    and "\<not> shouldRedirect code' \<or> loc' = []"
  shows "testEndpoint v net endpoint =
     ((if code' = 200 \<or> code' = 301 \<or> code' = 302 \<or> code' = 401 then Inr ()
       else if code' = 404 then Inl RepositoryNotFound404
       else if code' = 403 then Inl AccessForbidden403
       else Inl (UnexpectedStatus code')),
      [(Timeout (client v), endpoint), (Timeout (client v), u)])"
proof -
  have "client_do net (Timeout (client v)) 0 endpoint =
          (Inr code', [(Timeout (client v), endpoint), (Timeout (client v), u)])"
    using assms(2-5) client_do_direct [OF assms(6,7), of "Suc 0"]
    by (simp add: client_do.simps [of net "Timeout (client v)" 0 endpoint])
  with assms(1) show ?thesis by (simp add: testEndpoint_def client_Do_def)
qed

lemma testEndpoint_timeout:
  "(t, u) \<in> set (snd (testEndpoint v net endpoint)) \<Longrightarrow> t = Timeout (client v)"
  using client_do_timeout [of t u net "Timeout (client v)" 0 endpoint]
  by (auto simp: testEndpoint_def client_Do_def split: if_splits prod.splits sum.splits)

text \<open>
  C5. The claim is that the check succeeds as soon as a candidate returns 200, 301, 302 or
  401. For a URL whose scheme is \<^verbatim>\<open>https\<close> the reachability phase is the HTTPS check of
  that URL. The candidates are as claimed and in that order, every request carries the timeout
  of 15 seconds, the loop stops at the first candidate that \<^verbatim>\<open>testEndpoint\<close> accepts,
  and a check that fails has tried all the candidates and carries the reason of the last,
  404 and 403 having reasons of their own. But the status that \<^verbatim>\<open>testEndpoint\<close> judges is
  the one of the response that \<^verbatim>\<open>client.Do\<close> returns, and the client follows redirects:
  the status of the candidate is judged when it is no redirect or comes without a
  \<^verbatim>\<open>Location\<close>; for a candidate that answers 301 or 302 with a \<^verbatim>\<open>Location\<close> a second
  request goes to the place named, and it is the status found there that is judged, so
  that such a candidate is refused when that status is 404.
\<close>

theorem checkHTTPSAccessibility_follows_redirects:
  "buildGitEndpoints rawURL =
     (if HasSuffix rawURL ''.git''
      then [rawURL, TrimSuffix rawURL ''.git'' @ ''.git/info/refs'',
            TrimSuffix rawURL ''.git'' @ ''/info/refs'', TrimSuffix rawURL ''.git'']
      else [rawURL, rawURL @ ''.git'', rawURL @ ''.git/info/refs'',
            rawURL @ ''/info/refs'', rawURL])
   \<and> (url_Parse lib rawURL = Inr parsed \<and> Scheme parsed = ''https'' \<longrightarrow>
        checkAccessibility lib NewURLValidator net rawURL =
          (case checkHTTPSAccessibility NewURLValidator net rawURL of
             (Inl err, tried) \<Rightarrow> (Inl (EndpointsFailed err), tried)
           | (Inr ok, tried) \<Rightarrow> (Inr (), tried)))
   \<and> (\<forall>t u. (t, u) \<in> set (snd (testEndpoint NewURLValidator net e)) \<longrightarrow> t = 15)
   \<and> (request_ok net e \<and> round_trip net 15 e = Reply code loc
        \<and> (\<not> shouldRedirect code \<or> loc = [])
      \<longrightarrow> testEndpoint NewURLValidator net e =
            ((if code = 200 \<or> code = 301 \<or> code = 302 \<or> code = 401 then Inr ()
              else if code = 404 then Inl RepositoryNotFound404
              else if code = 403 then Inl AccessForbidden403
              else Inl (UnexpectedStatus code)),
             [(15, e)]))
   \<and> (request_ok net e \<and> round_trip net 15 e = Reply code loc
        \<and> (code = 301 \<or> code = 302) \<and> loc \<noteq> []
        \<and> resolve_location net e loc = Some u
        \<and> round_trip net 15 u = Reply code' loc' \<and> (\<not> shouldRedirect code' \<or> loc' = [])
      \<longrightarrow> testEndpoint NewURLValidator net e =
            ((if code' = 200 \<or> code' = 301 \<or> code' = 302 \<or> code' = 401 then Inr ()
              else if code' = 404 then Inl RepositoryNotFound404
              else if code' = 403 then Inl AccessForbidden403
              else Inl (UnexpectedStatus code')),
             [(15, e), (15, u)]))
   \<and> (buildGitEndpoints rawURL = pre @ hit # post
        \<and> (\<forall>x\<in>set pre. fst (testEndpoint NewURLValidator net x) \<noteq> Inr ())
        \<and> fst (testEndpoint NewURLValidator net hit) = Inr ()
      \<longrightarrow> checkHTTPSAccessibility NewURLValidator net rawURL =
            (Inr (), map (\<lambda>x. (x, snd (testEndpoint NewURLValidator net x))) (pre @ [hit])))
   \<and> ((\<forall>x\<in>set (buildGitEndpoints rawURL). fst (testEndpoint NewURLValidator net x) \<noteq> Inr ())
      \<longrightarrow> checkHTTPSAccessibility NewURLValidator net rawURL =
            (Inl (NotAccessible
               (Some (projl (fst (testEndpoint NewURLValidator net
                                    (TrimSuffix rawURL ''.git'')))))),
             map (\<lambda>x. (x, snd (testEndpoint NewURLValidator net x)))
               (buildGitEndpoints rawURL)))"
proof -
  have T: "Timeout (client NewURLValidator) = 15" by (simp add: NewURLValidator_def)
  have p1: "buildGitEndpoints rawURL =
     (if HasSuffix rawURL ''.git''
      then [rawURL, TrimSuffix rawURL ''.git'' @ ''.git/info/refs'',
            TrimSuffix rawURL ''.git'' @ ''/info/refs'', TrimSuffix rawURL ''.git'']
      else [rawURL, rawURL @ ''.git'', rawURL @ ''.git/info/refs'',
            rawURL @ ''/info/refs'', rawURL])"
    by (rule buildGitEndpoints_cases)
  have p0: "url_Parse lib rawURL = Inr parsed \<and> Scheme parsed = ''https'' \<longrightarrow>
        checkAccessibility lib NewURLValidator net rawURL =
          (case checkHTTPSAccessibility NewURLValidator net rawURL of
             (Inl err, tried) \<Rightarrow> (Inl (EndpointsFailed err), tried)
           | (Inr ok, tried) \<Rightarrow> (Inr (), tried))"
    by (simp add: checkAccessibility_def)
  have p2: "\<forall>t u. (t, u) \<in> set (snd (testEndpoint NewURLValidator net e)) \<longrightarrow> t = 15"
    using testEndpoint_timeout [of _ _ NewURLValidator net e] by (simp add: T)
  have p3: "request_ok net e \<and> round_trip net 15 e = Reply code loc
        \<and> (\<not> shouldRedirect code \<or> loc = [])
      \<longrightarrow> testEndpoint NewURLValidator net e =
            ((if code = 200 \<or> code = 301 \<or> code = 302 \<or> code = 401 then Inr ()
              else if code = 404 then Inl RepositoryNotFound404
              else if code = 403 then Inl AccessForbidden403
              else Inl (UnexpectedStatus code)),
             [(15, e)])"
    using testEndpoint_direct [of net e NewURLValidator code loc] by (simp add: T)
  have p4: "request_ok net e \<and> round_trip net 15 e = Reply code loc
        \<and> (code = 301 \<or> code = 302) \<and> loc \<noteq> []
        \<and> resolve_location net e loc = Some u
        \<and> round_trip net 15 u = Reply code' loc' \<and> (\<not> shouldRedirect code' \<or> loc' = [])
      \<longrightarrow> testEndpoint NewURLValidator net e =
            ((if code' = 200 \<or> code' = 301 \<or> code' = 302 \<or> code' = 401 then Inr ()
              else if code' = 404 then Inl RepositoryNotFound404
              else if code' = 403 then Inl AccessForbidden403
              else Inl (UnexpectedStatus code')),
             [(15, e), (15, u)])"
  proof
    assume a: "request_ok net e \<and> round_trip net 15 e = Reply code loc
        \<and> (code = 301 \<or> code = 302) \<and> loc \<noteq> []
        \<and> resolve_location net e loc = Some u
        \<and> round_trip net 15 u = Reply code' loc' \<and> (\<not> shouldRedirect code' \<or> loc' = [])"
    then have r: "shouldRedirect code" by (auto simp: shouldRedirect_def)
    from a r testEndpoint_one_hop [of net e NewURLValidator code loc u code' loc']
    show "testEndpoint NewURLValidator net e =
            ((if code' = 200 \<or> code' = 301 \<or> code' = 302 \<or> code' = 401 then Inr ()
              else if code' = 404 then Inl RepositoryNotFound404
              else if code' = 403 then Inl AccessForbidden403
              else Inl (UnexpectedStatus code')),
             [(15, e), (15, u)])"
      by (simp add: T)
  qed
  have p5: "buildGitEndpoints rawURL = pre @ hit # post
        \<and> (\<forall>x\<in>set pre. fst (testEndpoint NewURLValidator net x) \<noteq> Inr ())
        \<and> fst (testEndpoint NewURLValidator net hit) = Inr ()
      \<longrightarrow> checkHTTPSAccessibility NewURLValidator net rawURL =
            (Inr (), map (\<lambda>x. (x, snd (testEndpoint NewURLValidator net x))) (pre @ [hit]))"
    using probeEndpoints_first_ok [of NewURLValidator net hit pre None post]
    by (simp add: checkHTTPSAccessibility_def)
  have p6: "(\<forall>x\<in>set (buildGitEndpoints rawURL). fst (testEndpoint NewURLValidator net x) \<noteq> Inr ())
      \<longrightarrow> checkHTTPSAccessibility NewURLValidator net rawURL =
            (Inl (NotAccessible
               (Some (projl (fst (testEndpoint NewURLValidator net
                                    (TrimSuffix rawURL ''.git'')))))),
             map (\<lambda>x. (x, snd (testEndpoint NewURLValidator net x)))
               (buildGitEndpoints rawURL))"
    using probeEndpoints_all_fail [of "buildGitEndpoints rawURL" NewURLValidator net None]
      buildGitEndpoints_last [of rawURL]
    by (simp add: checkHTTPSAccessibility_def)
  from p1 p0 p2 p3 p4 p5 p6 show ?thesis by blast
qed

text \<open>
  At the server on which the repository page has moved: the raw URL, the first candidate,
  answers 301 with a \<^verbatim>\<open>Location\<close> whose page answers 404, as every other URL does. The
  code sends a second request for the first candidate, counts the candidate as not found,
  goes on through the list, and the check fails with ``repository not found''. When the
  same 301 carries no \<^verbatim>\<open>Location\<close>, which is what the repository's test serves, the
  candidate is accepted after one request.
\<close>

theorem checkHTTPSAccessibility_follows_redirects_witness:
  "round_trip moved_network 15 ''https://example.com/o/r'' = Reply 301 ''/gone''
   \<and> resolve_location moved_network ''https://example.com/o/r'' ''/gone''
       = Some ''https://example.com/gone''
   \<and> round_trip moved_network 15 ''https://example.com/gone'' = Reply 404 []
   \<and> testEndpoint NewURLValidator moved_network ''https://example.com/o/r'' =
       (Inl RepositoryNotFound404,
        [(15, ''https://example.com/o/r''), (15, ''https://example.com/gone'')])
   \<and> checkHTTPSAccessibility NewURLValidator moved_network ''https://example.com/o/r'' =
       (Inl (NotAccessible (Some RepositoryNotFound404)),
        [(''https://example.com/o/r'',
            [(15, ''https://example.com/o/r''), (15, ''https://example.com/gone'')]),
         (''https://example.com/o/r.git'', [(15, ''https://example.com/o/r.git'')]),
         (''https://example.com/o/r.git/info/refs'',
            [(15, ''https://example.com/o/r.git/info/refs'')]),
         (''https://example.com/o/r/info/refs'', [(15, ''https://example.com/o/r/info/refs'')]),
         (''https://example.com/o/r'',
            [(15, ''https://example.com/o/r''), (15, ''https://example.com/gone'')])])
   \<and> checkHTTPSAccessibility NewURLValidator
        (moved_network\<lparr>round_trip := \<lambda>timeout url. Reply 301 []\<rparr>) ''https://example.com/o/r'' =
       (Inr (), [(''https://example.com/o/r'', [(15, ''https://example.com/o/r'')])])"
proof -
  let ?raw = "''https://example.com/o/r''"
  let ?plain = "moved_network\<lparr>round_trip := \<lambda>timeout url. Reply 301 []\<rparr>"
  have r: "round_trip moved_network 15 ?raw = Reply 301 ''/gone''"
    and l: "resolve_location moved_network ?raw ''/gone'' = Some ''https://example.com/gone''"
    and g: "round_trip moved_network 15 ''https://example.com/gone'' = Reply 404 []"
    and k: "request_ok moved_network ?raw"
    by (simp_all add: moved_network_def)
  have b: "buildGitEndpoints ?raw =
       [?raw, ''https://example.com/o/r.git'', ''https://example.com/o/r.git/info/refs'',
        ''https://example.com/o/r/info/refs'', ?raw]"
    by (simp add: buildGitEndpoints_def TrimSuffix_def HasSuffix_def Let_def)
  have ts: "TrimSuffix ?raw ''.git'' = ?raw"
    by (simp add: TrimSuffix_def HasSuffix_def)
  have h: "request_ok moved_network ?raw \<and> round_trip moved_network 15 ?raw = Reply 301 ''/gone''
        \<and> ((301::nat) = 301 \<or> (301::nat) = 302) \<and> ''/gone'' \<noteq> []
        \<and> resolve_location moved_network ?raw ''/gone'' = Some ''https://example.com/gone''
        \<and> round_trip moved_network 15 ''https://example.com/gone'' = Reply 404 []
        \<and> (\<not> shouldRedirect 404 \<or> ([]::string) = [])"
    using r l g k by simp
  note t = checkHTTPSAccessibility_follows_redirects
             [where net = moved_network and rawURL = ?raw and e = ?raw and code = 301
                and loc = "''/gone''" and u = "''https://example.com/gone''" and code' = 404
                and loc' = "[]"]
  from t h have t1: "testEndpoint NewURLValidator moved_network ?raw =
            ((if (404::nat) = 200 \<or> (404::nat) = 301 \<or> (404::nat) = 302 \<or> (404::nat) = 401
              then Inr ()
              else if (404::nat) = 404 then Inl RepositoryNotFound404
              else if (404::nat) = 403 then Inl AccessForbidden403
              else Inl (UnexpectedStatus 404)),
             [(15, ?raw), (15, ''https://example.com/gone'')])"
    by blast
  then have t2: "testEndpoint NewURLValidator moved_network ?raw =
       (Inl RepositoryNotFound404, [(15, ?raw), (15, ''https://example.com/gone'')])"
    by simp
  have o: "testEndpoint NewURLValidator moved_network ''https://example.com/o/r.git'' =
             (Inl RepositoryNotFound404, [(15, ''https://example.com/o/r.git'')])"
     "testEndpoint NewURLValidator moved_network ''https://example.com/o/r.git/info/refs'' =
             (Inl RepositoryNotFound404, [(15, ''https://example.com/o/r.git/info/refs'')])"
     "testEndpoint NewURLValidator moved_network ''https://example.com/o/r/info/refs'' =
             (Inl RepositoryNotFound404, [(15, ''https://example.com/o/r/info/refs'')])"
    by (simp_all add: testEndpoint_moved_other)
  have f: "\<forall>x\<in>set (buildGitEndpoints ?raw).
             fst (testEndpoint NewURLValidator moved_network x) \<noteq> Inr ()"
    by (simp add: b t2 o)
  from t f have t3: "checkHTTPSAccessibility NewURLValidator moved_network ?raw =
            (Inl (NotAccessible
               (Some (projl (fst (testEndpoint NewURLValidator moved_network
                                    (TrimSuffix ?raw ''.git'')))))),
             map (\<lambda>x. (x, snd (testEndpoint NewURLValidator moved_network x)))
               (buildGitEndpoints ?raw))"
    by blast
  have t4: "checkHTTPSAccessibility NewURLValidator moved_network ?raw =
       (Inl (NotAccessible (Some RepositoryNotFound404)),
        [(?raw, [(15, ?raw), (15, ''https://example.com/gone'')]),
         (''https://example.com/o/r.git'', [(15, ''https://example.com/o/r.git'')]),
         (''https://example.com/o/r.git/info/refs'',
            [(15, ''https://example.com/o/r.git/info/refs'')]),
         (''https://example.com/o/r/info/refs'', [(15, ''https://example.com/o/r/info/refs'')]),
         (?raw, [(15, ?raw), (15, ''https://example.com/gone'')])])"
    unfolding t3 ts b by (simp add: t2 o)
  have k': "request_ok ?plain ?raw" and r': "round_trip ?plain 15 ?raw = Reply 301 []"
    by (simp_all add: moved_network_def)
  have h': "request_ok ?plain ?raw \<and> round_trip ?plain 15 ?raw = Reply 301 []
        \<and> (\<not> shouldRedirect 301 \<or> ([]::string) = [])"
    using k' r' by simp
  note t' = checkHTTPSAccessibility_follows_redirects
             [where net = ?plain and rawURL = ?raw and e = ?raw and code = 301 and loc = "[]"
                and pre = "[]" and hit = ?raw
                and post = "[''https://example.com/o/r.git'',
                            ''https://example.com/o/r.git/info/refs'',
                            ''https://example.com/o/r/info/refs'', ?raw]"]
  from t' h' have t5: "testEndpoint NewURLValidator ?plain ?raw =
            ((if (301::nat) = 200 \<or> (301::nat) = 301 \<or> (301::nat) = 302 \<or> (301::nat) = 401
              then Inr ()
              else if (301::nat) = 404 then Inl RepositoryNotFound404
              else if (301::nat) = 403 then Inl AccessForbidden403
              else Inl (UnexpectedStatus 301)),
             [(15, ?raw)])"
    by blast
  then have t6: "testEndpoint NewURLValidator ?plain ?raw = (Inr (), [(15, ?raw)])"
    by simp
  have h'': "buildGitEndpoints ?raw = [] @ ?raw #
                [''https://example.com/o/r.git'', ''https://example.com/o/r.git/info/refs'',
                 ''https://example.com/o/r/info/refs'', ?raw]
        \<and> (\<forall>x\<in>set []. fst (testEndpoint NewURLValidator ?plain x) \<noteq> Inr ())
        \<and> fst (testEndpoint NewURLValidator ?plain ?raw) = Inr ()"
    using b t6 by simp
  from t' h'' have t7: "checkHTTPSAccessibility NewURLValidator ?plain ?raw =
            (Inr (), map (\<lambda>x. (x, snd (testEndpoint NewURLValidator ?plain x))) ([] @ [?raw]))"
    by blast
  have t8: "checkHTTPSAccessibility NewURLValidator ?plain ?raw =
       (Inr (), [(?raw, [(15, ?raw)])])"
    unfolding t7 by (simp add: t6)
  from r l g t2 t4 t8 show ?thesis by blast
qed

subsection \<open>Format validation of the SSH shorthand\<close>

lemma HasPrefix_git_at:
  assumes "HasPrefix rawURL ''git@''"
  shows "\<exists>rest. rawURL = CHR ''g'' # CHR ''i'' # CHR ''t'' # CHR ''@'' # rest"
proof -
  from assms have "take (length ''git@'') rawURL = ''git@''"
    unfolding HasPrefix_def .
  then have "rawURL = ''git@'' @ drop (length ''git@'') rawURL"
    by (metis append_take_drop_id)
  then show ?thesis by auto
qed

lemma getScheme_git_at:
  "getScheme (CHR ''g'' # CHR ''i'' # CHR ''t'' # CHR ''@'' # rest) =
     Inr ([], CHR ''g'' # CHR ''i'' # CHR ''t'' # CHR ''@'' # rest)"
  by (simp add: getScheme_def is_lower_def is_upper_def is_digit_def byte_def)

lemma parse_no_fragment_git_at:
  "parse_no_fragment lib (CHR ''g'' # CHR ''i'' # CHR ''t'' # CHR ''@'' # rest) = Inr u
     \<Longrightarrow> Scheme u = []"
  by (auto simp: parse_no_fragment_def getScheme_git_at Let_def split: if_splits option.splits)

lemma url_Parse_git_at:
  assumes "HasPrefix rawURL ''git@''" and "url_Parse lib rawURL = Inr u"
  shows "Scheme u = []"
proof -
  from assms(1) obtain rest
    where r: "rawURL = CHR ''g'' # CHR ''i'' # CHR ''t'' # CHR ''@'' # rest"
    using HasPrefix_git_at by blast
  have c: "cut_before CHR ''#'' rawURL =
             CHR ''g'' # CHR ''i'' # CHR ''t'' # CHR ''@'' # cut_before CHR ''#'' rest"
    by (simp add: r cut_before_def)
  from assms(2) have "parse_no_fragment lib (cut_before CHR ''#'' rawURL) = Inr u"
    by (auto simp: url_Parse_def Let_def split: sum.splits if_splits)
  then show ?thesis unfolding c by (rule parse_no_fragment_git_at)
qed

lemma validateURLFormat_git_at:
  assumes "HasPrefix rawURL ''git@''"
  shows "validateURLFormat lib rawURL = Inl SchemeRequired
       \<or> (\<exists>e. validateURLFormat lib rawURL = Inl (FailedToParseURL e))"
proof (cases "url_Parse lib rawURL")
  case (Inl e)
  then show ?thesis by (simp add: validateURLFormat_def)
next
  case (Inr u)
  with assms have "Scheme u = []" by (rule url_Parse_git_at)
  with Inr show ?thesis by (simp add: validateURLFormat_def)
qed

lemma sshPattern_prefix: "sshPattern_matches rawURL \<Longrightarrow> HasPrefix rawURL ''git@''"
  by (simp add: sshPattern_matches_def)

lemma validateSSHURL_sample: "validateSSHURL ''git@github.com:user/repo.git'' = Inr ()"
  by (simp add: validateSSHURL_def sshPattern_matches_def HasPrefix_def ssh_host_def
      ssh_path_def cut_before_def cut_after_def byte_def Let_def)

lemma validateURLFormat_sample:
  "validateURLFormat lib ''git@github.com:user/repo.git'' =
     Inl (FailedToParseURL FirstPathSegmentColon)"
  by (simp add: validateURLFormat_def url_Parse_def parse_no_fragment_def cut_before_def
      cut_after_def stringContainsCTLByte_def getScheme_def byte_def is_lower_def is_upper_def
      is_digit_def HasPrefix_def HasSuffix_def)

text \<open>
  C3. The claim is that format validation accepts the SSH shorthand
  \<^verbatim>\<open>git@<host>:<path>\<close>, and \<^verbatim>\<open>git@github.com:user/repo.git\<close> in particular, and rejects
  \<^verbatim>\<open>git@github.com/user/repo\<close>. The code rejects both, and \<^verbatim>\<open>ValidateURL\<close> stops there
  without a request. \<^verbatim>\<open>validateURLFormat\<close> hands a URL
  to \<^verbatim>\<open>validateSSHURL\<close> only when \<^verbatim>\<open>url.Parse\<close> reports the scheme \<^verbatim>\<open>git\<close>; for a
  string that starts with \<^verbatim>\<open>git@\<close> the parser finds no scheme, and fails outright when the
  first path segment holds a colon. So: the shorthand of the claim is refused with the
  parser's error, although \<^verbatim>\<open>validateSSHURL\<close> itself would accept it; every string that the
  SSH pattern matches is refused by \<^verbatim>\<open>validateURLFormat\<close>, with the scheme-required error
  or a parse error; and the form with a slash is refused as the claim says.
\<close>

theorem validateURLFormat_refuses_ssh_shorthand:
  "validateURLFormat lib ''git@github.com:user/repo.git'' =
      Inl (FailedToParseURL FirstPathSegmentColon)
   \<and> ValidateURL lib v net ''git@github.com:user/repo.git'' =
      (Inl (InvalidURLFormat (FailedToParseURL FirstPathSegmentColon)), [])
   \<and> validateSSHURL ''git@github.com:user/repo.git'' = Inr ()
   \<and> (sshPattern_matches rawURL \<longrightarrow>
        validateURLFormat lib rawURL = Inl SchemeRequired
        \<or> (\<exists>e. validateURLFormat lib rawURL = Inl (FailedToParseURL e)))
   \<and> (validateURLFormat lib ''git@github.com/user/repo'' = Inl SchemeRequired
        \<or> (\<exists>e. validateURLFormat lib ''git@github.com/user/repo'' = Inl (FailedToParseURL e)))"
proof (intro conjI impI)
  show "validateURLFormat lib ''git@github.com:user/repo.git'' =
      Inl (FailedToParseURL FirstPathSegmentColon)"
    by (rule validateURLFormat_sample)
next
  show "ValidateURL lib v net ''git@github.com:user/repo.git'' =
      (Inl (InvalidURLFormat (FailedToParseURL FirstPathSegmentColon)), [])"
    by (simp add: ValidateURL_def validateURLFormat_sample)
next
  show "validateSSHURL ''git@github.com:user/repo.git'' = Inr ()"
    by (rule validateSSHURL_sample)
next
  assume "sshPattern_matches rawURL"
  then have "HasPrefix rawURL ''git@''" by (rule sshPattern_prefix)
  then show "validateURLFormat lib rawURL = Inl SchemeRequired
        \<or> (\<exists>e. validateURLFormat lib rawURL = Inl (FailedToParseURL e))"
    by (rule validateURLFormat_git_at)
next
  have "HasPrefix ''git@github.com/user/repo'' ''git@''" by (simp add: HasPrefix_def)
  then show "validateURLFormat lib ''git@github.com/user/repo'' = Inl SchemeRequired
        \<or> (\<exists>e. validateURLFormat lib ''git@github.com/user/repo'' = Inl (FailedToParseURL e))"
    by (rule validateURLFormat_git_at)
qed

theorem validateURLFormat_refuses_ssh_shorthand_witness:
  "sshPattern_matches ''git@gitlab.com:group/project.git''
   \<and> validateURLFormat
        \<lparr> parse_hierarchical = (\<lambda>scheme rest. Some ([], rest)), fragment_ok = (\<lambda>f. True) \<rparr>
        ''git@gitlab.com:group/project.git'' \<noteq> Inr ()"
proof -
  have m: "sshPattern_matches ''git@gitlab.com:group/project.git''"
    by (simp add: sshPattern_matches_def HasPrefix_def ssh_host_def ssh_path_def
        cut_before_def cut_after_def byte_def Let_def)
  from validateURLFormat_refuses_ssh_shorthand
         [where lib = "\<lparr> parse_hierarchical = (\<lambda>scheme rest. Some ([], rest)),
                 fragment_ok = (\<lambda>f. True) \<rparr>"
            and rawURL = "''git@gitlab.com:group/project.git''"] m
  show ?thesis by auto
qed

section \<open>Properties of the source control client\<close>

lemma set_entry_fields [simp]:
  "registries (set_entry n e st) = registries st"
  "registries_file (set_entry n e st) = registries_file st"
  "actions (set_entry n e st) = actions st"
  by (simp_all add: set_entry_def split: cache_root.splits)

lemma record_action_fields [simp]:
  "registries (record_action a st) = registries st"
  "registries_file (record_action a st) = registries_file st"
  "cache (record_action a st) = cache st"
  "actions (record_action a st) = actions st @ [a]"
  by (simp_all add: record_action_def)

lemma lookup_entry_record_action [simp]:
  "lookup_entry (record_action a st) n = lookup_entry st n"
  by (simp add: lookup_entry_def)

lemma lookup_entry_set_entry:
  "cache st \<noteq> NoCacheDir \<Longrightarrow>
     lookup_entry (set_entry n e st) m = (if m = n then e else lookup_entry st m)"
  by (cases "cache st") (simp_all add: lookup_entry_def set_entry_def)

lemma lookup_entry_Some_cache: "lookup_entry st n = Some e \<Longrightarrow> cache st \<noteq> NoCacheDir"
  by (auto simp: lookup_entry_def)

lemma updateRepository_keeps [simp]:
  "registries (snd (updateRepository w name st)) = registries st"
  "registries_file (snd (updateRepository w name st)) = registries_file st"
  "actions (snd (updateRepository w name st)) = actions st @ [GitPull name]"
  by (simp_all add: updateRepository_def Let_def split: option.splits entry.splits)

lemma CloneRepository_keeps [simp]:
  "registries (snd (CloneRepository w url name st)) = registries st"
  "registries_file (snd (CloneRepository w url name st)) = registries_file st"
  by (simp_all add: CloneRepository_def Let_def)

lemma CloneRepository_actions:
  "actions (snd (CloneRepository w url name st)) = actions st
   \<or> actions (snd (CloneRepository w url name st)) = actions st @ [GitPull name]
   \<or> actions (snd (CloneRepository w url name st)) = actions st @ [GitClone url name]"
  by (simp add: CloneRepository_def Let_def)

lemma RemoveRepository_keeps [simp]:
  "registries (snd (RemoveRepository w name st)) = registries st"
  "registries_file (snd (RemoveRepository w name st)) = registries_file st"
  by (simp_all add: RemoveRepository_def Let_def split: option.splits)

lemma RemoveRepository_removes:
  assumes "IsRepositoryCloned st name" and "remove_leaves w = None"
  shows "lookup_entry (snd (RemoveRepository w name st)) name = None"
proof -
  from assms(1) have "lookup_entry st name \<noteq> None"
    by (auto simp: IsRepositoryCloned_def split: option.splits)
  then have c: "cache (record_action (RemoveAll name) st) \<noteq> NoCacheDir"
    by (auto simp: lookup_entry_def)
  from assms show ?thesis
    by (simp add: RemoveRepository_def Let_def lookup_entry_set_entry [OF c])
qed

text \<open>
  C10. When \<^verbatim>\<open><cache>/<name>\<close> is a directory without a \<^verbatim>\<open>.git\<close> directory,
  \<^verbatim>\<open>IsRepositoryCloned\<close> is false, \<^verbatim>\<open>CloneRepository\<close> does exactly what
  \<^verbatim>\<open>updateRepository\<close> does in that directory (the one command it starts is the pull, no
  clone), and \<^verbatim>\<open>RemoveRepository\<close> fails with ``repository not found'' and changes
  nothing. The reason is the test of \<^verbatim>\<open>CloneRepository\<close>: whatever exists at the place
  sends it to the update, while \<^verbatim>\<open>IsRepositoryCloned\<close> asks for the \<^verbatim>\<open>.git\<close> directory.
\<close>

theorem CloneRepository_pulls_without_git_dir:
  "(lookup_entry st name = Some (Directory t) \<and> \<not> git_dir t \<longrightarrow>
      \<not> IsRepositoryCloned st name
      \<and> CloneRepository w url name st = updateRepository w name st
      \<and> actions (snd (CloneRepository w url name st)) = actions st @ [GitPull name]
      \<and> RemoveRepository w name st = (Inl (RepositoryNotFound name), st))
   \<and> (lookup_entry st name \<noteq> None \<longrightarrow>
        CloneRepository w url name st = updateRepository w name st)
   \<and> (IsRepositoryCloned st name =
        (\<exists>t'. lookup_entry st name = Some (Directory t') \<and> git_dir t'))"
proof -
  have p1: "lookup_entry st name = Some (Directory t) \<and> \<not> git_dir t \<longrightarrow>
      \<not> IsRepositoryCloned st name
      \<and> CloneRepository w url name st = updateRepository w name st
      \<and> actions (snd (CloneRepository w url name st)) = actions st @ [GitPull name]
      \<and> RemoveRepository w name st = (Inl (RepositoryNotFound name), st)"
  proof
    assume a: "lookup_entry st name = Some (Directory t) \<and> \<not> git_dir t"
    then have c: "cache st \<noteq> NoCacheDir" using lookup_entry_Some_cache by blast
    have 1: "\<not> IsRepositoryCloned st name" using a by (simp add: IsRepositoryCloned_def)
    have 2: "CloneRepository w url name st = updateRepository w name st"
      using a c by (simp add: CloneRepository_def)
    have 3: "RemoveRepository w name st = (Inl (RepositoryNotFound name), st)"
      using 1 by (simp add: RemoveRepository_def)
    from 1 2 3 show "\<not> IsRepositoryCloned st name
        \<and> CloneRepository w url name st = updateRepository w name st
        \<and> actions (snd (CloneRepository w url name st)) = actions st @ [GitPull name]
        \<and> RemoveRepository w name st = (Inl (RepositoryNotFound name), st)"
      by simp
  qed
  have p2: "lookup_entry st name \<noteq> None \<longrightarrow>
        CloneRepository w url name st = updateRepository w name st"
  proof
    assume a: "lookup_entry st name \<noteq> None"
    then have "cache st \<noteq> NoCacheDir" by (auto simp: lookup_entry_def)
    with a show "CloneRepository w url name st = updateRepository w name st"
      by (simp add: CloneRepository_def)
  qed
  have p3: "IsRepositoryCloned st name =
        (\<exists>t'. lookup_entry st name = Some (Directory t') \<and> git_dir t')"
    by (auto simp: IsRepositoryCloned_def split: option.splits entry.splits)
  from p1 p2 p3 show ?thesis by blast
qed

theorem CloneRepository_pulls_without_git_dir_witness:
  "lookup_entry bare_state ''reg'' = Some (Directory (sample_tree\<lparr>git_dir := False\<rparr>))
   \<and> \<not> git_dir (sample_tree\<lparr>git_dir := False\<rparr>)
   \<and> \<not> IsRepositoryCloned bare_state ''reg''
   \<and> actions (snd (CloneRepository calm_world ''https://example.com/o/r'' ''reg'' bare_state))
       = [GitPull ''reg'']
   \<and> RemoveRepository calm_world ''reg'' bare_state = (Inl (RepositoryNotFound ''reg''), bare_state)"
proof -
  have l: "lookup_entry bare_state ''reg'' = Some (Directory (sample_tree\<lparr>git_dir := False\<rparr>))"
    by (simp add: lookup_entry_def bare_state_def)
  have a: "actions bare_state = []" by (simp add: bare_state_def)
  from CloneRepository_pulls_without_git_dir
         [of bare_state "''reg''" "sample_tree\<lparr>git_dir := False\<rparr>" calm_world
             "''https://example.com/o/r''"] l a
  show ?thesis by simp
qed

lemma Split_length_ge: "length (Split s c) \<ge> 1"
  by (induction s) (auto split: list.splits)

text \<open>
  C9. The claim is that \<^verbatim>\<open>GetRepositoryInfo\<close> never fails. It does fail, for every name
  that \<^verbatim>\<open>IsRepositoryCloned\<close> refuses, by the guard at its head. For a cloned name it
  returns a \<^verbatim>\<open>RepositoryInfo\<close> with the name and the path set, and each other field is
  the zero value when its step fails: the remote URL when \<^verbatim>\<open>git remote get-url\<close> fails; hash,
  message and time when \<^verbatim>\<open>git log\<close> fails or prints fewer than three fields; the time when
  the third field is not a number.
\<close>

theorem GetRepositoryInfo_best_effort_when_cloned:
  "(\<not> IsRepositoryCloned st name \<longrightarrow>
      GetRepositoryInfo g out st name = Inl (RepositoryNotCloned name))
   \<and> (IsRepositoryCloned st name \<longrightarrow>
       (\<exists>info. GetRepositoryInfo g out st name = Inr info
          \<and> info_Name info = name
          \<and> info_Path info = GetRepositoryPath g name
          \<and> (remote_get_url out = None \<longrightarrow> RemoteURL info = [])
          \<and> (\<forall>output. remote_get_url out = Some output \<longrightarrow> RemoteURL info = TrimSpace output)
          \<and> (log_last out = None \<longrightarrow>
               LastCommitHash info = [] \<and> LastCommitMessage info = []
               \<and> LastCommitTime info = None)
          \<and> (\<forall>output. log_last out = Some output
                 \<and> length (Split (TrimSpace output) CHR ''|'') < 3 \<longrightarrow>
               LastCommitHash info = [] \<and> LastCommitMessage info = []
               \<and> LastCommitTime info = None)
          \<and> (\<forall>output. log_last out = Some output
                 \<and> length (Split (TrimSpace output) CHR ''|'') \<ge> 3 \<longrightarrow>
               LastCommitHash info = Split (TrimSpace output) CHR ''|'' ! 0
               \<and> LastCommitMessage info = Split (TrimSpace output) CHR ''|'' ! 1
               \<and> LastCommitTime info =
                   (case parseUnixTimestamp (Split (TrimSpace output) CHR ''|'' ! 2) of
                      Inl e \<Rightarrow> None | Inr timestamp \<Rightarrow> timestamp))))"
proof (intro conjI impI)
  assume "\<not> IsRepositoryCloned st name"
  then show "GetRepositoryInfo g out st name = Inl (RepositoryNotCloned name)"
    by (simp add: GetRepositoryInfo_def)
next
  assume c: "IsRepositoryCloned st name"
  show "\<exists>info. GetRepositoryInfo g out st name = Inr info
          \<and> info_Name info = name
          \<and> info_Path info = GetRepositoryPath g name
          \<and> (remote_get_url out = None \<longrightarrow> RemoteURL info = [])
          \<and> (\<forall>output. remote_get_url out = Some output \<longrightarrow> RemoteURL info = TrimSpace output)
          \<and> (log_last out = None \<longrightarrow>
               LastCommitHash info = [] \<and> LastCommitMessage info = []
               \<and> LastCommitTime info = None)
          \<and> (\<forall>output. log_last out = Some output
                 \<and> length (Split (TrimSpace output) CHR ''|'') < 3 \<longrightarrow>
               LastCommitHash info = [] \<and> LastCommitMessage info = []
               \<and> LastCommitTime info = None)
          \<and> (\<forall>output. log_last out = Some output
                 \<and> length (Split (TrimSpace output) CHR ''|'') \<ge> 3 \<longrightarrow>
               LastCommitHash info = Split (TrimSpace output) CHR ''|'' ! 0
               \<and> LastCommitMessage info = Split (TrimSpace output) CHR ''|'' ! 1
               \<and> LastCommitTime info =
                   (case parseUnixTimestamp (Split (TrimSpace output) CHR ''|'' ! 2) of
                      Inl e \<Rightarrow> None | Inr timestamp \<Rightarrow> timestamp))"
    using c
    by (cases "remote_get_url out"; cases "log_last out")
       (auto simp: GetRepositoryInfo_def Let_def split: sum.splits)
qed

theorem GetRepositoryInfo_best_effort_when_cloned_witness:
  "IsRepositoryCloned one_state ''reg''
   \<and> GetRepositoryInfo sample_client sample_output one_state ''reg'' =
       Inr \<lparr> info_Name = ''reg'', info_Path = ''/home/u/.go-shellify/cache/reg'',
             RemoteURL = [], LastCommitHash = ''abc'', LastCommitMessage = ''first commit'',
             LastCommitTime = None \<rparr>
   \<and> GetRepositoryInfo sample_client sample_output empty_state ''reg'' =
       Inl (RepositoryNotCloned ''reg'')"
proof -
  have c: "IsRepositoryCloned one_state ''reg''"
    by (simp add: IsRepositoryCloned_def lookup_entry_def one_state_def sample_tree_def)
  have n: "\<not> IsRepositoryCloned empty_state ''reg''"
    by (simp add: IsRepositoryCloned_def lookup_entry_def empty_state_def)
  have t: "TrimSpace ''abc|first commit|12x'' = ''abc|first commit|12x''"
    by (simp add: TrimSpace_def is_ascii_space_def byte_def)
  have s: "Split ''abc|first commit|12x'' CHR ''|'' = [''abc'', ''first commit'', ''12x'']"
    by simp
  have p: "parseUnixTimestamp ''12x'' = Inl (InvalidCharacter 2)"
    by (simp add: parseUnixTimestamp_def parseIntFromString_def is_digit_def byte_def)
  from GetRepositoryInfo_best_effort_when_cloned [of one_state "''reg''" sample_client sample_output]
    GetRepositoryInfo_best_effort_when_cloned [of empty_state "''reg''" sample_client sample_output]
    c n
  show ?thesis
    by (auto simp: sample_output_def t s p GetRepositoryPath_def sample_client_def)
qed

text \<open>
  Against C9 as stated: with an empty cache the call fails with ``repository not cloned''.
\<close>

theorem GetRepositoryInfo_fails_when_not_cloned:
  "GetRepositoryInfo sample_client sample_output empty_state ''reg'' =
     Inl (RepositoryNotCloned ''reg'')"
  by (simp add: GetRepositoryInfo_def IsRepositoryCloned_def lookup_entry_def empty_state_def)

section \<open>Properties of the registry client\<close>

lemma find_existing_None:
  "find_existing regs url name = None \<longleftrightarrow> (\<forall>r \<in> set regs. URL r \<noteq> url \<and> Name r \<noteq> name)"
  by (induction regs) auto

lemma find_existing_Some:
  "find_existing regs url name = Some e \<Longrightarrow>
     e = RegistryAlreadyExists url \<or> e = RegistryNameAlreadyExists name"
  by (induction regs) (auto split: if_splits)

lemma find_name_Some:
  "find_name regs name = Some i \<Longrightarrow> i < length regs \<and> Name (regs ! i) = name"
  by (induction regs arbitrary: i) (auto split: if_splits)

lemma distinct_map_remove_nth:
  "distinct (map f xs) \<Longrightarrow> distinct (map f (take i xs @ drop (Suc i) xs))"
proof (induction xs arbitrary: i)
  case Nil
  then show ?case by simp
next
  case (Cons x xs)
  show ?case
  proof (cases i)
    case 0
    with Cons.prems show ?thesis by simp
  next
    case (Suc k)
    have "set (take k xs @ drop (Suc k) xs) \<subseteq> set xs"
      using set_take_subset [of k xs] set_drop_subset [of "Suc k" xs] by auto
    with Cons.prems Cons.IH [of k] Suc show ?thesis by auto
  qed
qed

lemma saveRegistries_registries [simp]:
  "registries (snd (saveRegistries codec w st)) = registries st"
  by (simp add: saveRegistries_def Let_def split: option.splits)

lemma AddRegistry_registries:
  "registries (snd (AddRegistry codec w url name st)) = registries st
   \<or> (find_existing (registries st) url name = None
      \<and> registries (snd (AddRegistry codec w url name st)) =
          registries st @ [\<lparr> URL = url, Name = name, Description = [],
                             AddedAt = now1 w, LastSync = now2 w \<rparr>])"
proof (cases "find_existing (registries st) url name")
  case (Some e)
  then show ?thesis by (simp add: AddRegistry_def)
next
  case None
  obtain r st1 where c: "CloneRepository w url name st = (r, st1)"
    by (cases "CloneRepository w url name st")
  have k: "registries st1 = registries st"
    using CloneRepository_keeps(1) [of w url name st] c by simp
  show ?thesis using None c k
    by (auto simp: AddRegistry_def Let_def split: sum.splits)
qed

lemma RemoveRegistry_registries:
  "registries (snd (RemoveRegistry codec w ident st)) = registries st
   \<or> (\<exists>i. registries (snd (RemoveRegistry codec w ident st)) =
          take i (registries st) @ drop (Suc i) (registries st))"
proof (cases "find_identifier (registries st) ident")
  case None
  then show ?thesis by (simp add: RemoveRegistry_def)
next
  case (Some i)
  obtain r st0 where rr: "RemoveRepository w (Name (registries st ! i)) st = (r, st0)"
    by (cases "RemoveRepository w (Name (registries st ! i)) st")
  have k: "registries st0 = registries st"
    using RemoveRepository_keeps(1) [of w "Name (registries st ! i)" st] rr by simp
  show ?thesis using Some rr k
    by (auto simp: RemoveRegistry_def Let_def split: sum.splits)
qed

lemma SyncRegistry_registries:
  "registries (snd (SyncRegistry codec w name st)) = registries st
   \<or> (\<exists>i < length (registries st). registries (snd (SyncRegistry codec w name st)) =
          (registries st)[i := (registries st ! i)\<lparr>LastSync := now1 w\<rparr>])"
proof (cases "find_name (registries st) name")
  case None
  then show ?thesis by (simp add: SyncRegistry_def)
next
  case (Some i)
  then have i: "i < length (registries st)" using find_name_Some by blast
  obtain r1 s1 where c: "CloneRepository w (URL (registries st ! i)) name st = (r1, s1)"
    by (cases "CloneRepository w (URL (registries st ! i)) name st")
  obtain r2 s2 where u: "updateRepository w name st = (r2, s2)"
    by (cases "updateRepository w name st")
  have k1: "registries s1 = registries st"
    using CloneRepository_keeps(1) [of w "URL (registries st ! i)" name st] c by simp
  have k2: "registries s2 = registries st"
    using updateRepository_keeps(1) [of w name st] u by simp
  show ?thesis using Some i c u k1 k2
    by (auto simp: SyncRegistry_def Let_def split: sum.splits if_splits)
qed

lemma step_unique:
  assumes "distinct (map Name (registries st))" and "distinct (map URL (registries st))"
  shows "distinct (map Name (registries (step codec op st)))
       \<and> distinct (map URL (registries (step codec op st)))"
proof (cases op)
  case (Add w url name)
  from AddRegistry_registries [of codec w url name st] assms show ?thesis
    by (auto simp: step_def Add find_existing_None)
next
  case (Remove w ident)
  have s: "step codec op st = snd (RemoveRegistry codec w ident st)"
    by (simp add: step_def Remove)
  from RemoveRegistry_registries [of codec w ident st]
  consider "registries (step codec op st) = registries st"
    | i where "registries (step codec op st) =
                 take i (registries st) @ drop (Suc i) (registries st)"
    unfolding s by blast
  then show ?thesis
  proof cases
    case 1
    with assms show ?thesis by simp
  next
    case 2
    show ?thesis
      unfolding 2
      using distinct_map_remove_nth [OF assms(1), of i]
        distinct_map_remove_nth [OF assms(2), of i]
      by blast
  qed
next
  case (Sync w name)
  from SyncRegistry_registries [of codec w name st]
  have "map Name (registries (step codec op st)) = map Name (registries st)
      \<and> map URL (registries (step codec op st)) = map URL (registries st)"
    by (auto simp: step_def Sync map_update list_update_same_conv)
  with assms show ?thesis by simp
qed

lemma run_unique:
  "distinct (map Name (registries st)) \<Longrightarrow> distinct (map URL (registries st)) \<Longrightarrow>
   distinct (map Name (registries (run codec ops st)))
     \<and> distinct (map URL (registries (run codec ops st)))"
proof (induction ops arbitrary: st)
  case Nil
  then show ?case by simp
next
  case (Cons op ops)
  from step_unique [OF Cons.prems, of codec op] Cons.IH show ?case by simp
qed

lemma AddRegistry_duplicate:
  assumes "\<exists>r \<in> set (registries st). URL r = url \<or> Name r = name"
  shows "AddRegistry codec w url name st = (Inl (RegistryAlreadyExists url), st)
       \<or> AddRegistry codec w url name st = (Inl (RegistryNameAlreadyExists name), st)"
proof -
  from assms have "find_existing (registries st) url name \<noteq> None"
    by (simp add: find_existing_None)
  then obtain e where e: "find_existing (registries st) url name = Some e" by auto
  from find_existing_Some [OF e] e show ?thesis by (auto simp: AddRegistry_def)
qed

lemma verifyLocalRegistry_ok_iff:
  "verifyLocalRegistry st name = Inr () \<longleftrightarrow>
     (\<exists>index. index_at (lookup_entry st name) = IndexParsed index \<and> index_Name index \<noteq> [])"
  by (auto simp: verifyLocalRegistry_def split: index_file.splits)

lemma AddRegistry_after_clone:
  assumes "find_existing (registries st) url name = None"
    and "fst (CloneRepository w url name st) = Inr ()"
  shows "AddRegistry codec w url name st =
     (case verifyLocalRegistry (snd (CloneRepository w url name st)) name of
        Inl e \<Rightarrow> (Inl (StructureValidationFailed e),
                  snd (RemoveRepository w name (snd (CloneRepository w url name st))))
      | Inr u \<Rightarrow>
          saveRegistries codec w
            ((snd (CloneRepository w url name st))
               \<lparr>registries := registries st @
                  [\<lparr> URL = url, Name = name, Description = [],
                     AddedAt = now1 w, LastSync = now2 w \<rparr>]\<rparr>))"
proof -
  obtain st1 where c: "CloneRepository w url name st = (Inr (), st1)"
    using assms(2) by (cases "CloneRepository w url name st") auto
  have k: "registries st1 = registries st"
    using CloneRepository_keeps(1) [of w url name st] c by simp
  show ?thesis using assms(1) c k
    by (simp add: AddRegistry_def Let_def split: sum.splits)
qed

text \<open>
  C7. Along every sequence of calls of \<^verbatim>\<open>AddRegistry\<close>, \<^verbatim>\<open>RemoveRegistry\<close> and
  \<^verbatim>\<open>SyncRegistry\<close>, whatever the outside world does and whatever each call returns, a list
  whose names are pairwise distinct and whose URLs are pairwise distinct stays so. And
  \<^verbatim>\<open>AddRegistry\<close> with a URL or a name that a record of the list already has returns one of
  the two already-exists errors and leaves the whole state as it was, the record of started
  actions included: no clone has been started.
\<close>

theorem registries_stay_unique:
  "(distinct (map Name (registries st)) \<and> distinct (map URL (registries st)) \<longrightarrow>
      distinct (map Name (registries (run codec ops st)))
      \<and> distinct (map URL (registries (run codec ops st))))
   \<and> ((\<exists>r \<in> set (registries st). URL r = url \<or> Name r = name) \<longrightarrow>
        AddRegistry codec w url name st = (Inl (RegistryAlreadyExists url), st)
        \<or> AddRegistry codec w url name st = (Inl (RegistryNameAlreadyExists name), st))"
  using run_unique [of st codec ops] AddRegistry_duplicate [of st url name codec w]
  by blast

theorem registries_stay_unique_witness:
  "distinct (map Name (registries empty_state)) \<and> distinct (map URL (registries empty_state))
   \<and> distinct (map Name (registries (run table_codec
        [Add calm_world ''https://example.com/o/r'' ''reg'',
         Add calm_world ''https://example.com/o/r'' ''other'',
         Sync broken_world ''reg'',
         Add calm_world ''https://example.com/o/s'' ''reg'',
         Remove calm_world ''reg''] empty_state)))
   \<and> distinct (map URL (registries (run table_codec
        [Add calm_world ''https://example.com/o/r'' ''reg'',
         Add calm_world ''https://example.com/o/r'' ''other'',
         Sync broken_world ''reg'',
         Add calm_world ''https://example.com/o/s'' ''reg'',
         Remove calm_world ''reg''] empty_state)))
   \<and> AddRegistry table_codec calm_world ''https://example.com/o/r'' ''other'' one_state
       = (Inl (RegistryAlreadyExists ''https://example.com/o/r''), one_state)"
proof -
  have d: "distinct (map Name (registries empty_state)) \<and> distinct (map URL (registries empty_state))"
    by (simp add: empty_state_def)
  have e: "\<exists>r \<in> set (registries one_state). URL r = ''https://example.com/o/r'' \<or> Name r = ''other''"
    by (simp add: one_state_def sample_registry_def)
  have n: "AddRegistry table_codec calm_world ''https://example.com/o/r'' ''other'' one_state
       \<noteq> (Inl (RegistryNameAlreadyExists ''other''), one_state)"
    by (simp add: AddRegistry_def one_state_def sample_registry_def)
  from registries_stay_unique
         [where st = empty_state and codec = table_codec and ops =
             "[Add calm_world ''https://example.com/o/r'' ''reg'',
               Add calm_world ''https://example.com/o/r'' ''other'',
               Sync broken_world ''reg'',
               Add calm_world ''https://example.com/o/s'' ''reg'',
               Remove calm_world ''reg'']"]
       registries_stay_unique
         [where st = one_state and url = "''https://example.com/o/r''" and name = "''other''"
            and codec = table_codec and w = calm_world]
       d e n
  show ?thesis by blast
qed

text \<open>
  C1. The claim is that \<^verbatim>\<open>AddRegistry\<close> runs the full structure validation of the
  validator (\<^verbatim>\<open>ValidateStructure\<close>) on the clone. It runs \<^verbatim>\<open>verifyLocalRegistry\<close>, which
  asks only that \<^verbatim>\<open>index.json\<close> exists, can be read, decodes, and has a name that is not
  empty. With that check in the place of the full validation the claim holds: when no record
  has the URL or the name and the clone succeeds, \<^verbatim>\<open>AddRegistry\<close> succeeds only if the
  check passes; when the check passes the call is the saving of the list extended by the new
  record; when the check fails the call returns the check's error, and neither the list nor
  the file has changed.
\<close>

theorem AddRegistry_persists_only_verified:
  "find_existing (registries st) url name = None
   \<and> fst (CloneRepository w url name st) = Inr () \<longrightarrow>
     (fst (AddRegistry codec w url name st) = Inr () \<longrightarrow>
        verifyLocalRegistry (snd (CloneRepository w url name st)) name = Inr ())
     \<and> (verifyLocalRegistry (snd (CloneRepository w url name st)) name = Inr ()) =
         (\<exists>index. index_at (lookup_entry (snd (CloneRepository w url name st)) name)
                    = IndexParsed index \<and> index_Name index \<noteq> [])
     \<and> (verifyLocalRegistry (snd (CloneRepository w url name st)) name = Inr () \<longrightarrow>
         AddRegistry codec w url name st =
           saveRegistries codec w
             ((snd (CloneRepository w url name st))
                \<lparr>registries := registries st @
                   [\<lparr> URL = url, Name = name, Description = [],
                      AddedAt = now1 w, LastSync = now2 w \<rparr>]\<rparr>))
     \<and> (\<forall>e. verifyLocalRegistry (snd (CloneRepository w url name st)) name = Inl e \<longrightarrow>
         fst (AddRegistry codec w url name st) = Inl (StructureValidationFailed e)
         \<and> registries (snd (AddRegistry codec w url name st)) = registries st
         \<and> registries_file (snd (AddRegistry codec w url name st)) = registries_file st)"
proof
  assume a: "find_existing (registries st) url name = None
   \<and> fst (CloneRepository w url name st) = Inr ()"
  then have eq: "AddRegistry codec w url name st =
     (case verifyLocalRegistry (snd (CloneRepository w url name st)) name of
        Inl e \<Rightarrow> (Inl (StructureValidationFailed e),
                  snd (RemoveRepository w name (snd (CloneRepository w url name st))))
      | Inr u \<Rightarrow>
          saveRegistries codec w
            ((snd (CloneRepository w url name st))
               \<lparr>registries := registries st @
                  [\<lparr> URL = url, Name = name, Description = [],
                     AddedAt = now1 w, LastSync = now2 w \<rparr>]\<rparr>))"
    using AddRegistry_after_clone by blast
  show "(fst (AddRegistry codec w url name st) = Inr () \<longrightarrow>
        verifyLocalRegistry (snd (CloneRepository w url name st)) name = Inr ())
     \<and> (verifyLocalRegistry (snd (CloneRepository w url name st)) name = Inr ()) =
         (\<exists>index. index_at (lookup_entry (snd (CloneRepository w url name st)) name)
                    = IndexParsed index \<and> index_Name index \<noteq> [])
     \<and> (verifyLocalRegistry (snd (CloneRepository w url name st)) name = Inr () \<longrightarrow>
         AddRegistry codec w url name st =
           saveRegistries codec w
             ((snd (CloneRepository w url name st))
                \<lparr>registries := registries st @
                   [\<lparr> URL = url, Name = name, Description = [],
                      AddedAt = now1 w, LastSync = now2 w \<rparr>]\<rparr>))
     \<and> (\<forall>e. verifyLocalRegistry (snd (CloneRepository w url name st)) name = Inl e \<longrightarrow>
         fst (AddRegistry codec w url name st) = Inl (StructureValidationFailed e)
         \<and> registries (snd (AddRegistry codec w url name st)) = registries st
         \<and> registries_file (snd (AddRegistry codec w url name st)) = registries_file st)"
    unfolding eq verifyLocalRegistry_ok_iff [symmetric]
    by (cases "verifyLocalRegistry (snd (CloneRepository w url name st)) name") simp_all
qed

lemma AddRegistry_sample:
  "AddRegistry table_codec calm_world ''https://example.com/o/r'' ''reg'' empty_state =
    (Inr (),
     \<lparr> registries = [\<lparr> URL = ''https://example.com/o/r'', Name = ''reg'', Description = [],
                       AddedAt = 3, LastSync = 4 \<rparr>],
       registries_file = Some (Document (JArray [JObject
          [(''url'', JString ''https://example.com/o/r''), (''name'', JString ''reg''),
           (''added_at'', JString ''T3''), (''last_sync'', JString ''T4'')]])),
       cache = CacheDir ((\<lambda>n. None)(''reg'' := Some (Directory sample_tree))),
       actions = [GitClone ''https://example.com/o/r'' ''reg'',
                  WriteFile (JArray [JObject
          [(''url'', JString ''https://example.com/o/r''), (''name'', JString ''reg''),
           (''added_at'', JString ''T3''), (''last_sync'', JString ''T4'')]])] \<rparr>)"
  by (simp add: calm_world_def empty_state_def table_codec_def sample_tree_def sample_index_def
      AddRegistry_def CloneRepository_def verifyLocalRegistry_def saveRegistries_def
      lookup_entry_def set_entry_def record_action_def index_at_def json_MarshalIndent_def
      marshal_Registry_def json_string_def byte_def Let_def)

lemma CloneRepository_sample:
  "CloneRepository w url ''reg'' empty_state =
     (if mkdir_ok w
      then (if clone_ok w then Inr () else Inl GitCloneFailed,
            \<lparr> registries = [], registries_file = None,
              cache = CacheDir ((\<lambda>n. None)(''reg'' := clone_leaves w)),
              actions = [GitClone url ''reg''] \<rparr>)
      else (Inl CreateCacheDirFailed, empty_state))"
  by (simp add: empty_state_def CloneRepository_def lookup_entry_def set_entry_def
      record_action_def Let_def)

theorem AddRegistry_persists_only_verified_witness:
  "find_existing (registries empty_state) ''https://example.com/o/r'' ''reg'' = None
   \<and> fst (CloneRepository broken_world ''https://example.com/o/r'' ''reg'' empty_state) = Inr ()
   \<and> verifyLocalRegistry
        (snd (CloneRepository broken_world ''https://example.com/o/r'' ''reg'' empty_state)) ''reg''
       = Inl InvalidIndexJSON
   \<and> fst (AddRegistry table_codec broken_world ''https://example.com/o/r'' ''reg'' empty_state)
       = Inl (StructureValidationFailed InvalidIndexJSON)
   \<and> registries (snd (AddRegistry table_codec broken_world ''https://example.com/o/r'' ''reg''
        empty_state)) = []
   \<and> registries_file (snd (AddRegistry table_codec broken_world ''https://example.com/o/r''
        ''reg'' empty_state)) = None"
proof -
  have f: "find_existing (registries empty_state) ''https://example.com/o/r'' ''reg'' = None"
    by (simp add: empty_state_def)
  have c: "fst (CloneRepository broken_world ''https://example.com/o/r'' ''reg'' empty_state)
      = Inr ()"
    by (simp add: CloneRepository_sample broken_world_def)
  have v: "verifyLocalRegistry
        (snd (CloneRepository broken_world ''https://example.com/o/r'' ''reg'' empty_state)) ''reg''
       = Inl InvalidIndexJSON"
    by (simp add: CloneRepository_sample broken_world_def verifyLocalRegistry_def index_at_def
        lookup_entry_def broken_tree_def)
  have r: "registries empty_state = [] \<and> registries_file empty_state = None"
    by (simp add: empty_state_def)
  from AddRegistry_persists_only_verified
         [of empty_state "''https://example.com/o/r''" "''reg''" broken_world table_codec]
       f c v r
  show ?thesis by simp
qed

text \<open>
  Against C1 as stated: a clone whose index has a name and no module is added, and its
  record is written to the file, although \<^verbatim>\<open>ValidateStructure\<close> refuses the same tree
  with ``must contain at least one module''.
\<close>

theorem AddRegistry_accepts_index_without_modules:
  "fst (AddRegistry table_codec calm_world ''https://example.com/o/r'' ''reg'' empty_state) = Inr ()
   \<and> registries (snd (AddRegistry table_codec calm_world ''https://example.com/o/r'' ''reg''
        empty_state))
      = [\<lparr> URL = ''https://example.com/o/r'', Name = ''reg'', Description = [],
            AddedAt = 3, LastSync = 4 \<rparr>]
   \<and> registries_file (snd (AddRegistry table_codec calm_world ''https://example.com/o/r'' ''reg''
        empty_state))
      = Some (Document (JArray [JObject
          [(''url'', JString ''https://example.com/o/r''), (''name'', JString ''reg''),
           (''added_at'', JString ''T3''), (''last_sync'', JString ''T4'')]]))
   \<and> lookup_entry (snd (AddRegistry table_codec calm_world ''https://example.com/o/r'' ''reg''
        empty_state)) ''reg'' = Some (Directory sample_tree)
   \<and> index_json sample_tree = IndexParsed sample_index
   \<and> index_Modules sample_index = []
   \<and> ValidateStructure (Some (Directory sample_tree)) = Inl (ModuleValidationFailed NoModules)"
proof -
  have v: "ValidateStructure (Some (Directory sample_tree)) = Inl (ModuleValidationFailed NoModules)"
    by (simp add: sample_tree_def sample_index_def index_at_def ValidateStructure_def
        validateIndexJSON_def validateModules_def TrimSpace_def is_ascii_space_def byte_def
        validateSemanticVersion_def semverPattern_matches_def semver_suffix_def is_digit_def
        validateRegistryName_def namePattern_matches_def is_lower_def)
  show ?thesis
    by (simp add: AddRegistry_sample lookup_entry_def v) (simp add: sample_tree_def sample_index_def)
qed

lemma sync_fetch_keeps [simp]:
  "registries (snd (sync_fetch w url name st)) = registries st"
  "registries_file (snd (sync_fetch w url name st)) = registries_file st"
  by (simp_all add: sync_fetch_def)

lemma sync_fetch_actions:
  "actions (snd (sync_fetch w url name st)) = actions st
   \<or> actions (snd (sync_fetch w url name st)) = actions st @ [GitPull name]
   \<or> actions (snd (sync_fetch w url name st)) = actions st @ [GitClone url name]"
  using CloneRepository_actions [of w url name st] by (simp add: sync_fetch_def)

lemma SyncRegistry_after_fetch:
  assumes "find_name (registries st) name = Some i"
    and "fst (sync_fetch w (URL (registries st ! i)) name st) = Inr ()"
  shows "SyncRegistry codec w name st =
     (case verifyLocalRegistry (snd (sync_fetch w (URL (registries st ! i)) name st)) name of
        Inl e \<Rightarrow> (Inl (ValidationAfterSyncFailed e),
                  snd (sync_fetch w (URL (registries st ! i)) name st))
      | Inr u \<Rightarrow>
          saveRegistries codec w
            ((snd (sync_fetch w (URL (registries st ! i)) name st))
               \<lparr>registries := (registries st)
                  [i := (registries st ! i)\<lparr>LastSync := now1 w\<rparr>]\<rparr>))"
proof (cases "IsRepositoryCloned st name")
  case True
  then have f: "sync_fetch w (URL (registries st ! i)) name st = updateRepository w name st"
    by (simp add: sync_fetch_def)
  obtain st1 where u: "updateRepository w name st = (Inr (), st1)"
    using assms(2) f by (cases "updateRepository w name st") auto
  have k: "registries st1 = registries st"
    using updateRepository_keeps(1) [of w name st] u by simp
  show ?thesis using assms(1) True u k
    by (simp add: SyncRegistry_def f split: sum.splits)
next
  case False
  then have f: "sync_fetch w (URL (registries st ! i)) name st =
                  CloneRepository w (URL (registries st ! i)) name st"
    by (simp add: sync_fetch_def)
  obtain st1 where u: "CloneRepository w (URL (registries st ! i)) name st = (Inr (), st1)"
    using assms(2) f by (cases "CloneRepository w (URL (registries st ! i)) name st") auto
  have k: "registries st1 = registries st"
    using CloneRepository_keeps(1) [of w "URL (registries st ! i)" name st] u by simp
  show ?thesis using assms(1) False u k
    by (simp add: SyncRegistry_def f split: sum.splits)
qed

lemma saveRegistries_ok:
  "fst (saveRegistries codec w st) = Inr () \<Longrightarrow>
     \<exists>data. json_MarshalIndent codec (registries st) = Some data
       \<and> registries_file (snd (saveRegistries codec w st)) = Some (Document data)"
  by (auto simp: saveRegistries_def Let_def split: option.splits)

lemma ValidateStructure_sample_tree:
  "ValidateStructure (Some (Directory sample_tree)) = Inl (ModuleValidationFailed NoModules)"
  by (simp add: sample_tree_def sample_index_def index_at_def ValidateStructure_def
      validateIndexJSON_def validateModules_def TrimSpace_def is_ascii_space_def byte_def
      validateSemanticVersion_def semverPattern_matches_def semver_suffix_def is_digit_def
      validateRegistryName_def namePattern_matches_def is_lower_def)

lemma sync_fetch_sample:
  "sync_fetch w url ''reg'' one_state =
     (if pull_ok w then Inr () else Inl GitPullFailed,
      \<lparr> registries = [sample_registry], registries_file = None,
        cache = CacheDir ((\<lambda>n. None)(''reg'' := pull_leaves w)),
        actions = [GitPull ''reg''] \<rparr>)"
  by (simp add: sync_fetch_def IsRepositoryCloned_def lookup_entry_def one_state_def
      sample_tree_def updateRepository_def set_entry_def record_action_def Let_def)

lemma marshal_stamped_sample:
  "json_MarshalIndent table_codec [sample_registry\<lparr>LastSync := 3\<rparr>] =
     Some (JArray [JObject
          [(''url'', JString ''https://example.com/o/r''), (''name'', JString ''reg''),
           (''added_at'', JString ''T0''), (''last_sync'', JString ''T3'')]])"
  by (simp add: sample_registry_def table_codec_def json_MarshalIndent_def marshal_Registry_def
      json_string_def byte_def Let_def)

lemma SyncRegistry_sample:
  "SyncRegistry table_codec calm_world ''reg'' one_state =
    (Inr (),
     \<lparr> registries = [sample_registry\<lparr>LastSync := 3\<rparr>],
       registries_file = Some (Document (JArray [JObject
          [(''url'', JString ''https://example.com/o/r''), (''name'', JString ''reg''),
           (''added_at'', JString ''T0''), (''last_sync'', JString ''T3'')]])),
       cache = CacheDir ((\<lambda>n. None)(''reg'' := Some (Directory sample_tree))),
       actions = [GitPull ''reg'',
                  WriteFile (JArray [JObject
          [(''url'', JString ''https://example.com/o/r''), (''name'', JString ''reg''),
           (''added_at'', JString ''T0''), (''last_sync'', JString ''T3'')]])] \<rparr>)"
proof -
  have f: "find_name (registries one_state) ''reg'' = Some 0"
    by (simp add: one_state_def sample_registry_def)
  have c: "IsRepositoryCloned one_state ''reg''"
    by (simp add: IsRepositoryCloned_def lookup_entry_def one_state_def sample_tree_def)
  have u: "updateRepository calm_world ''reg'' one_state =
     (Inr (), \<lparr> registries = [sample_registry], registries_file = None,
        cache = CacheDir ((\<lambda>n. None)(''reg'' := Some (Directory sample_tree))),
        actions = [GitPull ''reg''] \<rparr>)"
    using sync_fetch_sample [of calm_world "[]"] c
    by (simp add: sync_fetch_def calm_world_def)
  have v: "verifyLocalRegistry
       \<lparr> registries = [sample_registry], registries_file = None,
         cache = CacheDir ((\<lambda>n. None)(''reg'' := Some (Directory sample_tree))),
         actions = [GitPull ''reg''] \<rparr> ''reg'' = Inr ()"
    by (simp add: verifyLocalRegistry_def index_at_def lookup_entry_def sample_tree_def
        sample_index_def)
  have n: "now1 calm_world = 3" and wl: "write_leaves calm_world = None"
    by (simp_all add: calm_world_def)
  show ?thesis
    by (simp add: SyncRegistry_def f c u v n wl saveRegistries_def marshal_stamped_sample
        record_action_def Let_def)
qed

text \<open>
  C2. The claim is that \<^verbatim>\<open>SyncRegistry\<close> re-runs the structure validation of section 4.3
  after the clone or the pull. What it re-runs is the check of \<^verbatim>\<open>verifyLocalRegistry\<close>:
  \<^verbatim>\<open>index.json\<close> exists, can be read, decodes, and has a name that is not empty. With
  that check in the place of the validation the claim holds. For a registered name, when the
  clone (no \<^verbatim>\<open>.git\<close> directory in the cache) or the pull (otherwise) succeeds, the check is
  run after either. When it fails the call returns the validation-after-sync error with the
  state as the clone or pull left it: the list, and so every \<^verbatim>\<open>LastSync\<close>, is as before,
  the file is as before, and no write of the file has been started. When it passes, the
  record's \<^verbatim>\<open>LastSync\<close> is set to now and the whole list is written: the call succeeds
  with the file holding the encoding of the new list, or it returns the error of a write
  that failed, or of an encoding that failed, in which case no write is started. A call
  that succeeds has passed the check, and then the list holds the new \<^verbatim>\<open>LastSync\<close> and
  the file holds the whole list.
\<close>

theorem SyncRegistry_checks_before_stamping:
  "find_name (registries st) name = Some i
   \<and> fst (sync_fetch w (URL (registries st ! i)) name st) = Inr () \<longrightarrow>
     (\<forall>e. verifyLocalRegistry (snd (sync_fetch w (URL (registries st ! i)) name st)) name = Inl e
        \<longrightarrow> SyncRegistry codec w name st =
              (Inl (ValidationAfterSyncFailed e),
               snd (sync_fetch w (URL (registries st ! i)) name st))
            \<and> registries (snd (SyncRegistry codec w name st)) = registries st
            \<and> registries_file (snd (SyncRegistry codec w name st)) = registries_file st
            \<and> (\<forall>data. WriteFile data \<notin>
                  set (drop (length (actions st)) (actions (snd (SyncRegistry codec w name st))))))
     \<and> (\<forall>data. verifyLocalRegistry (snd (sync_fetch w (URL (registries st ! i)) name st)) name
                 = Inr ()
          \<and> json_MarshalIndent codec
               ((registries st)[i := (registries st ! i)\<lparr>LastSync := now1 w\<rparr>]) = Some data
        \<longrightarrow> SyncRegistry codec w name st =
              (case write_leaves w of
                 None \<Rightarrow>
                   (Inr (),
                    (snd (sync_fetch w (URL (registries st ! i)) name st))
                      \<lparr>registries := (registries st)[i := (registries st ! i)\<lparr>LastSync := now1 w\<rparr>],
                       registries_file := Some (Document data),
                       actions :=
                         actions (snd (sync_fetch w (URL (registries st ! i)) name st))
                           @ [WriteFile data]\<rparr>)
               | Some left \<Rightarrow>
                   (Inl WriteFailed,
                    (snd (sync_fetch w (URL (registries st ! i)) name st))
                      \<lparr>registries := (registries st)[i := (registries st ! i)\<lparr>LastSync := now1 w\<rparr>],
                       registries_file := left,
                       actions :=
                         actions (snd (sync_fetch w (URL (registries st ! i)) name st))
                           @ [WriteFile data]\<rparr>)))
     \<and> (verifyLocalRegistry (snd (sync_fetch w (URL (registries st ! i)) name st)) name = Inr ()
          \<and> json_MarshalIndent codec
               ((registries st)[i := (registries st ! i)\<lparr>LastSync := now1 w\<rparr>]) = None
        \<longrightarrow> SyncRegistry codec w name st =
              (Inl MarshalFailed,
               (snd (sync_fetch w (URL (registries st ! i)) name st))
                 \<lparr>registries := (registries st)[i := (registries st ! i)\<lparr>LastSync := now1 w\<rparr>]\<rparr>))
     \<and> (fst (SyncRegistry codec w name st) = Inr ()
        \<longrightarrow> verifyLocalRegistry (snd (sync_fetch w (URL (registries st ! i)) name st)) name
              = Inr ()
            \<and> registries (snd (SyncRegistry codec w name st)) =
                (registries st)[i := (registries st ! i)\<lparr>LastSync := now1 w\<rparr>]
            \<and> (\<exists>data. json_MarshalIndent codec
                         ((registries st)[i := (registries st ! i)\<lparr>LastSync := now1 w\<rparr>])
                       = Some data
                  \<and> registries_file (snd (SyncRegistry codec w name st))
                       = Some (Document data)))"
proof
  let ?f = "sync_fetch w (URL (registries st ! i)) name st"
  let ?new = "(registries st)[i := (registries st ! i)\<lparr>LastSync := now1 w\<rparr>]"
  assume a: "find_name (registries st) name = Some i \<and> fst ?f = Inr ()"
  then have eq: "SyncRegistry codec w name st =
     (case verifyLocalRegistry (snd ?f) name of
        Inl e \<Rightarrow> (Inl (ValidationAfterSyncFailed e), snd ?f)
      | Inr u \<Rightarrow> saveRegistries codec w ((snd ?f)\<lparr>registries := ?new\<rparr>))"
    using SyncRegistry_after_fetch by blast
  have nw: "\<forall>data. WriteFile data \<notin> set (drop (length (actions st)) (actions (snd ?f)))"
    using sync_fetch_actions [of w "URL (registries st ! i)" name st] by auto
  have p1: "\<forall>e. verifyLocalRegistry (snd ?f) name = Inl e
        \<longrightarrow> SyncRegistry codec w name st = (Inl (ValidationAfterSyncFailed e), snd ?f)
            \<and> registries (snd (SyncRegistry codec w name st)) = registries st
            \<and> registries_file (snd (SyncRegistry codec w name st)) = registries_file st
            \<and> (\<forall>data. WriteFile data \<notin>
                  set (drop (length (actions st)) (actions (snd (SyncRegistry codec w name st)))))"
    using nw by (simp add: eq)
  have p2: "\<forall>data. verifyLocalRegistry (snd ?f) name = Inr ()
          \<and> json_MarshalIndent codec ?new = Some data
        \<longrightarrow> SyncRegistry codec w name st =
              (case write_leaves w of
                 None \<Rightarrow>
                   (Inr (),
                    (snd ?f)\<lparr>registries := ?new, registries_file := Some (Document data),
                             actions := actions (snd ?f) @ [WriteFile data]\<rparr>)
               | Some left \<Rightarrow>
                   (Inl WriteFailed,
                    (snd ?f)\<lparr>registries := ?new, registries_file := left,
                             actions := actions (snd ?f) @ [WriteFile data]\<rparr>))"
    by (simp add: eq saveRegistries_def record_action_def Let_def split: option.splits)
  have p3: "verifyLocalRegistry (snd ?f) name = Inr ()
          \<and> json_MarshalIndent codec ?new = None
        \<longrightarrow> SyncRegistry codec w name st =
              (Inl MarshalFailed, (snd ?f)\<lparr>registries := ?new\<rparr>)"
    by (simp add: eq saveRegistries_def)
  have p4: "fst (SyncRegistry codec w name st) = Inr ()
        \<longrightarrow> verifyLocalRegistry (snd ?f) name = Inr ()
            \<and> registries (snd (SyncRegistry codec w name st)) = ?new
            \<and> (\<exists>data. json_MarshalIndent codec ?new = Some data
                  \<and> registries_file (snd (SyncRegistry codec w name st))
                       = Some (Document data))"
  proof
    assume ok: "fst (SyncRegistry codec w name st) = Inr ()"
    then have v: "verifyLocalRegistry (snd ?f) name = Inr ()"
      by (cases "verifyLocalRegistry (snd ?f) name") (simp_all add: eq)
    then have s: "SyncRegistry codec w name st =
                    saveRegistries codec w ((snd ?f)\<lparr>registries := ?new\<rparr>)"
      by (simp add: eq)
    from ok saveRegistries_ok [of codec w "(snd ?f)\<lparr>registries := ?new\<rparr>"]
    have "\<exists>data. json_MarshalIndent codec ?new = Some data
                  \<and> registries_file (snd (SyncRegistry codec w name st))
                       = Some (Document data)"
      by (simp add: s)
    with v s show "verifyLocalRegistry (snd ?f) name = Inr ()
            \<and> registries (snd (SyncRegistry codec w name st)) = ?new
            \<and> (\<exists>data. json_MarshalIndent codec ?new = Some data
                  \<and> registries_file (snd (SyncRegistry codec w name st))
                       = Some (Document data))"
      by simp
  qed
  from p1 p2 p3 p4
  show "(\<forall>e. verifyLocalRegistry (snd ?f) name = Inl e
        \<longrightarrow> SyncRegistry codec w name st = (Inl (ValidationAfterSyncFailed e), snd ?f)
            \<and> registries (snd (SyncRegistry codec w name st)) = registries st
            \<and> registries_file (snd (SyncRegistry codec w name st)) = registries_file st
            \<and> (\<forall>data. WriteFile data \<notin>
                  set (drop (length (actions st)) (actions (snd (SyncRegistry codec w name st))))))
     \<and> (\<forall>data. verifyLocalRegistry (snd ?f) name = Inr ()
          \<and> json_MarshalIndent codec ?new = Some data
        \<longrightarrow> SyncRegistry codec w name st =
              (case write_leaves w of
                 None \<Rightarrow>
                   (Inr (),
                    (snd ?f)\<lparr>registries := ?new, registries_file := Some (Document data),
                             actions := actions (snd ?f) @ [WriteFile data]\<rparr>)
               | Some left \<Rightarrow>
                   (Inl WriteFailed,
                    (snd ?f)\<lparr>registries := ?new, registries_file := left,
                             actions := actions (snd ?f) @ [WriteFile data]\<rparr>)))
     \<and> (verifyLocalRegistry (snd ?f) name = Inr ()
          \<and> json_MarshalIndent codec ?new = None
        \<longrightarrow> SyncRegistry codec w name st =
              (Inl MarshalFailed, (snd ?f)\<lparr>registries := ?new\<rparr>))
     \<and> (fst (SyncRegistry codec w name st) = Inr ()
        \<longrightarrow> verifyLocalRegistry (snd ?f) name = Inr ()
            \<and> registries (snd (SyncRegistry codec w name st)) = ?new
            \<and> (\<exists>data. json_MarshalIndent codec ?new = Some data
                  \<and> registries_file (snd (SyncRegistry codec w name st))
                       = Some (Document data)))"
    by blast
qed

theorem SyncRegistry_checks_before_stamping_witness:
  "find_name (registries one_state) ''reg'' = Some 0
   \<and> fst (sync_fetch broken_world (URL (registries one_state ! 0)) ''reg'' one_state) = Inr ()
   \<and> verifyLocalRegistry
        (snd (sync_fetch broken_world (URL (registries one_state ! 0)) ''reg'' one_state)) ''reg''
       = Inl InvalidIndexJSON
   \<and> fst (SyncRegistry table_codec broken_world ''reg'' one_state)
       = Inl (ValidationAfterSyncFailed InvalidIndexJSON)
   \<and> registries (snd (SyncRegistry table_codec broken_world ''reg'' one_state)) = [sample_registry]
   \<and> LastSync sample_registry = 0
   \<and> registries_file (snd (SyncRegistry table_codec broken_world ''reg'' one_state)) = None
   \<and> fst (sync_fetch calm_world (URL (registries one_state ! 0)) ''reg'' one_state) = Inr ()
   \<and> verifyLocalRegistry
        (snd (sync_fetch calm_world (URL (registries one_state ! 0)) ''reg'' one_state)) ''reg''
       = Inr ()
   \<and> SyncRegistry table_codec calm_world ''reg'' one_state =
       (Inr (),
        \<lparr> registries = [sample_registry\<lparr>LastSync := 3\<rparr>],
          registries_file = Some (Document (JArray [JObject
             [(''url'', JString ''https://example.com/o/r''), (''name'', JString ''reg''),
              (''added_at'', JString ''T0''), (''last_sync'', JString ''T3'')]])),
          cache = CacheDir ((\<lambda>n. None)(''reg'' := Some (Directory sample_tree))),
          actions = [GitPull ''reg'',
                     WriteFile (JArray [JObject
             [(''url'', JString ''https://example.com/o/r''), (''name'', JString ''reg''),
              (''added_at'', JString ''T0''), (''last_sync'', JString ''T3'')]])] \<rparr>)"
proof -
  let ?doc = "JArray [JObject
             [(''url'', JString ''https://example.com/o/r''), (''name'', JString ''reg''),
              (''added_at'', JString ''T0''), (''last_sync'', JString ''T3'')]]"
  have f: "find_name (registries one_state) ''reg'' = Some 0"
    by (simp add: one_state_def sample_registry_def)
  have c: "fst (sync_fetch broken_world (URL (registries one_state ! 0)) ''reg'' one_state)
             = Inr ()"
    by (simp add: sync_fetch_sample broken_world_def)
  have v: "verifyLocalRegistry
        (snd (sync_fetch broken_world (URL (registries one_state ! 0)) ''reg'' one_state)) ''reg''
       = Inl InvalidIndexJSON"
    by (simp add: sync_fetch_sample broken_world_def verifyLocalRegistry_def index_at_def
        lookup_entry_def broken_tree_def)
  have r: "registries one_state = [sample_registry] \<and> registries_file one_state = None
           \<and> LastSync sample_registry = 0"
    by (simp add: one_state_def sample_registry_def)
  have h: "find_name (registries one_state) ''reg'' = Some 0
   \<and> fst (sync_fetch broken_world (URL (registries one_state ! 0)) ''reg'' one_state) = Inr ()"
    using f c by blast
  note t = SyncRegistry_checks_before_stamping
         [where st = one_state and name = "''reg''" and i = 0 and w = broken_world
            and codec = table_codec, THEN mp, OF h]
  from t v have t1: "SyncRegistry table_codec broken_world ''reg'' one_state =
              (Inl (ValidationAfterSyncFailed InvalidIndexJSON),
               snd (sync_fetch broken_world (URL (registries one_state ! 0)) ''reg'' one_state))
      \<and> registries (snd (SyncRegistry table_codec broken_world ''reg'' one_state))
          = registries one_state
      \<and> registries_file (snd (SyncRegistry table_codec broken_world ''reg'' one_state))
          = registries_file one_state"
    by blast
  from t1 have t2: "fst (SyncRegistry table_codec broken_world ''reg'' one_state)
       = Inl (ValidationAfterSyncFailed InvalidIndexJSON)"
    by simp
  from t1 r have t3: "registries (snd (SyncRegistry table_codec broken_world ''reg'' one_state))
       = [sample_registry]
     \<and> registries_file (snd (SyncRegistry table_codec broken_world ''reg'' one_state)) = None"
    by simp
  have pl: "pull_ok calm_world" "pull_leaves calm_world = Some (Directory sample_tree)"
     "now1 calm_world = 3" "write_leaves calm_world = None"
    by (simp_all add: calm_world_def)
  have c': "fst (sync_fetch calm_world (URL (registries one_state ! 0)) ''reg'' one_state)
             = Inr ()"
    by (simp add: sync_fetch_sample pl)
  have s': "snd (sync_fetch calm_world (URL (registries one_state ! 0)) ''reg'' one_state) =
       \<lparr> registries = [sample_registry], registries_file = None,
         cache = CacheDir ((\<lambda>n. None)(''reg'' := Some (Directory sample_tree))),
         actions = [GitPull ''reg''] \<rparr>"
    by (simp add: sync_fetch_sample pl)
  have v': "verifyLocalRegistry
        (snd (sync_fetch calm_world (URL (registries one_state ! 0)) ''reg'' one_state)) ''reg''
       = Inr ()"
    by (simp add: s' verifyLocalRegistry_def index_at_def lookup_entry_def sample_tree_def
        sample_index_def)
  have m': "json_MarshalIndent table_codec
               ((registries one_state)[0 := (registries one_state ! 0)\<lparr>LastSync := now1 calm_world\<rparr>])
             = Some ?doc"
    using marshal_stamped_sample by (simp add: one_state_def pl)
  have h': "find_name (registries one_state) ''reg'' = Some 0
   \<and> fst (sync_fetch calm_world (URL (registries one_state ! 0)) ''reg'' one_state) = Inr ()"
    using f c' by blast
  note t' = SyncRegistry_checks_before_stamping
         [where st = one_state and name = "''reg''" and i = 0 and w = calm_world
            and codec = table_codec, THEN mp, OF h']
  from t' v' m' have t4: "SyncRegistry table_codec calm_world ''reg'' one_state =
              (case write_leaves calm_world of
                 None \<Rightarrow>
                   (Inr (),
                    (snd (sync_fetch calm_world (URL (registries one_state ! 0)) ''reg'' one_state))
                      \<lparr>registries := (registries one_state)
                           [0 := (registries one_state ! 0)\<lparr>LastSync := now1 calm_world\<rparr>],
                       registries_file := Some (Document ?doc),
                       actions :=
                         actions (snd (sync_fetch calm_world (URL (registries one_state ! 0))
                                         ''reg'' one_state))
                           @ [WriteFile ?doc]\<rparr>)
               | Some left \<Rightarrow>
                   (Inl WriteFailed,
                    (snd (sync_fetch calm_world (URL (registries one_state ! 0)) ''reg'' one_state))
                      \<lparr>registries := (registries one_state)
                           [0 := (registries one_state ! 0)\<lparr>LastSync := now1 calm_world\<rparr>],
                       registries_file := left,
                       actions :=
                         actions (snd (sync_fetch calm_world (URL (registries one_state ! 0))
                                         ''reg'' one_state))
                           @ [WriteFile ?doc]\<rparr>))"
    by blast
  have t5: "SyncRegistry table_codec calm_world ''reg'' one_state =
       (Inr (),
        \<lparr> registries = [sample_registry\<lparr>LastSync := 3\<rparr>],
          registries_file = Some (Document ?doc),
          cache = CacheDir ((\<lambda>n. None)(''reg'' := Some (Directory sample_tree))),
          actions = [GitPull ''reg'', WriteFile ?doc] \<rparr>)"
    unfolding t4 s' by (simp add: pl one_state_def)
  from f c v t2 t3 r c' v' t5 show ?thesis by blast
qed

text \<open>
  Against C2 as stated: the pull leaves a tree whose index has a name and no module. The
  sync succeeds, stamps \<^verbatim>\<open>LastSync\<close> and writes the list, although \<^verbatim>\<open>ValidateStructure\<close>,
  the validation of section 4.3, refuses the same tree with ``must contain at least one
  module''.
\<close>

theorem SyncRegistry_stamps_index_without_modules:
  "fst (SyncRegistry table_codec calm_world ''reg'' one_state) = Inr ()
   \<and> LastSync sample_registry = 0
   \<and> registries (snd (SyncRegistry table_codec calm_world ''reg'' one_state))
       = [sample_registry\<lparr>LastSync := 3\<rparr>]
   \<and> registries_file (snd (SyncRegistry table_codec calm_world ''reg'' one_state))
       = Some (Document (JArray [JObject
          [(''url'', JString ''https://example.com/o/r''), (''name'', JString ''reg''),
           (''added_at'', JString ''T0''), (''last_sync'', JString ''T3'')]]))
   \<and> lookup_entry (snd (SyncRegistry table_codec calm_world ''reg'' one_state)) ''reg''
       = Some (Directory sample_tree)
   \<and> index_json sample_tree = IndexParsed sample_index
   \<and> index_Modules sample_index = []
   \<and> ValidateStructure
        (lookup_entry (snd (SyncRegistry table_codec calm_world ''reg'' one_state)) ''reg'')
       = Inl (ModuleValidationFailed NoModules)"
proof -
  have l: "lookup_entry (snd (SyncRegistry table_codec calm_world ''reg'' one_state)) ''reg''
       = Some (Directory sample_tree)"
    by (simp add: SyncRegistry_sample lookup_entry_def)
  have s: "index_json sample_tree = IndexParsed sample_index \<and> index_Modules sample_index = []
           \<and> LastSync sample_registry = 0"
    by (simp add: sample_tree_def sample_index_def sample_registry_def)
  show ?thesis
    unfolding l using s by (simp add: SyncRegistry_sample ValidateStructure_sample_tree)
qed

text \<open>
  The rollback of \<^verbatim>\<open>AddRegistry\<close>. After a successful clone and a failed check the call
  returns the validation error whatever \<^verbatim>\<open>RemoveRepository\<close> returns, and its state is
  the one \<^verbatim>\<open>RemoveRepository\<close> leaves; the list and the file are as before the call, so
  no record has the URL or the name; when the clone has a \<^verbatim>\<open>.git\<close> directory the
  recursive delete is started, and when it succeeds nothing is left at the place.
\<close>

lemma AddRegistry_rolls_back:
  assumes "find_existing (registries st) url name = None"
    and "fst (CloneRepository w url name st) = Inr ()"
    and "verifyLocalRegistry (snd (CloneRepository w url name st)) name = Inl e"
  shows "AddRegistry codec w url name st =
       (Inl (StructureValidationFailed e),
        snd (RemoveRepository w name (snd (CloneRepository w url name st))))"
    and "registries (snd (AddRegistry codec w url name st)) = registries st"
    and "registries_file (snd (AddRegistry codec w url name st)) = registries_file st"
    and "\<forall>r \<in> set (registries (snd (AddRegistry codec w url name st))).
           URL r \<noteq> url \<and> Name r \<noteq> name"
    and "IsRepositoryCloned (snd (CloneRepository w url name st)) name \<Longrightarrow>
           actions (snd (AddRegistry codec w url name st)) =
             actions (snd (CloneRepository w url name st)) @ [RemoveAll name]"
    and "IsRepositoryCloned (snd (CloneRepository w url name st)) name \<Longrightarrow>
         remove_leaves w = None \<Longrightarrow>
           lookup_entry (snd (AddRegistry codec w url name st)) name = None"
proof -
  let ?c = "snd (CloneRepository w url name st)"
  show eq: "AddRegistry codec w url name st =
       (Inl (StructureValidationFailed e), snd (RemoveRepository w name ?c))"
    using AddRegistry_after_clone [of st url name w codec] assms by simp
  show "registries (snd (AddRegistry codec w url name st)) = registries st"
    by (simp add: eq)
  show "registries_file (snd (AddRegistry codec w url name st)) = registries_file st"
    by (simp add: eq)
  show "\<forall>r \<in> set (registries (snd (AddRegistry codec w url name st))).
           URL r \<noteq> url \<and> Name r \<noteq> name"
    using assms(1) by (simp add: eq find_existing_None)
  show "IsRepositoryCloned ?c name \<Longrightarrow>
           actions (snd (AddRegistry codec w url name st)) = actions ?c @ [RemoveAll name]"
    by (simp add: eq RemoveRepository_def Let_def split: option.splits)
  show "IsRepositoryCloned ?c name \<Longrightarrow> remove_leaves w = None \<Longrightarrow>
           lookup_entry (snd (AddRegistry codec w url name st)) name = None"
    using RemoveRepository_removes by (simp add: eq)
qed

lemma RemoveRepository_actions:
  "actions (snd (RemoveRepository w name st)) = actions st
   \<or> actions (snd (RemoveRepository w name st)) = actions st @ [RemoveAll name]"
  by (simp add: RemoveRepository_def Let_def split: option.splits)

lemma saveRegistries_actions:
  "actions (snd (saveRegistries codec w st)) = actions st
   \<or> (\<exists>data. actions (snd (saveRegistries codec w st)) = actions st @ [WriteFile data])"
  by (simp add: saveRegistries_def Let_def split: option.splits)

text \<open>Whatever happens during a call of \<^verbatim>\<open>AddRegistry\<close>, it prints no warning.\<close>

lemma AddRegistry_prints_nothing:
  "PrintWarning err \<notin>
     set (drop (length (actions st)) (actions (snd (AddRegistry codec w url name st))))"
proof (cases "find_existing (registries st) url name")
  case (Some x)
  then show ?thesis by (simp add: AddRegistry_def)
next
  case None
  obtain r st1 where c: "CloneRepository w url name st = (r, st1)"
    by (cases "CloneRepository w url name st")
  have a1: "actions st1 = actions st \<or> actions st1 = actions st @ [GitPull name]
            \<or> actions st1 = actions st @ [GitClone url name]"
    using CloneRepository_actions [of w url name st] c by simp
  show ?thesis
  proof (cases r)
    case (Inl x)
    with None c a1 show ?thesis by (auto simp: AddRegistry_def)
  next
    case (Inr u)
    show ?thesis
    proof (cases "verifyLocalRegistry st1 name")
      case (Inl x)
      have "AddRegistry codec w url name st =
              (Inl (StructureValidationFailed x), snd (RemoveRepository w name st1))"
        using None c Inr Inl by (simp add: AddRegistry_def)
      with a1 RemoveRepository_actions [of w name st1] show ?thesis by auto
    next
      case ok: (Inr y)
      have "AddRegistry codec w url name st =
              saveRegistries codec w
                (st1\<lparr>registries := registries st1 @
                   [\<lparr> URL = url, Name = name, Description = [],
                      AddedAt = now1 w, LastSync = now2 w \<rparr>]\<rparr>)"
        using None c Inr ok by (simp add: AddRegistry_def Let_def)
      with a1 saveRegistries_actions [of codec w "st1\<lparr>registries := registries st1 @
                   [\<lparr> URL = url, Name = name, Description = [],
                      AddedAt = now1 w, LastSync = now2 w \<rparr>]\<rparr>"]
      show ?thesis by auto
    qed
  qed
qed

lemma CloneRepository_broken_clone:
  "CloneRepository broken_world ''https://example.com/o/r'' ''reg'' empty_state =
      (Inr (), \<lparr> registries = [], registries_file = None,
          cache = CacheDir ((\<lambda>n. None)(''reg'' := Some (Directory broken_tree))),
          actions = [GitClone ''https://example.com/o/r'' ''reg''] \<rparr>)"
  by (simp add: CloneRepository_sample broken_world_def)

lemma RemoveRepository_broken_clone:
  "RemoveRepository broken_world ''reg''
     \<lparr> registries = [], registries_file = None,
       cache = CacheDir ((\<lambda>n. None)(''reg'' := Some (Directory broken_tree))),
       actions = [GitClone ''https://example.com/o/r'' ''reg''] \<rparr> =
     (Inl RemoveRepositoryFailed,
      \<lparr> registries = [], registries_file = None,
        cache = CacheDir ((\<lambda>n. None)(''reg'' := Some (Directory broken_tree))),
        actions = [GitClone ''https://example.com/o/r'' ''reg'', RemoveAll ''reg''] \<rparr>)"
proof -
  have rl: "remove_leaves broken_world = Some (Directory broken_tree)"
    by (simp add: broken_world_def)
  have gd: "git_dir broken_tree" by (simp add: broken_tree_def)
  show ?thesis
    by (simp add: RemoveRepository_def IsRepositoryCloned_def lookup_entry_def set_entry_def
        record_action_def Let_def rl gd)
qed

lemma AddRegistry_broken_clone:
  "AddRegistry table_codec broken_world ''https://example.com/o/r'' ''reg'' empty_state =
       (Inl (StructureValidationFailed InvalidIndexJSON),
        \<lparr> registries = [], registries_file = None,
          cache = CacheDir ((\<lambda>n. None)(''reg'' := Some (Directory broken_tree))),
          actions = [GitClone ''https://example.com/o/r'' ''reg'', RemoveAll ''reg''] \<rparr>)"
proof -
  have f: "find_existing (registries empty_state) ''https://example.com/o/r'' ''reg'' = None"
    by (simp add: empty_state_def)
  have v: "verifyLocalRegistry
        \<lparr> registries = [], registries_file = None,
          cache = CacheDir ((\<lambda>n. None)(''reg'' := Some (Directory broken_tree))),
          actions = [GitClone ''https://example.com/o/r'' ''reg''] \<rparr> ''reg''
       = Inl InvalidIndexJSON"
    by (simp add: verifyLocalRegistry_def index_at_def lookup_entry_def broken_tree_def)
  show ?thesis
    by (simp add: AddRegistry_def f CloneRepository_broken_clone v RemoveRepository_broken_clone)
qed

lemma RemoveRegistry_broken_delete:
  "RemoveRegistry table_codec broken_world ''reg'' one_state =
     (Inr (),
      \<lparr> registries = [], registries_file = Some (Document (JArray [])),
        cache = CacheDir ((\<lambda>n. None)(''reg'' := Some (Directory broken_tree))),
        actions = [RemoveAll ''reg'', PrintWarning RemoveRepositoryFailed,
                   WriteFile (JArray [])] \<rparr>)"
proof -
  have f: "find_identifier (registries one_state) ''reg'' = Some 0"
    by (simp add: one_state_def sample_registry_def)
  have n: "Name (registries one_state ! 0) = ''reg''"
    by (simp add: one_state_def sample_registry_def)
  have rl: "remove_leaves broken_world = Some (Directory broken_tree)"
    and wl: "write_leaves broken_world = None"
    by (simp_all add: broken_world_def)
  have r: "RemoveRepository broken_world ''reg'' one_state =
     (Inl RemoveRepositoryFailed,
      \<lparr> registries = [sample_registry], registries_file = None,
        cache = CacheDir ((\<lambda>n. None)(''reg'' := Some (Directory broken_tree))),
        actions = [RemoveAll ''reg''] \<rparr>)"
    by (simp add: RemoveRepository_def IsRepositoryCloned_def lookup_entry_def set_entry_def
        record_action_def Let_def rl one_state_def sample_tree_def)
  show ?thesis
    by (simp add: RemoveRegistry_def f n r wl saveRegistries_def json_MarshalIndent_def
        record_action_def Let_def)
qed

lemma RemoveRegistry_prints_warning:
  assumes "find_identifier (registries st) ident = Some i"
    and "fst (RemoveRepository w (Name (registries st ! i)) st) = Inl err"
  shows "PrintWarning err \<in>
           set (drop (length (actions st)) (actions (snd (RemoveRegistry codec w ident st))))"
proof -
  obtain st0 where rr: "RemoveRepository w (Name (registries st ! i)) st = (Inl err, st0)"
    using assms(2) by (cases "RemoveRepository w (Name (registries st ! i)) st") auto
  have a0: "actions st0 = actions st
            \<or> actions st0 = actions st @ [RemoveAll (Name (registries st ! i))]"
    using RemoveRepository_actions [of w "Name (registries st ! i)" st] rr by simp
  let ?p = "record_action (PrintWarning err) st0"
  let ?s = "?p\<lparr>registries := take i (registries ?p) @ drop (Suc i) (registries ?p)\<rparr>"
  have eq: "RemoveRegistry codec w ident st = saveRegistries codec w ?s"
    using assms(1) rr by (simp add: RemoveRegistry_def Let_def)
  from saveRegistries_actions [of codec w ?s] a0 show ?thesis
    unfolding eq by auto
qed

text \<open>
  C4. The claim is that after a successful clone and a failed check \<^verbatim>\<open>AddRegistry\<close>
  removes the clone best-effort, a removal error being logged and not propagated, and
  returns the validation error, with no entry for the URL or the name in the list. The
  call does return the validation error whatever \<^verbatim>\<open>RemoveRepository\<close> returns, with the
  state that \<^verbatim>\<open>RemoveRepository\<close> leaves: the list and the file are as before, the
  recursive delete is started when the clone has a \<^verbatim>\<open>.git\<close> directory, and nothing is
  left at the place when the delete succeeds. But no call of \<^verbatim>\<open>AddRegistry\<close>, whatever
  the outside world does, prints a warning: the error of the removal is reported nowhere.
  \<^verbatim>\<open>RemoveRegistry\<close>, for its part, prints the warning whenever its call of
  \<^verbatim>\<open>RemoveRepository\<close> returns an error.
\<close>

theorem AddRegistry_drops_removal_error:
  "(find_existing (registries st) url name = None
      \<and> fst (CloneRepository w url name st) = Inr ()
      \<and> verifyLocalRegistry (snd (CloneRepository w url name st)) name = Inl e
    \<longrightarrow> AddRegistry codec w url name st =
          (Inl (StructureValidationFailed e),
           snd (RemoveRepository w name (snd (CloneRepository w url name st))))
        \<and> registries (snd (AddRegistry codec w url name st)) = registries st
        \<and> registries_file (snd (AddRegistry codec w url name st)) = registries_file st
        \<and> (IsRepositoryCloned (snd (CloneRepository w url name st)) name \<longrightarrow>
              actions (snd (AddRegistry codec w url name st)) =
                actions (snd (CloneRepository w url name st)) @ [RemoveAll name])
        \<and> (IsRepositoryCloned (snd (CloneRepository w url name st)) name
             \<and> remove_leaves w = None \<longrightarrow>
              lookup_entry (snd (AddRegistry codec w url name st)) name = None))
   \<and> (\<forall>err. PrintWarning err \<notin>
         set (drop (length (actions st)) (actions (snd (AddRegistry codec w url name st)))))
   \<and> (find_identifier (registries st) ident = Some i
      \<and> fst (RemoveRepository w (Name (registries st ! i)) st) = Inl err
    \<longrightarrow> PrintWarning err \<in>
          set (drop (length (actions st)) (actions (snd (RemoveRegistry codec w ident st)))))"
proof -
  let ?c = "snd (CloneRepository w url name st)"
  have p1: "find_existing (registries st) url name = None
      \<and> fst (CloneRepository w url name st) = Inr ()
      \<and> verifyLocalRegistry ?c name = Inl e
    \<longrightarrow> AddRegistry codec w url name st =
          (Inl (StructureValidationFailed e), snd (RemoveRepository w name ?c))
        \<and> registries (snd (AddRegistry codec w url name st)) = registries st
        \<and> registries_file (snd (AddRegistry codec w url name st)) = registries_file st
        \<and> (IsRepositoryCloned ?c name \<longrightarrow>
              actions (snd (AddRegistry codec w url name st)) = actions ?c @ [RemoveAll name])
        \<and> (IsRepositoryCloned ?c name \<and> remove_leaves w = None \<longrightarrow>
              lookup_entry (snd (AddRegistry codec w url name st)) name = None)"
    using AddRegistry_rolls_back [of st url name w e codec] by blast
  have p2: "\<forall>err. PrintWarning err \<notin>
         set (drop (length (actions st)) (actions (snd (AddRegistry codec w url name st))))"
    using AddRegistry_prints_nothing by blast
  have p3: "find_identifier (registries st) ident = Some i
      \<and> fst (RemoveRepository w (Name (registries st ! i)) st) = Inl err
    \<longrightarrow> PrintWarning err \<in>
          set (drop (length (actions st)) (actions (snd (RemoveRegistry codec w ident st))))"
    using RemoveRegistry_prints_warning by blast
  from p1 p2 p3 show ?thesis by blast
qed

text \<open>
  At a clone that succeeds, with an index that is not valid JSON, and a recursive delete
  that fails: \<^verbatim>\<open>RemoveRepository\<close> returns its error, \<^verbatim>\<open>AddRegistry\<close> returns the
  validation error, and the only actions are the clone and the delete.
  \<^verbatim>\<open>RemoveRegistry\<close>, meeting the same failure of the same delete, prints the warning and
  goes on to write the list.
\<close>

theorem AddRegistry_drops_removal_error_witness:
  "find_existing (registries empty_state) ''https://example.com/o/r'' ''reg'' = None
   \<and> fst (CloneRepository broken_world ''https://example.com/o/r'' ''reg'' empty_state) = Inr ()
   \<and> verifyLocalRegistry
        (snd (CloneRepository broken_world ''https://example.com/o/r'' ''reg'' empty_state)) ''reg''
       = Inl InvalidIndexJSON
   \<and> fst (RemoveRepository broken_world ''reg''
        (snd (CloneRepository broken_world ''https://example.com/o/r'' ''reg'' empty_state)))
       = Inl RemoveRepositoryFailed
   \<and> AddRegistry table_codec broken_world ''https://example.com/o/r'' ''reg'' empty_state =
       (Inl (StructureValidationFailed InvalidIndexJSON),
        \<lparr> registries = [], registries_file = None,
          cache = CacheDir ((\<lambda>n. None)(''reg'' := Some (Directory broken_tree))),
          actions = [GitClone ''https://example.com/o/r'' ''reg'', RemoveAll ''reg''] \<rparr>)
   \<and> (\<forall>err. PrintWarning err \<notin>
         set (actions (snd (AddRegistry table_codec broken_world ''https://example.com/o/r''
                ''reg'' empty_state))))
   \<and> find_identifier (registries one_state) ''reg'' = Some 0
   \<and> fst (RemoveRepository broken_world (Name (registries one_state ! 0)) one_state)
       = Inl RemoveRepositoryFailed
   \<and> PrintWarning RemoveRepositoryFailed
        \<in> set (actions (snd (RemoveRegistry table_codec broken_world ''reg'' one_state)))
   \<and> actions (snd (RemoveRegistry table_codec broken_world ''reg'' one_state))
       = [RemoveAll ''reg'', PrintWarning RemoveRepositoryFailed, WriteFile (JArray [])]"
proof -
  let ?url = "''https://example.com/o/r''"
  let ?c = "snd (CloneRepository broken_world ?url ''reg'' empty_state)"
  have f: "find_existing (registries empty_state) ?url ''reg'' = None"
    and a0: "actions empty_state = []"
    by (simp_all add: empty_state_def)
  have c: "fst (CloneRepository broken_world ?url ''reg'' empty_state) = Inr ()"
    by (simp add: CloneRepository_broken_clone)
  have v: "verifyLocalRegistry ?c ''reg'' = Inl InvalidIndexJSON"
    by (simp add: CloneRepository_broken_clone verifyLocalRegistry_def index_at_def
        lookup_entry_def broken_tree_def)
  have rr: "RemoveRepository broken_world ''reg'' ?c =
     (Inl RemoveRepositoryFailed,
      \<lparr> registries = [], registries_file = None,
        cache = CacheDir ((\<lambda>n. None)(''reg'' := Some (Directory broken_tree))),
        actions = [GitClone ?url ''reg'', RemoveAll ''reg''] \<rparr>)"
    by (simp add: CloneRepository_broken_clone RemoveRepository_broken_clone)
  have h: "find_existing (registries empty_state) ?url ''reg'' = None
      \<and> fst (CloneRepository broken_world ?url ''reg'' empty_state) = Inr ()
      \<and> verifyLocalRegistry ?c ''reg'' = Inl InvalidIndexJSON"
    using f c v by blast
  have fi: "find_identifier (registries one_state) ''reg'' = Some 0"
    and n: "Name (registries one_state ! 0) = ''reg''"
    and a1: "actions one_state = []"
    by (simp_all add: one_state_def sample_registry_def)
  have rl: "remove_leaves broken_world = Some (Directory broken_tree)"
    by (simp add: broken_world_def)
  have r1: "fst (RemoveRepository broken_world (Name (registries one_state ! 0)) one_state)
       = Inl RemoveRepositoryFailed"
    unfolding n
    by (simp add: RemoveRepository_def IsRepositoryCloned_def lookup_entry_def Let_def rl
        one_state_def sample_tree_def)
  have h': "find_identifier (registries one_state) ''reg'' = Some 0
      \<and> fst (RemoveRepository broken_world (Name (registries one_state ! 0)) one_state)
          = Inl RemoveRepositoryFailed"
    using fi r1 by blast
  note t = AddRegistry_drops_removal_error
             [where st = empty_state and url = ?url and name = "''reg''" and w = broken_world
                and codec = table_codec and e = InvalidIndexJSON]
  from t h have t1: "AddRegistry table_codec broken_world ?url ''reg'' empty_state =
          (Inl (StructureValidationFailed InvalidIndexJSON),
           snd (RemoveRepository broken_world ''reg'' ?c))"
    by blast
  have t2: "AddRegistry table_codec broken_world ?url ''reg'' empty_state =
       (Inl (StructureValidationFailed InvalidIndexJSON),
        \<lparr> registries = [], registries_file = None,
          cache = CacheDir ((\<lambda>n. None)(''reg'' := Some (Directory broken_tree))),
          actions = [GitClone ?url ''reg'', RemoveAll ''reg''] \<rparr>)"
    unfolding t1 rr by simp
  from t have "\<forall>err. PrintWarning err \<notin>
         set (drop (length (actions empty_state))
                (actions (snd (AddRegistry table_codec broken_world ?url ''reg'' empty_state))))"
    by blast
  then have t3: "\<forall>err. PrintWarning err \<notin>
         set (actions (snd (AddRegistry table_codec broken_world ?url ''reg'' empty_state)))"
    by (simp add: a0)
  note t' = AddRegistry_drops_removal_error
             [where st = one_state and ident = "''reg''" and i = 0 and w = broken_world
                and codec = table_codec and err = RemoveRepositoryFailed]
  from t' h' have "PrintWarning RemoveRepositoryFailed \<in>
          set (drop (length (actions one_state))
                 (actions (snd (RemoveRegistry table_codec broken_world ''reg'' one_state))))"
    by blast
  then have t4: "PrintWarning RemoveRepositoryFailed
        \<in> set (actions (snd (RemoveRegistry table_codec broken_world ''reg'' one_state)))"
    by (simp add: a1)
  have t5: "actions (snd (RemoveRegistry table_codec broken_world ''reg'' one_state))
       = [RemoveAll ''reg'', PrintWarning RemoveRepositoryFailed, WriteFile (JArray [])]"
    by (simp add: RemoveRegistry_broken_delete)
  have r0: "fst (RemoveRepository broken_world ''reg'' ?c) = Inl RemoveRepositoryFailed"
    by (simp add: rr)
  from f c v r0 t2 t3 fi r1 t4 t5 show ?thesis by blast
qed

section \<open>Properties of the structure validator\<close>

lemma semver_rejects_1_0: "validateSemanticVersion ''1.0'' = Inl (NotSemanticVersion ''1.0'')"
  by (simp add: validateSemanticVersion_def semverPattern_matches_def is_digit_def byte_def
      Let_def)

lemma validateSingleModule_mismatch:
  assumes "module_Name module \<noteq> moduleKey"
  shows "validateSingleModule repo moduleKey module =
           (if TrimSpace (module_Name module) = [] then Inl ModuleNameRequired
            else Inl (ModuleNameMismatch (module_Name module) moduleKey))"
  using assms by (simp add: validateSingleModule_def)

lemma validateEachModule_member_fails:
  assumes "(moduleKey, module) \<in> set modules"
    and "validateSingleModule repo moduleKey module \<noteq> Inr ()"
  shows "\<exists>e. validateEachModule repo modules = Inl e"
  using assms
proof (induction modules)
  case Nil
  then show ?case by simp
next
  case (Cons entry modules)
  obtain k m where e: "entry = (k, m)" by (cases entry)
  show ?case
  proof (cases "validateSingleModule repo k m")
    case (Inl err)
    with e show ?thesis by simp
  next
    case (Inr u)
    with Cons.prems e have "(moduleKey, module) \<in> set modules" by auto
    with Cons.IH Cons.prems(2) Inr e show ?thesis by simp
  qed
qed

lemma validateEachModule_first_failure:
  assumes "\<forall>(k, m) \<in> set pre. validateSingleModule repo k m = Inr ()"
    and "validateSingleModule repo moduleKey module = Inl e"
  shows "validateEachModule repo (pre @ (moduleKey, module) # post) =
           Inl (ModuleFailed moduleKey e)"
  using assms by (induction pre) auto

lemma validateIndexJSON_Inr:
  "validateIndexJSON repo = Inr index \<Longrightarrow> index_at repo = IndexParsed index"
  by (auto simp: validateIndexJSON_def split: index_file.splits if_splits sum.splits)

lemma ValidateStructure_index_error:
  "validateIndexJSON repo = Inl e \<Longrightarrow> ValidateStructure repo = Inl (IndexValidationFailed e)"
  by (simp add: ValidateStructure_def)

lemma ValidateStructure_modules_error:
  "validateIndexJSON repo = Inr index \<Longrightarrow> validateModules repo (index_Modules index) = Inl e
     \<Longrightarrow> ValidateStructure repo = Inl (ModuleValidationFailed e)"
  by (simp add: ValidateStructure_def)

lemma ValidateStructure_fails_if_modules_fail:
  assumes "index_at repo = IndexParsed index"
    and "\<exists>e. validateModules repo (index_Modules index) = Inl e"
  shows "\<exists>e. ValidateStructure repo = Inl e"
proof (cases "validateIndexJSON repo")
  case (Inl e)
  then show ?thesis by (simp add: ValidateStructure_index_error)
next
  case (Inr index')
  then have "index_at repo = IndexParsed index'" by (rule validateIndexJSON_Inr)
  with assms(1) have "index' = index" by simp
  with Inr assms(2) show ?thesis by (auto simp: ValidateStructure_modules_error)
qed

text \<open>
  C6. \<^verbatim>\<open>ValidateStructure\<close> stops at the first failure, index checks before module checks
  before the directory check: an error of \<^verbatim>\<open>validateIndexJSON\<close> is the result; otherwise
  an error of \<^verbatim>\<open>validateModules\<close> is; otherwise the result is that of
  \<^verbatim>\<open>validateDirectoryStructure\<close>. A directory without \<^verbatim>\<open>index.json\<close> fails with
  ``index.json not found''. An index with the version \<^verbatim>\<open>1.0\<close> fails, with ``invalid
  version format'' when the name and the description, which are checked first, are not
  blank. An index with no module fails, with ``must contain at least one module'' when the
  index checks pass. An index with a module whose name is not its key fails whatever the
  order in which the modules are visited, with the name-mismatch reason when the index
  checks pass, the modules visited before it pass, and its name is not blank. The four
  reasons are pairwise different.
\<close>

theorem ValidateStructure_fails_fast_with_reasons:
  "(validateIndexJSON repo = Inl ie \<longrightarrow> ValidateStructure repo = Inl (IndexValidationFailed ie))
   \<and> (validateIndexJSON repo = Inr index
        \<and> validateModules repo (index_Modules index) = Inl me \<longrightarrow>
        ValidateStructure repo = Inl (ModuleValidationFailed me))
   \<and> (validateIndexJSON repo = Inr index
        \<and> validateModules repo (index_Modules index) = Inr () \<longrightarrow>
        ValidateStructure repo =
          (case validateDirectoryStructure repo of
             Inl de \<Rightarrow> Inl (DirectoryValidationFailed de) | Inr u \<Rightarrow> Inr ()))
   \<and> (index_at repo = IndexMissing \<longrightarrow>
        ValidateStructure repo = Inl (IndexValidationFailed IndexJSONNotFound))
   \<and> (index_at repo = IndexParsed index \<and> index_Version index = ''1.0'' \<longrightarrow>
        (\<exists>e. ValidateStructure repo = Inl (IndexValidationFailed e)))
   \<and> (index_at repo = IndexParsed index \<and> index_Version index = ''1.0''
        \<and> TrimSpace (index_Name index) \<noteq> [] \<and> TrimSpace (index_Description index) \<noteq> [] \<longrightarrow>
        ValidateStructure repo =
          Inl (IndexValidationFailed (InvalidVersionFormat (NotSemanticVersion ''1.0''))))
   \<and> (index_at repo = IndexParsed index \<and> index_Modules index = [] \<longrightarrow>
        (\<exists>e. ValidateStructure repo = Inl e))
   \<and> (validateIndexJSON repo = Inr index \<and> index_Modules index = [] \<longrightarrow>
        ValidateStructure repo = Inl (ModuleValidationFailed NoModules))
   \<and> (index_at repo = IndexParsed index \<and> (moduleKey, module) \<in> set (index_Modules index)
        \<and> module_Name module \<noteq> moduleKey \<longrightarrow>
        (\<exists>e. ValidateStructure repo = Inl e))
   \<and> (validateIndexJSON repo = Inr index
        \<and> index_Modules index = pre @ (moduleKey, module) # post
        \<and> (\<forall>(k, m) \<in> set pre. validateSingleModule repo k m = Inr ())
        \<and> TrimSpace (module_Name module) \<noteq> [] \<and> module_Name module \<noteq> moduleKey \<longrightarrow>
        ValidateStructure repo =
          Inl (ModuleValidationFailed
                 (ModuleFailed moduleKey (ModuleNameMismatch (module_Name module) moduleKey))))
   \<and> distinct
        [IndexValidationFailed IndexJSONNotFound,
         IndexValidationFailed (InvalidVersionFormat (NotSemanticVersion ''1.0'')),
         ModuleValidationFailed NoModules,
         ModuleValidationFailed
           (ModuleFailed moduleKey (ModuleNameMismatch (module_Name module) moduleKey))]"
proof -
  have p1: "validateIndexJSON repo = Inl ie \<longrightarrow>
              ValidateStructure repo = Inl (IndexValidationFailed ie)"
    by (simp add: ValidateStructure_def)
  have p2: "validateIndexJSON repo = Inr index
        \<and> validateModules repo (index_Modules index) = Inl me \<longrightarrow>
        ValidateStructure repo = Inl (ModuleValidationFailed me)"
    by (simp add: ValidateStructure_def)
  have p3: "validateIndexJSON repo = Inr index
        \<and> validateModules repo (index_Modules index) = Inr () \<longrightarrow>
        ValidateStructure repo =
          (case validateDirectoryStructure repo of
             Inl de \<Rightarrow> Inl (DirectoryValidationFailed de) | Inr u \<Rightarrow> Inr ())"
    by (simp add: ValidateStructure_def)
  have p4: "index_at repo = IndexMissing \<longrightarrow>
        ValidateStructure repo = Inl (IndexValidationFailed IndexJSONNotFound)"
    by (simp add: ValidateStructure_def validateIndexJSON_def)
  have p5: "index_at repo = IndexParsed index \<and> index_Version index = ''1.0'' \<longrightarrow>
        (\<exists>e. ValidateStructure repo = Inl (IndexValidationFailed e))"
    by (simp add: ValidateStructure_def validateIndexJSON_def semver_rejects_1_0)
  have p6: "index_at repo = IndexParsed index \<and> index_Version index = ''1.0''
        \<and> TrimSpace (index_Name index) \<noteq> [] \<and> TrimSpace (index_Description index) \<noteq> [] \<longrightarrow>
        ValidateStructure repo =
          Inl (IndexValidationFailed (InvalidVersionFormat (NotSemanticVersion ''1.0'')))"
  proof
    assume a: "index_at repo = IndexParsed index \<and> index_Version index = ''1.0''
        \<and> TrimSpace (index_Name index) \<noteq> [] \<and> TrimSpace (index_Description index) \<noteq> []"
    have t: "TrimSpace ''1.0'' \<noteq> []"
      by (simp add: TrimSpace_def is_ascii_space_def byte_def)
    from a t show "ValidateStructure repo =
          Inl (IndexValidationFailed (InvalidVersionFormat (NotSemanticVersion ''1.0'')))"
      by (simp add: ValidateStructure_def validateIndexJSON_def semver_rejects_1_0)
  qed
  have p7: "index_at repo = IndexParsed index \<and> index_Modules index = [] \<longrightarrow>
        (\<exists>e. ValidateStructure repo = Inl e)"
  proof
    assume a: "index_at repo = IndexParsed index \<and> index_Modules index = []"
    then have "\<exists>e. validateModules repo (index_Modules index) = Inl e"
      by (simp add: validateModules_def)
    with a show "\<exists>e. ValidateStructure repo = Inl e"
      using ValidateStructure_fails_if_modules_fail by blast
  qed
  have p8: "validateIndexJSON repo = Inr index \<and> index_Modules index = [] \<longrightarrow>
        ValidateStructure repo = Inl (ModuleValidationFailed NoModules)"
    by (simp add: ValidateStructure_def validateModules_def)
  have p9: "index_at repo = IndexParsed index \<and> (moduleKey, module) \<in> set (index_Modules index)
        \<and> module_Name module \<noteq> moduleKey \<longrightarrow>
        (\<exists>e. ValidateStructure repo = Inl e)"
  proof
    assume a: "index_at repo = IndexParsed index
        \<and> (moduleKey, module) \<in> set (index_Modules index)
        \<and> module_Name module \<noteq> moduleKey"
    then have "validateSingleModule repo moduleKey module \<noteq> Inr ()"
      by (simp add: validateSingleModule_mismatch)
    with a have "\<exists>e. validateEachModule repo (index_Modules index) = Inl e"
      using validateEachModule_member_fails by blast
    then have "\<exists>e. validateModules repo (index_Modules index) = Inl e"
      by (auto simp: validateModules_def)
    with a show "\<exists>e. ValidateStructure repo = Inl e"
      using ValidateStructure_fails_if_modules_fail by blast
  qed
  have p10: "validateIndexJSON repo = Inr index
        \<and> index_Modules index = pre @ (moduleKey, module) # post
        \<and> (\<forall>(k, m) \<in> set pre. validateSingleModule repo k m = Inr ())
        \<and> TrimSpace (module_Name module) \<noteq> [] \<and> module_Name module \<noteq> moduleKey \<longrightarrow>
        ValidateStructure repo =
          Inl (ModuleValidationFailed
                 (ModuleFailed moduleKey (ModuleNameMismatch (module_Name module) moduleKey)))"
  proof
    assume a: "validateIndexJSON repo = Inr index
        \<and> index_Modules index = pre @ (moduleKey, module) # post
        \<and> (\<forall>(k, m) \<in> set pre. validateSingleModule repo k m = Inr ())
        \<and> TrimSpace (module_Name module) \<noteq> [] \<and> module_Name module \<noteq> moduleKey"
    then have s: "validateSingleModule repo moduleKey module =
                    Inl (ModuleNameMismatch (module_Name module) moduleKey)"
      by (simp add: validateSingleModule_mismatch)
    from a have pre: "\<forall>(k, m) \<in> set pre. validateSingleModule repo k m = Inr ()" by blast
    have "validateModules repo (index_Modules index) =
            Inl (ModuleFailed moduleKey (ModuleNameMismatch (module_Name module) moduleKey))"
      using a validateEachModule_first_failure [OF pre s, of post]
      by (simp add: validateModules_def)
    with a show "ValidateStructure repo =
          Inl (ModuleValidationFailed
                 (ModuleFailed moduleKey (ModuleNameMismatch (module_Name module) moduleKey)))"
      by (simp add: ValidateStructure_def)
  qed
  have p11: "distinct
        [IndexValidationFailed IndexJSONNotFound,
         IndexValidationFailed (InvalidVersionFormat (NotSemanticVersion ''1.0'')),
         ModuleValidationFailed NoModules,
         ModuleValidationFailed
           (ModuleFailed moduleKey (ModuleNameMismatch (module_Name module) moduleKey))]"
    by simp
  from p1 p2 p3 p4 p5 p6 p7 p8 p9 p10 p11 show ?thesis by blast
qed

lemma validateIndexJSON_sample:
  "validateIndexJSON (Some (Directory sample_tree)) = Inr sample_index"
  by (simp add: sample_tree_def sample_index_def index_at_def validateIndexJSON_def
      TrimSpace_def is_ascii_space_def byte_def validateSemanticVersion_def
      semverPattern_matches_def semver_suffix_def is_digit_def validateRegistryName_def
      namePattern_matches_def is_lower_def)

theorem ValidateStructure_fails_fast_with_reasons_witness:
  "ValidateStructure None = Inl (IndexValidationFailed IndexJSONNotFound)
   \<and> ValidateStructure (Some (Directory old_version_tree)) =
        Inl (IndexValidationFailed (InvalidVersionFormat (NotSemanticVersion ''1.0'')))
   \<and> ValidateStructure (Some (Directory sample_tree)) = Inl (ModuleValidationFailed NoModules)
   \<and> ValidateStructure (Some (Directory mismatch_tree)) =
        Inl (ModuleValidationFailed
               (ModuleFailed ''git-helpers'' (ModuleNameMismatch ''git-tools'' ''git-helpers'')))"
proof -
  have a: "index_at None = IndexMissing" by (simp add: index_at_def)
  have b: "index_at (Some (Directory old_version_tree)) =
             IndexParsed (sample_index\<lparr>index_Version := ''1.0''\<rparr>)
           \<and> index_Version (sample_index\<lparr>index_Version := ''1.0''\<rparr>) = ''1.0''
           \<and> TrimSpace (index_Name (sample_index\<lparr>index_Version := ''1.0''\<rparr>)) \<noteq> []
           \<and> TrimSpace (index_Description (sample_index\<lparr>index_Version := ''1.0''\<rparr>)) \<noteq> []"
    by (simp add: index_at_def old_version_tree_def sample_tree_def sample_index_def
        TrimSpace_def is_ascii_space_def byte_def)
  have c: "validateIndexJSON (Some (Directory sample_tree)) = Inr sample_index
           \<and> index_Modules sample_index = []"
    by (simp add: validateIndexJSON_sample) (simp add: sample_index_def)
  have d: "validateIndexJSON (Some (Directory mismatch_tree)) =
             Inr (sample_index\<lparr>index_Modules := [(''git-helpers'', sample_module)]\<rparr>)
           \<and> index_Modules (sample_index\<lparr>index_Modules := [(''git-helpers'', sample_module)]\<rparr>)
               = [] @ (''git-helpers'', sample_module) # []
           \<and> (\<forall>(k, m) \<in> set []. validateSingleModule (Some (Directory mismatch_tree)) k m = Inr ())
           \<and> TrimSpace (module_Name sample_module) \<noteq> []
           \<and> module_Name sample_module \<noteq> ''git-helpers''"
    by (simp add: mismatch_tree_def sample_tree_def sample_index_def sample_module_def
        index_at_def validateIndexJSON_def TrimSpace_def is_ascii_space_def byte_def
        validateSemanticVersion_def semverPattern_matches_def semver_suffix_def is_digit_def
        validateRegistryName_def namePattern_matches_def is_lower_def)
  have n: "module_Name sample_module = ''git-tools''" by (simp add: sample_module_def)
  from ValidateStructure_fails_fast_with_reasons [where repo = None] a
  have r1: "ValidateStructure None = Inl (IndexValidationFailed IndexJSONNotFound)"
    by blast
  from ValidateStructure_fails_fast_with_reasons
         [where repo = "Some (Directory old_version_tree)"
            and index = "sample_index\<lparr>index_Version := ''1.0''\<rparr>"] b
  have r2: "ValidateStructure (Some (Directory old_version_tree)) =
        Inl (IndexValidationFailed (InvalidVersionFormat (NotSemanticVersion ''1.0'')))"
    by blast
  from ValidateStructure_fails_fast_with_reasons
         [where repo = "Some (Directory sample_tree)" and index = sample_index] c
  have r3: "ValidateStructure (Some (Directory sample_tree)) =
              Inl (ModuleValidationFailed NoModules)"
    by blast
  from ValidateStructure_fails_fast_with_reasons
         [where repo = "Some (Directory mismatch_tree)"
            and index = "sample_index\<lparr>index_Modules := [(''git-helpers'', sample_module)]\<rparr>"
            and pre = "[]" and post = "[]" and moduleKey = "''git-helpers''"
            and module = sample_module] d
  have r4: "ValidateStructure (Some (Directory mismatch_tree)) =
        Inl (ModuleValidationFailed
               (ModuleFailed ''git-helpers''
                  (ModuleNameMismatch (module_Name sample_module) ''git-helpers'')))"
    by blast
  from r1 r2 r3 r4 n show ?thesis by simp
qed

section \<open>Properties of the persisted list\<close>

lemma coerce_utf8_valid: "ValidString_from k s \<Longrightarrow> coerce_utf8 k s = s"
  by (induction k s rule: coerce_utf8.induct) auto

lemma json_string_valid: "utf8_ValidString s \<Longrightarrow> json_string s = s"
  by (simp add: utf8_ValidString_def json_string_def coerce_utf8_valid)

lemma fold_key_tags:
  "fold_key ''url'' = ''url''"
  "fold_key ''name'' = ''name''"
  "fold_key ''description'' = ''description''"
  "fold_key ''added_at'' = ''added_at''"
  "fold_key ''last_sync'' = ''last_sync''"
  by (simp_all add: lower_ascii_def byte_def)

lemma unmarshal_member_fields:
  "unmarshal_member codec (''url'', JString s) r = Some (r\<lparr>URL := json_string s\<rparr>)"
  "unmarshal_member codec (''name'', JString s) r = Some (r\<lparr>Name := json_string s\<rparr>)"
  "unmarshal_member codec (''description'', JString s) r =
     Some (r\<lparr>Description := json_string s\<rparr>)"
  "unmarshal_member codec (''added_at'', JString s) r =
     map_option (\<lambda>v. r\<lparr>AddedAt := v\<rparr>) (time_UnmarshalJSON codec s)"
  "unmarshal_member codec (''last_sync'', JString s) r =
     map_option (\<lambda>v. r\<lparr>LastSync := v\<rparr>) (time_UnmarshalJSON codec s)"
  unfolding unmarshal_member_def Let_def fst_conv snd_conv fold_key_tags
  by (simp_all add: unmarshal_string_def unmarshal_time_def)

text \<open>What a record is after it has been written and read again.\<close>

lemma unmarshal_marshal_Registry:
  assumes "time_MarshalJSON codec (AddedAt r) = Some a"
    and "time_UnmarshalJSON codec a = Some (AddedAt r)"
    and "time_MarshalJSON codec (LastSync r) = Some l"
    and "time_UnmarshalJSON codec l = Some (LastSync r)"
  shows "\<exists>j. marshal_Registry codec r = Some j
           \<and> unmarshal_Registry codec j =
               Some \<lparr> URL = json_string (json_string (URL r)),
                      Name = json_string (json_string (Name r)),
                      Description = (if Description r = [] then []
                                     else json_string (json_string (Description r))),
                      AddedAt = AddedAt r, LastSync = LastSync r \<rparr>"
proof (cases "Description r = []")
  case True
  have m: "marshal_Registry codec r =
      Some (JObject [(''url'', JString (json_string (URL r))),
                     (''name'', JString (json_string (Name r))),
                     (''added_at'', JString a), (''last_sync'', JString l)])"
    using assms True by (simp add: marshal_Registry_def)
  have u: "unmarshal_Registry codec
             (JObject [(''url'', JString (json_string (URL r))),
                       (''name'', JString (json_string (Name r))),
                       (''added_at'', JString a), (''last_sync'', JString l)]) =
           Some \<lparr> URL = json_string (json_string (URL r)),
                  Name = json_string (json_string (Name r)),
                  Description = [], AddedAt = AddedAt r, LastSync = LastSync r \<rparr>"
    using assms
    by (simp add: unmarshal_Registry_def unmarshal_member_fields zero_Registry_def)
  from m u True show ?thesis by simp
next
  case False
  have m: "marshal_Registry codec r =
      Some (JObject [(''url'', JString (json_string (URL r))),
                     (''name'', JString (json_string (Name r))),
                     (''description'', JString (json_string (Description r))),
                     (''added_at'', JString a), (''last_sync'', JString l)])"
    using assms False by (simp add: marshal_Registry_def)
  have u: "unmarshal_Registry codec
             (JObject [(''url'', JString (json_string (URL r))),
                       (''name'', JString (json_string (Name r))),
                       (''description'', JString (json_string (Description r))),
                       (''added_at'', JString a), (''last_sync'', JString l)]) =
           Some \<lparr> URL = json_string (json_string (URL r)),
                  Name = json_string (json_string (Name r)),
                  Description = json_string (json_string (Description r)),
                  AddedAt = AddedAt r, LastSync = LastSync r \<rparr>"
    using assms
    by (simp add: unmarshal_Registry_def unmarshal_member_fields zero_Registry_def)
  from m u False show ?thesis by simp
qed

lemma unmarshal_marshal_list:
  assumes "\<forall>r \<in> set rs.
             (\<exists>s. time_MarshalJSON codec (AddedAt r) = Some s
                  \<and> time_UnmarshalJSON codec s = Some (AddedAt r))
           \<and> (\<exists>s. time_MarshalJSON codec (LastSync r) = Some s
                  \<and> time_UnmarshalJSON codec s = Some (LastSync r))"
  shows "\<exists>js. marshal_list codec rs = Some js
           \<and> (\<exists>rs'. unmarshal_list codec js = Some rs'
                 \<and> map AddedAt rs' = map AddedAt rs
                 \<and> map LastSync rs' = map LastSync rs
                 \<and> map URL rs' = map (\<lambda>r. json_string (json_string (URL r))) rs
                 \<and> map Name rs' = map (\<lambda>r. json_string (json_string (Name r))) rs)"
  using assms
proof (induction rs)
  case Nil
  then show ?case by simp
next
  case (Cons r rs)
  from Cons.prems obtain a l where
    t: "time_MarshalJSON codec (AddedAt r) = Some a" "time_UnmarshalJSON codec a = Some (AddedAt r)"
       "time_MarshalJSON codec (LastSync r) = Some l" "time_UnmarshalJSON codec l = Some (LastSync r)"
    by auto
  from unmarshal_marshal_Registry [OF t] obtain j where
    j: "marshal_Registry codec r = Some j"
       "unmarshal_Registry codec j =
               Some \<lparr> URL = json_string (json_string (URL r)),
                      Name = json_string (json_string (Name r)),
                      Description = (if Description r = [] then []
                                     else json_string (json_string (Description r))),
                      AddedAt = AddedAt r, LastSync = LastSync r \<rparr>"
    by blast
  from Cons.IH Cons.prems obtain js rs' where
    ih: "marshal_list codec rs = Some js" "unmarshal_list codec js = Some rs'"
        "map AddedAt rs' = map AddedAt rs" "map LastSync rs' = map LastSync rs"
        "map URL rs' = map (\<lambda>r. json_string (json_string (URL r))) rs"
        "map Name rs' = map (\<lambda>r. json_string (json_string (Name r))) rs"
    by auto
  from j ih show ?case by simp
qed

lemma tuples_from_columns:
  assumes "map Name xs = map Name ys" and "map URL xs = map URL ys"
    and "map AddedAt xs = map AddedAt ys" and "map LastSync xs = map LastSync ys"
  shows "map (\<lambda>r. (Name r, URL r, AddedAt r, LastSync r)) xs =
         map (\<lambda>r. (Name r, URL r, AddedAt r, LastSync r)) ys"
proof -
  from assms(1) have len: "length xs = length ys" by (metis length_map)
  show ?thesis
  proof (rule nth_equalityI)
    show "length (map (\<lambda>r. (Name r, URL r, AddedAt r, LastSync r)) xs) =
          length (map (\<lambda>r. (Name r, URL r, AddedAt r, LastSync r)) ys)"
      using len by simp
  next
    fix i assume "i < length (map (\<lambda>r. (Name r, URL r, AddedAt r, LastSync r)) xs)"
    then have i: "i < length xs" "i < length ys" using len by simp_all
    from assms i have "Name (xs ! i) = Name (ys ! i)" "URL (xs ! i) = URL (ys ! i)"
      "AddedAt (xs ! i) = AddedAt (ys ! i)" "LastSync (xs ! i) = LastSync (ys ! i)"
      by (metis nth_map)+
    with i show "map (\<lambda>r. (Name r, URL r, AddedAt r, LastSync r)) xs ! i =
                 map (\<lambda>r. (Name r, URL r, AddedAt r, LastSync r)) ys ! i"
      by simp
  qed
qed

text \<open>
  C8. The claim is that saving any list and loading it again gives back the same
  (name, url, added\_at, last\_sync) tuples. A name or URL that is not valid UTF-8 does not
  come back: JSON strings are coerced to valid UTF-8 when written. What holds: when the
  names and URLs are valid UTF-8, each time has an RFC 3339 form that
  \<^verbatim>\<open>Time.UnmarshalJSON\<close> reads back to it, and the file can be written, then saving
  succeeds, and a fresh client loads a list with the same tuples, in the same order.
\<close>

theorem save_then_load_keeps_tuples:
  "(\<forall>r \<in> set (registries st).
        utf8_ValidString (URL r) \<and> utf8_ValidString (Name r)
        \<and> (\<exists>s. time_MarshalJSON codec (AddedAt r) = Some s
               \<and> time_UnmarshalJSON codec s = Some (AddedAt r))
        \<and> (\<exists>s. time_MarshalJSON codec (LastSync r) = Some s
               \<and> time_UnmarshalJSON codec s = Some (LastSync r)))
   \<and> write_leaves w = None \<longrightarrow>
     fst (saveRegistries codec w st) = Inr ()
     \<and> (\<exists>st2. loadRegistries codec (snd (saveRegistries codec w st)) = Inr st2
           \<and> map (\<lambda>r. (Name r, URL r, AddedAt r, LastSync r)) (registries st2) =
               map (\<lambda>r. (Name r, URL r, AddedAt r, LastSync r)) (registries st))"
proof
  assume a: "(\<forall>r \<in> set (registries st).
        utf8_ValidString (URL r) \<and> utf8_ValidString (Name r)
        \<and> (\<exists>s. time_MarshalJSON codec (AddedAt r) = Some s
               \<and> time_UnmarshalJSON codec s = Some (AddedAt r))
        \<and> (\<exists>s. time_MarshalJSON codec (LastSync r) = Some s
               \<and> time_UnmarshalJSON codec s = Some (LastSync r)))
   \<and> write_leaves w = None"
  then have times: "\<forall>r \<in> set (registries st).
             (\<exists>s. time_MarshalJSON codec (AddedAt r) = Some s
                  \<and> time_UnmarshalJSON codec s = Some (AddedAt r))
           \<and> (\<exists>s. time_MarshalJSON codec (LastSync r) = Some s
                  \<and> time_UnmarshalJSON codec s = Some (LastSync r))"
    by blast
  from unmarshal_marshal_list [OF times] obtain js rs' where
    m: "marshal_list codec (registries st) = Some js"
    and u: "unmarshal_list codec js = Some rs'"
    and cols: "map AddedAt rs' = map AddedAt (registries st)"
      "map LastSync rs' = map LastSync (registries st)"
      "map URL rs' = map (\<lambda>r. json_string (json_string (URL r))) (registries st)"
      "map Name rs' = map (\<lambda>r. json_string (json_string (Name r))) (registries st)"
    by blast
  from a have "map (\<lambda>r. json_string (json_string (URL r))) (registries st)
                 = map URL (registries st)"
    by (simp add: json_string_valid)
  with cols have cu: "map URL rs' = map URL (registries st)" by simp
  from a have "map (\<lambda>r. json_string (json_string (Name r))) (registries st)
                 = map Name (registries st)"
    by (simp add: json_string_valid)
  with cols have cn: "map Name rs' = map Name (registries st)" by simp
  have tup: "map (\<lambda>r. (Name r, URL r, AddedAt r, LastSync r)) rs' =
             map (\<lambda>r. (Name r, URL r, AddedAt r, LastSync r)) (registries st)"
    using tuples_from_columns [OF cn cu cols(1) cols(2)] .
  from a m have s: "saveRegistries codec w st =
      (Inr (), (record_action (WriteFile (JArray js)) st)
                 \<lparr>registries_file := Some (Document (JArray js))\<rparr>)"
    by (simp add: saveRegistries_def json_MarshalIndent_def Let_def)
  have l: "loadRegistries codec (snd (saveRegistries codec w st)) =
      Inr ((snd (saveRegistries codec w st))\<lparr>registries := rs'\<rparr>)"
    using u by (simp add: s loadRegistries_def json_Unmarshal_def)
  from s l tup
  show "fst (saveRegistries codec w st) = Inr ()
     \<and> (\<exists>st2. loadRegistries codec (snd (saveRegistries codec w st)) = Inr st2
           \<and> map (\<lambda>r. (Name r, URL r, AddedAt r, LastSync r)) (registries st2) =
               map (\<lambda>r. (Name r, URL r, AddedAt r, LastSync r)) (registries st))"
    by simp
qed

lemma utf8_ValidString_samples:
  "utf8_ValidString ''https://example.com/o/r''" "utf8_ValidString ''reg''"
  by (simp_all add: utf8_ValidString_def byte_def Let_def)

theorem save_then_load_keeps_tuples_witness:
  "fst (saveRegistries table_codec calm_world one_state) = Inr ()
   \<and> (\<exists>st2. loadRegistries table_codec (snd (saveRegistries table_codec calm_world one_state))
               = Inr st2
         \<and> map (\<lambda>r. (Name r, URL r, AddedAt r, LastSync r)) (registries st2) =
             [(''reg'', ''https://example.com/o/r'', 0, 0)])"
proof -
  have h: "(\<forall>r \<in> set (registries one_state).
        utf8_ValidString (URL r) \<and> utf8_ValidString (Name r)
        \<and> (\<exists>s. time_MarshalJSON table_codec (AddedAt r) = Some s
               \<and> time_UnmarshalJSON table_codec s = Some (AddedAt r))
        \<and> (\<exists>s. time_MarshalJSON table_codec (LastSync r) = Some s
               \<and> time_UnmarshalJSON table_codec s = Some (LastSync r)))
   \<and> write_leaves calm_world = None"
    by (simp add: one_state_def sample_registry_def utf8_ValidString_samples table_codec_def
        calm_world_def)
  have t: "map (\<lambda>r. (Name r, URL r, AddedAt r, LastSync r)) (registries one_state) =
             [(''reg'', ''https://example.com/o/r'', 0, 0)]"
    by (simp add: one_state_def sample_registry_def)
  note r = save_then_load_keeps_tuples
             [where st = one_state and codec = table_codec and w = calm_world, THEN mp, OF h]
  from r show ?thesis unfolding t .
qed

text \<open>
  Against C8 as stated: a record whose name is the single byte FF, which is not valid
  UTF-8, is saved with the name U+FFFD and loaded with the bytes EF BF BD.
\<close>

theorem save_then_load_changes_invalid_name:
  "Name odd_registry = [CHR 0xFF]
   \<and> fst (saveRegistries table_codec calm_world (empty_state\<lparr>registries := [odd_registry]\<rparr>))
       = Inr ()
   \<and> (\<exists>st2. loadRegistries table_codec
               (snd (saveRegistries table_codec calm_world
                       (empty_state\<lparr>registries := [odd_registry]\<rparr>))) = Inr st2
         \<and> map (\<lambda>r. (Name r, URL r, AddedAt r, LastSync r)) (registries st2) =
             [([CHR 0xEF, CHR 0xBF, CHR 0xBD], ''https://example.com/o/r'', 0, 0)]
         \<and> map (\<lambda>r. (Name r, URL r, AddedAt r, LastSync r)) (registries st2) \<noteq>
             map (\<lambda>r. (Name r, URL r, AddedAt r, LastSync r)) [odd_registry])"
proof -
  have c1: "json_string [CHR 0xFF] = [CHR 0xEF, CHR 0xBF, CHR 0xBD]"
    by (simp add: json_string_def byte_def Let_def)
  have c2: "json_string [CHR 0xEF, CHR 0xBF, CHR 0xBD] = [CHR 0xEF, CHR 0xBF, CHR 0xBD]"
    by (simp add: json_string_def byte_def is_cont_def Let_def)
  have c3: "json_string ''https://example.com/o/r'' = ''https://example.com/o/r''"
    using utf8_ValidString_samples(1) by (rule json_string_valid)
  have tu: "time_UnmarshalJSON table_codec ''T0'' = Some 0"
    by (simp add: table_codec_def)
  have m: "json_MarshalIndent table_codec [odd_registry] =
      Some (JArray [JObject
          [(''url'', JString ''https://example.com/o/r''),
           (''name'', JString [CHR 0xEF, CHR 0xBF, CHR 0xBD]),
           (''added_at'', JString ''T0''), (''last_sync'', JString ''T0'')]])"
    by (simp add: json_MarshalIndent_def marshal_Registry_def odd_registry_def
        sample_registry_def table_codec_def c1 c3)
  have u: "json_Unmarshal table_codec (JArray [JObject
          [(''url'', JString ''https://example.com/o/r''),
           (''name'', JString [CHR 0xEF, CHR 0xBF, CHR 0xBD]),
           (''added_at'', JString ''T0''), (''last_sync'', JString ''T0'')]]) =
      Some [\<lparr> URL = ''https://example.com/o/r'', Name = [CHR 0xEF, CHR 0xBF, CHR 0xBD],
              Description = [], AddedAt = 0, LastSync = 0 \<rparr>]"
    by (simp add: json_Unmarshal_def unmarshal_Registry_def unmarshal_member_fields
        zero_Registry_def zero_time_def c2 c3 tu)
  have s: "saveRegistries table_codec calm_world (empty_state\<lparr>registries := [odd_registry]\<rparr>) =
      (Inr (),
       \<lparr> registries = [odd_registry],
         registries_file = Some (Document (JArray [JObject
          [(''url'', JString ''https://example.com/o/r''),
           (''name'', JString [CHR 0xEF, CHR 0xBF, CHR 0xBD]),
           (''added_at'', JString ''T0''), (''last_sync'', JString ''T0'')]])),
         cache = NoCacheDir,
         actions = [WriteFile (JArray [JObject
          [(''url'', JString ''https://example.com/o/r''),
           (''name'', JString [CHR 0xEF, CHR 0xBF, CHR 0xBD]),
           (''added_at'', JString ''T0''), (''last_sync'', JString ''T0'')]])] \<rparr>)"
    by (simp add: saveRegistries_def m empty_state_def record_action_def calm_world_def)
  have n: "Name odd_registry = [CHR 0xFF]"
    by (simp add: odd_registry_def)
  have o: "map (\<lambda>r. (Name r, URL r, AddedAt r, LastSync r)) [odd_registry] =
             [([CHR 0xFF], ''https://example.com/o/r'', 0, 0)]"
    by (simp add: odd_registry_def sample_registry_def)
  show ?thesis
    by (simp add: n s loadRegistries_def u o)
qed

end
